theory Spec2Isabelle
  imports Main "HOL-Library.Log_Nat"
begin

section \<open>JavaScript values used by the server\<close>

subsection \<open>Numbers\<close>

text \<open>
  A JavaScript number is an IEEE-754 double. \<open>Fin m e\<close> is the finite double of value
  \<open>m * 2 ^ e\<close>; the arithmetic below rounds every exact result to the nearest double,
  ties to even, with gradual underflow at exponent \<open>-1074\<close> and overflow to an infinity.
  Signed zeros are not distinguished.
\<close>

datatype jsnum = Fin int int | PosInf | NegInf | NaN

definition dval :: "int \<Rightarrow> int \<Rightarrow> rat" where
  "dval m e = (if 0 \<le> e then of_int m * 2 ^ nat e else of_int m / 2 ^ nat (- e))"

definition round_half_even :: "int \<Rightarrow> int \<Rightarrow> int" where
  "round_half_even n d =
     (let q = n div d; r = n mod d
      in if d < 2 * r \<or> (2 * r = d \<and> odd q) then q + 1 else q)"

definition binade :: "int \<Rightarrow> int \<Rightarrow> int" where
  "binade n d =
     (let e0 = bitlen n - bitlen d - 53;
          e1 = (if 0 \<le> e0 then (if 2 ^ 53 * (d * 2 ^ nat e0) \<le> n then e0 + 1 else e0)
                else (if 2 ^ 53 * d \<le> n * 2 ^ nat (- e0) then e0 + 1 else e0))
      in max e1 (- 1074))"

definition round_ratio :: "int \<Rightarrow> int \<Rightarrow> jsnum" where
  "round_ratio n d =
     (if n = 0 then Fin 0 0
      else let a = \<bar>n\<bar>; e = binade a d;
               m = (if 0 \<le> e then round_half_even a (d * 2 ^ nat e)
                    else round_half_even (a * 2 ^ nat (- e)) d)
           in if 971 < e \<or> (e = 971 \<and> m = 2 ^ 53)
              then (if n < 0 then NegInf else PosInf)
              else Fin (sgn n * m) e)"

definition js_decimal :: "int \<Rightarrow> nat \<Rightarrow> jsnum" where
  "js_decimal digits scale = round_ratio digits (10 ^ scale)"

text \<open>An array length (below \<open>2 ^ 32\<close>) as a number.\<close>

definition js_nat :: "nat \<Rightarrow> jsnum" where
  "js_nat n = Fin (int n) 0"

definition Number_of_BigInt :: "int \<Rightarrow> jsnum" where
  "Number_of_BigInt i = round_ratio i 1"

definition is_zero :: "jsnum \<Rightarrow> bool" where
  "is_zero x = (case x of Fin m e \<Rightarrow> m = 0 | _ \<Rightarrow> False)"

definition is_negative :: "jsnum \<Rightarrow> bool" where
  "is_negative x = (case x of Fin m e \<Rightarrow> m < 0 | NegInf \<Rightarrow> True | _ \<Rightarrow> False)"

fun js_mul :: "jsnum \<Rightarrow> jsnum \<Rightarrow> jsnum" where
  "js_mul (Fin m1 e1) (Fin m2 e2) =
     (if 0 \<le> e1 + e2 then round_ratio (m1 * m2 * 2 ^ nat (e1 + e2)) 1
      else round_ratio (m1 * m2) (2 ^ nat (- (e1 + e2))))"
| "js_mul NaN y = NaN"
| "js_mul x NaN = NaN"
| "js_mul x y =
     (if is_zero x \<or> is_zero y then NaN
      else if is_negative x = is_negative y then PosInf else NegInf)"

fun js_div :: "jsnum \<Rightarrow> jsnum \<Rightarrow> jsnum" where
  "js_div (Fin m1 e1) (Fin m2 e2) =
     (if m2 = 0 then (if m1 = 0 then NaN else if 0 < m1 then PosInf else NegInf)
      else if 0 \<le> e1 - e2 then round_ratio (sgn m2 * m1 * 2 ^ nat (e1 - e2)) \<bar>m2\<bar>
      else round_ratio (sgn m2 * m1) (\<bar>m2\<bar> * 2 ^ nat (e2 - e1)))"
| "js_div NaN y = NaN"
| "js_div x NaN = NaN"
| "js_div (Fin m e) y = Fin 0 0"
| "js_div x (Fin m e) = (if is_negative x = (m < 0) then PosInf else NegInf)"
| "js_div x y = NaN"

fun Math_floor :: "jsnum \<Rightarrow> jsnum" where
  "Math_floor (Fin m e) =
     (if 0 \<le> e then Fin (m * 2 ^ nat e) 0 else Fin (m div 2 ^ nat (- e)) 0)"
| "Math_floor x = x"

fun js_less :: "jsnum \<Rightarrow> jsnum \<Rightarrow> bool" where
  "js_less (Fin m1 e1) (Fin m2 e2) = (dval m1 e1 < dval m2 e2)"
| "js_less NaN y = False"
| "js_less x NaN = False"
| "js_less x PosInf = (x \<noteq> PosInf)"
| "js_less NegInf y = (y \<noteq> NegInf)"
| "js_less x y = False"

fun js_equal :: "jsnum \<Rightarrow> jsnum \<Rightarrow> bool" where
  "js_equal (Fin m1 e1) (Fin m2 e2) = (dval m1 e1 = dval m2 e2)"
| "js_equal NaN y = False"
| "js_equal x NaN = False"
| "js_equal x y = (x = y)"

definition Math_min :: "jsnum \<Rightarrow> jsnum \<Rightarrow> jsnum" where
  "Math_min x y = (if x = NaN \<or> y = NaN then NaN else if js_less y x then y else x)"

definition LAMPORTS_PER_SOL :: jsnum where
  "LAMPORTS_PER_SOL = Fin 1000000000 0"

subsection \<open>Thrown values\<close>

text \<open>
  What a \<open>throw\<close> carries: an \<open>Error\<close> object of the given class with its message, or
  some other value, of which only its string conversion is kept.
\<close>

datatype error = Error string | TypeError string | RangeError string | Thrown string

fun is_Error :: "error \<Rightarrow> bool" where
  "is_Error (Thrown v) = False"
| "is_Error e = True"

fun message :: "error \<Rightarrow> string" where
  "message (Error m) = m"
| "message (TypeError m) = m"
| "message (RangeError m) = m"
| "message (Thrown v) = v"

definition named :: "string \<Rightarrow> string \<Rightarrow> string" where
  "named cls m = (if m = [] then cls else cls @ '': '' @ m)"

fun String_of_error :: "error \<Rightarrow> string" where
  "String_of_error (Error m) = named ''Error'' m"
| "String_of_error (TypeError m) = named ''TypeError'' m"
| "String_of_error (RangeError m) = named ''RangeError'' m"
| "String_of_error (Thrown v) = v"

definition quoted :: "string \<Rightarrow> string" where
  "quoted s = [CHR 0x27] @ s @ [CHR 0x27]"

definition backticked :: "string \<Rightarrow> string" where
  "backticked s = [CHR 0x60] @ s @ [CHR 0x60]"

subsection \<open>Result payloads\<close>

text \<open>
  The values a handler returns. \<open>JMember k\<close> is the member \<open>k\<close> inherited from
  \<open>Object.prototype\<close>.
\<close>

datatype json =
    JUndefined
  | JNull
  | JBool bool
  | JNum jsnum
  | JStr string
  | JArr "json list"
  | JObj "(string \<times> json) list"
  | JMember string

fun truthy :: "json \<Rightarrow> bool" where
  "truthy JUndefined = False"
| "truthy JNull = False"
| "truthy (JBool b) = b"
| "truthy (JNum x) = (x \<noteq> NaN \<and> \<not> is_zero x)"
| "truthy (JStr s) = (s \<noteq> [])"
| "truthy (JArr xs) = True"
| "truthy (JObj kvs) = True"
| "truthy (JMember k) = True"

definition js_or :: "json \<Rightarrow> json \<Rightarrow> json" where
  "js_or a b = (if truthy a then a else b)"

text \<open>Optional member access \<open>v?.k\<close>.\<close>

fun opt_get :: "json \<Rightarrow> string \<Rightarrow> json" where
  "opt_get (JObj kvs) k = (case map_of kvs k of Some v \<Rightarrow> v | None \<Rightarrow> JUndefined)"
| "opt_get v k = JUndefined"

fun js_strict_equal :: "json \<Rightarrow> json \<Rightarrow> bool" where
  "js_strict_equal (JNum x) (JNum y) = js_equal x y"
| "js_strict_equal (JArr xs) b = False"
| "js_strict_equal (JObj kvs) b = False"
| "js_strict_equal a b = (a = b)"

text \<open>Decimal text of a big integer (\<open>BigInt.prototype.toString\<close>).\<close>

fun digits_of :: "nat \<Rightarrow> string" where
  "digits_of n =
     (if n < 10 then [char_of (48 + n)] else digits_of (n div 10) @ [char_of (48 + n mod 10)])"

definition String_of_int :: "int \<Rightarrow> string" where
  "String_of_int i = (if i < 0 then CHR ''-'' # digits_of (nat (- i)) else digits_of (nat i))"

text \<open>
  Reading a property of an object literal by a computed key finds the object's own
  property or, failing that, a member inherited from \<open>Object.prototype\<close>.
\<close>

datatype 'a lookup = Own 'a | Inherited string | Undefined

definition Object_prototype :: "string list" where
  "Object_prototype =
     [''constructor'', ''__defineGetter__'', ''__defineSetter__'', ''hasOwnProperty'',
      ''__lookupGetter__'', ''__lookupSetter__'', ''isPrototypeOf'', ''propertyIsEnumerable'',
      ''toString'', ''valueOf'', ''__proto__'', ''toLocaleString'']"

definition property :: "(string \<times> 'a) list \<Rightarrow> string \<Rightarrow> 'a lookup" where
  "property obj k =
     (case map_of obj k of
        Some v \<Rightarrow> Own v
      | None \<Rightarrow> if k \<in> set Object_prototype then Inherited k else Undefined)"

subsection \<open>Maps\<close>

text \<open>A \<open>Map\<close> keeps its entries in insertion order, one entry per key.\<close>

definition Map_has :: "('k \<times> 'v) list \<Rightarrow> 'k \<Rightarrow> bool" where
  "Map_has m k = (map_of m k \<noteq> None)"

definition Map_get :: "('k \<times> 'v) list \<Rightarrow> 'k \<Rightarrow> 'v option" where
  "Map_get m k = map_of m k"

definition Map_set :: "('k \<times> 'v) list \<Rightarrow> 'k \<Rightarrow> 'v \<Rightarrow> ('k \<times> 'v) list" where
  "Map_set m k v =
     (if Map_has m k then map (\<lambda>(k', v'). if k' = k then (k', v) else (k', v')) m
      else m @ [(k, v)])"

definition Map_values :: "('k \<times> 'v) list \<Rightarrow> 'v list" where
  "Map_values m = map snd m"

definition Map_size :: "('k \<times> 'v) list \<Rightarrow> nat" where
  "Map_size m = length m"

subsection \<open>Promises\<close>

text \<open>
  A promise either never settles, or settles some milliseconds after it was created,
  fulfilled (\<open>Inr\<close>) or rejected (\<open>Inl\<close>). A timer fires exactly at its delay; when
  both promises of a race settle in the same millisecond the one listed first wins.
\<close>

datatype 'a promise = Pending | Settled nat "error + 'a"

fun Promise_race :: "'a promise \<Rightarrow> 'a promise \<Rightarrow> 'a promise" where
  "Promise_race Pending q = q"
| "Promise_race (Settled t r) Pending = Settled t r"
| "Promise_race (Settled t1 r1) (Settled t2 r2) =
     (if t2 < t1 then Settled t2 r2 else Settled t1 r1)"

definition setTimeout_reject :: "error \<Rightarrow> nat \<Rightarrow> 'a promise" where
  "setTimeout_reject e ms = Settled ms (Inl e)"

definition withTimeout :: "'a promise \<Rightarrow> nat option \<Rightarrow> 'a promise" where
  "withTimeout promise timeoutMs =
     (let ms = (case timeoutMs of None \<Rightarrow> 10000 | Some t \<Rightarrow> t);
          timeoutPromise = setTimeout_reject (Error ''Operation timed out'') ms
      in Promise_race promise timeoutPromise)"

section \<open>The ledger client libraries\<close>

type_synonym pubkey = string

record Keypair =
  publicKey :: pubkey
  secretKey :: "nat list"

text \<open>
  An instruction as it is serialised: the amount of a transfer is the unsigned 64-bit
  integer that the eight bytes of its data field hold.
\<close>

datatype instruction =
    SystemTransfer pubkey pubkey int
  | createAssociatedTokenAccountInstruction pubkey pubkey pubkey pubkey
  | TokenTransfer pubkey pubkey pubkey int

text \<open>
  The two libraries write an amount into its eight bytes differently. The codec of
  \<open>@solana/web3.js\<close> checks the range and throws outside it.
\<close>

definition u64_out_of_range :: "int \<Rightarrow> error" where
  "u64_out_of_range n =
     Error (''Codec [u64] expected number to be in the range [0, 18446744073709551615], got ''
            @ String_of_int n @ ''.'')"

definition encode_u64 :: "int \<Rightarrow> error + int" where
  "encode_u64 n = (if 0 \<le> n \<and> n < 2 ^ 64 then Inr n else Inl (u64_out_of_range n))"

text \<open>
  The layout of \<open>@solana/spl-token\<close> writes the hexadecimal text of the amount, padded
  with zeros to sixteen characters and cut after the sixteenth, into the bytes. The text
  of a negative amount holds a minus sign, which ends the bytes early, and the layout
  refuses fewer than eight bytes. Of an amount of more than sixteen hexadecimal digits
  the leading sixteen are kept.
\<close>

definition hex_length :: "int \<Rightarrow> nat" where
  "hex_length n = nat ((bitlen n + 3) div 4)"

definition toBufferLE_8 :: "int \<Rightarrow> error + int" where
  "toBufferLE_8 n =
     (if n < 0 then Inl (TypeError ''Blob.encode[amount] requires (length 8) Uint8Array as src'')
      else Inr (n div 16 ^ (hex_length n - 16)))"

definition createTransferInstruction ::
  "pubkey \<Rightarrow> pubkey \<Rightarrow> pubkey \<Rightarrow> int \<Rightarrow> error + instruction" where
  "createTransferInstruction source destination owner amount =
     (case toBufferLE_8 amount of
        Inl e \<Rightarrow> Inl e
      | Inr v \<Rightarrow> Inr (TokenTransfer source destination owner v))"

record Transaction =
  instructions :: "instruction list"
  recentBlockhash :: "string option"
  feePayer :: "pubkey option"
  signers :: "Keypair list"

definition new_Transaction :: Transaction where
  "new_Transaction =
     \<lparr>instructions = [], recentBlockhash = None, feePayer = None, signers = []\<rparr>"

definition add :: "Transaction \<Rightarrow> instruction \<Rightarrow> Transaction" where
  "add tx i = tx\<lparr>instructions := instructions tx @ [i]\<rparr>"

definition sign :: "Transaction \<Rightarrow> Keypair \<Rightarrow> Transaction" where
  "sign tx kp = tx\<lparr>signers := [kp]\<rparr>"

record Connection =
  rpcEndpoint :: string
  commitment :: string

datatype AuthorityType = MintTokens | FreezeAccount | AccountOwner | CloseAccount

text \<open>Every asynchronous request the handlers make, with its arguments.\<close>

datatype call =
    getBalance Connection pubkey
  | getAccount Connection pubkey
  | getLatestBlockhash Connection
  | sendTransaction Connection Transaction "Keypair list"
  | requestAirdrop Connection pubkey jsnum
  | getAccountInfo Connection pubkey
  | getTransaction Connection string
  | getVersion Connection
  | getEpochInfo Connection
  | getTokenAccountsByOwner Connection pubkey pubkey
  | getParsedTokenAccountsByOwner Connection pubkey pubkey
  | getSignaturesForAddress Connection pubkey jsnum "string option"
  | createMint Connection Keypair pubkey "pubkey option" jsnum
  | getMint Connection pubkey
  | mintTo Connection Keypair pubkey pubkey Keypair int
  | burn Connection Keypair pubkey pubkey Keypair int
  | freezeAccount Connection Keypair pubkey pubkey Keypair
  | thawAccount Connection Keypair pubkey pubkey Keypair
  | setAuthority Connection Keypair pubkey Keypair "AuthorityType lookup" "pubkey option"
  | closeAccount Connection Keypair pubkey pubkey Keypair
  | approve Connection Keypair pubkey pubkey Keypair int
  | revoke Connection Keypair pubkey Keypair
  | fetch string

record Account =
  acct_amount :: int
  acct_mint :: pubkey

record Mint =
  mint_decimals :: jsnum
  mint_supply :: int
  mint_mintAuthority :: "pubkey option"
  mint_freezeAuthority :: "pubkey option"
  mint_isInitialized :: bool

record AccountInfo =
  info_lamports :: jsnum
  info_owner :: pubkey
  info_executable :: bool
  info_rentEpoch :: json
  info_data_length :: nat

record TransactionMeta =
  meta_fee :: jsnum
  meta_err :: json

record TransactionResponse =
  tx_slot :: jsnum
  tx_blockTime :: json
  tx_meta :: "TransactionMeta option"

record EpochInfo =
  ei_epoch :: jsnum
  ei_slotIndex :: jsnum
  ei_slotsInEpoch :: jsnum

record KeyedAccount =
  keyed_pubkey :: pubkey
  keyed_data :: json

record TokenAmount =
  ta_uiAmount :: "jsnum option"
  ta_decimals :: jsnum
  ta_amount :: string

record ParsedTokenAccount =
  parsed_pubkey :: pubkey
  parsed_mint :: string
  parsed_tokenAmount :: TokenAmount

record ConfirmedSignatureInfo =
  sig_signature :: string
  sig_slot :: jsnum
  sig_blockTime :: json
  sig_err :: json

text \<open>The body of a fetched HTTP response, read by \<open>response.json()\<close>.\<close>

type_synonym Response = "json promise"

section \<open>The process and its surroundings\<close>

text \<open>
  Everything the server takes from outside: the process environment, the library
  functions that compute without the network, and what each asynchronous request is
  answered with. A reply may depend on the request and on how many requests were made
  before it.
\<close>

record env =
  process_env :: "string \<Rightarrow> string option"
  Keypair_generate :: "nat \<Rightarrow> Keypair"
  bs58_encode :: "nat list \<Rightarrow> string"
  bs58_decode :: "string \<Rightarrow> error + nat list"
  Keypair_fromSecretKey :: "nat list \<Rightarrow> error + Keypair"
  PublicKey_new :: "string \<Rightarrow> error + pubkey"
  getAssociatedTokenAddress :: "pubkey \<Rightarrow> pubkey \<Rightarrow> error + pubkey"
  Math_pow :: "jsnum \<Rightarrow> jsnum \<Rightarrow> jsnum"
  Number_toString :: "jsnum \<Rightarrow> string"
  JSON_stringify :: "json \<Rightarrow> string"
  Date_toISOString :: "nat \<Rightarrow> string"
  reply_number :: "nat \<Rightarrow> call \<Rightarrow> jsnum promise"
  reply_string :: "nat \<Rightarrow> call \<Rightarrow> string promise"
  reply_Account :: "nat \<Rightarrow> call \<Rightarrow> Account promise"
  reply_Mint :: "nat \<Rightarrow> call \<Rightarrow> Mint promise"
  reply_AccountInfo :: "nat \<Rightarrow> call \<Rightarrow> AccountInfo option promise"
  reply_Transaction :: "nat \<Rightarrow> call \<Rightarrow> TransactionResponse option promise"
  reply_EpochInfo :: "nat \<Rightarrow> call \<Rightarrow> EpochInfo promise"
  reply_KeyedAccounts :: "nat \<Rightarrow> call \<Rightarrow> KeyedAccount list promise"
  reply_ParsedAccounts :: "nat \<Rightarrow> call \<Rightarrow> ParsedTokenAccount list promise"
  reply_Signatures :: "nat \<Rightarrow> call \<Rightarrow> ConfirmedSignatureInfo list promise"
  reply_Response :: "nat \<Rightarrow> call \<Rightarrow> Response promise"

record wallet =
  wallet_keypair :: Keypair
  wallet_name :: string

text \<open>
  The module's variables, and two counters the source does not have: the requests made
  so far, in order, and the number of key pairs generated.
\<close>

record state =
  wallets :: "(string \<times> wallet) list"
  connection :: "Connection option"
  currentNetwork :: string
  connectionInitialized :: bool
  trace :: "call list"
  generated :: nat

definition initial_state :: state where
  "initial_state =
     \<lparr>wallets = [], connection = None, currentNetwork = ''devnet'',
      connectionInitialized = False, trace = [], generated = 0\<rparr>"

subsection \<open>Conversions that can throw\<close>

text \<open>
  The text of a number: the three special values are written out, the decimal digits of a
  finite number are taken from outside.
\<close>

definition String_of_number :: "env \<Rightarrow> jsnum \<Rightarrow> string" where
  "String_of_number env x =
     (case x of
        NaN \<Rightarrow> ''NaN''
      | PosInf \<Rightarrow> ''Infinity''
      | NegInf \<Rightarrow> ''-Infinity''
      | Fin m e \<Rightarrow> Number_toString env x)"

definition not_an_integer :: "env \<Rightarrow> jsnum \<Rightarrow> error" where
  "not_an_integer env x =
     RangeError (''The number '' @ String_of_number env x
                 @ '' cannot be converted to a BigInt because it is not an integer'')"

definition BigInt :: "env \<Rightarrow> jsnum \<Rightarrow> error + int" where
  "BigInt env x =
     (case x of
        Fin m e \<Rightarrow>
          (if 0 \<le> e then Inr (m * 2 ^ nat e)
           else if m mod 2 ^ nat (- e) = 0 then Inr (m div 2 ^ nat (- e))
           else Inl (not_an_integer env x))
      | _ \<Rightarrow> Inl (not_an_integer env x))"

text \<open>
  \<open>SystemProgram.transfer\<close> converts the lamports to a big integer and encodes them with
  the range-checking codec.
\<close>

definition SystemProgram_transfer ::
  "env \<Rightarrow> pubkey \<Rightarrow> pubkey \<Rightarrow> jsnum \<Rightarrow> error + instruction" where
  "SystemProgram_transfer env fromPubkey toPubkey lamports =
     (case BigInt env lamports of
        Inl e \<Rightarrow> Inl e
      | Inr n \<Rightarrow>
          (case encode_u64 n of
             Inl e \<Rightarrow> Inl e
           | Inr v \<Rightarrow> Inr (SystemTransfer fromPubkey toPubkey v)))"

subsection \<open>Running asynchronous code\<close>

text \<open>
  An \<open>async\<close> function run on a state returns a value, throws, or never completes
  because it awaits a promise that never settles.
\<close>

datatype 'a outcome = Returns 'a | Throws error | Hangs

type_synonym 'a prog = "state \<Rightarrow> 'a outcome \<times> state"

definition Return :: "'a \<Rightarrow> 'a prog" where
  "Return x = (\<lambda>s. (Returns x, s))"

definition Throw :: "error \<Rightarrow> 'a prog" where
  "Throw e = (\<lambda>s. (Throws e, s))"

definition andThen :: "'a prog \<Rightarrow> ('a \<Rightarrow> 'b prog) \<Rightarrow> 'b prog" where
  "andThen m f =
     (\<lambda>s. case m s of
            (Returns x, s') \<Rightarrow> f x s'
          | (Throws e, s') \<Rightarrow> (Throws e, s')
          | (Hangs, s') \<Rightarrow> (Hangs, s'))"

definition tryCatch :: "'a prog \<Rightarrow> (error \<Rightarrow> 'a prog) \<Rightarrow> 'a prog" where
  "tryCatch m h =
     (\<lambda>s. case m s of
            (Returns x, s') \<Rightarrow> (Returns x, s')
          | (Throws e, s') \<Rightarrow> h e s'
          | (Hangs, s') \<Rightarrow> (Hangs, s'))"

definition lift :: "error + 'a \<Rightarrow> 'a prog" where
  "lift r = (case r of Inl e \<Rightarrow> Throw e | Inr x \<Rightarrow> Return x)"

definition gets :: "(state \<Rightarrow> 'a) \<Rightarrow> 'a prog" where
  "gets f = (\<lambda>s. (Returns (f s), s))"

definition modify :: "(state \<Rightarrow> state) \<Rightarrow> unit prog" where
  "modify f = (\<lambda>s. (Returns (), f s))"

definition await :: "'a promise \<Rightarrow> 'a prog" where
  "await p =
     (case p of
        Pending \<Rightarrow> (\<lambda>s. (Hangs, s))
      | Settled t (Inl e) \<Rightarrow> Throw e
      | Settled t (Inr x) \<Rightarrow> Return x)"

definition request :: "(nat \<Rightarrow> call \<Rightarrow> 'a promise) \<Rightarrow> call \<Rightarrow> 'a promise prog" where
  "request reply c =
     (\<lambda>s. (Returns (reply (length (trace s)) c), s\<lparr>trace := trace s @ [c]\<rparr>))"

definition the_connection :: "Connection prog" where
  "the_connection =
     (\<lambda>s. case connection s of
            None \<Rightarrow> (Throws (TypeError ''Cannot read properties of undefined''), s)
          | Some c \<Rightarrow> (Returns c, s))"

text \<open>A request on the current connection: \<open>connection.f(...)\<close> or \<open>f(connection, ...)\<close>.\<close>

definition on_connection ::
  "(nat \<Rightarrow> call \<Rightarrow> 'a promise) \<Rightarrow> (Connection \<Rightarrow> call) \<Rightarrow> 'a promise prog" where
  "on_connection reply f = andThen the_connection (\<lambda>c. request reply (f c))"

section \<open>Network registry and connection manager\<close>

definition env_or :: "string option \<Rightarrow> string \<Rightarrow> string" where
  "env_or v d = (case v of None \<Rightarrow> d | Some x \<Rightarrow> if x \<noteq> [] then x else d)"

definition NETWORKS :: "env \<Rightarrow> (string \<times> string) list" where
  "NETWORKS env =
     [(''mainnet'', env_or (process_env env ''SOLANA_MAINNET_RPC'') ''https://api.mainnet-beta.solana.com''),
      (''devnet'', env_or (process_env env ''SOLANA_DEVNET_RPC'') ''https://api.devnet.solana.com''),
      (''testnet'', env_or (process_env env ''SOLANA_TESTNET_RPC'') ''https://api.testnet.solana.com''),
      (''localhost'', env_or (process_env env ''SOLANA_LOCALHOST_RPC'') ''http://127.0.0.1:8899''),
      (''custom'', env_or (process_env env ''SOLANA_CUSTOM_RPC'') [])]"

fun lookup_or :: "string lookup \<Rightarrow> string lookup \<Rightarrow> string lookup" where
  "lookup_or (Own u) d = (if u \<noteq> [] then Own u else d)"
| "lookup_or (Inherited k) d = Inherited k"
| "lookup_or Undefined d = d"

text \<open>
  The constructor of \<open>Connection\<close> accepts an endpoint only if it begins with \<open>http:\<close>
  or \<open>https:\<close>, and then derives the websocket endpoint from it, for which it must have
  the form scheme, \<open>://\<close>, host. A value that is not a string is converted to one by the
  first test; the text of a member of \<open>Object.prototype\<close> and of \<open>undefined\<close> does not
  begin with \<open>http\<close>.
\<close>

definition starts_with :: "string \<Rightarrow> string \<Rightarrow> bool" where
  "starts_with s p = (take (length p) s = p)"

definition assertEndpointUrl :: "string lookup \<Rightarrow> error + string" where
  "assertEndpointUrl putativeUrl =
     (case putativeUrl of
        Own u \<Rightarrow>
          if starts_with u ''http:'' \<or> starts_with u ''https:'' then Inr u
          else Inl (TypeError (''Endpoint URL must start with '' @ backticked ''http:''
                               @ '' or '' @ backticked ''https:'' @ ''.''))
      | _ \<Rightarrow> Inl (TypeError (''Endpoint URL must start with '' @ backticked ''http:''
                               @ '' or '' @ backticked ''https:'' @ ''.'')))"

text \<open>
  The pattern of \<open>makeWebsocketUrl\<close>: one or more characters other than a colon, then
  \<open>://\<close>, then a host that is either one or more characters other than a colon and an
  opening bracket, or a bracketed non-empty text; what follows the host is free.
\<close>

definition URL_RE :: "string \<Rightarrow> bool" where
  "URL_RE endpoint =
     (let scheme = takeWhile (\<lambda>c. c \<noteq> CHR '':'') endpoint;
          rest = dropWhile (\<lambda>c. c \<noteq> CHR '':'') endpoint
      in scheme \<noteq> [] \<and> starts_with rest ''://'' \<and>
         (case drop 3 rest of
            [] \<Rightarrow> False
          | c # cs \<Rightarrow>
              if c = CHR ''[''
              then takeWhile (\<lambda>c. c \<noteq> CHR '']'') cs \<noteq> [] \<and>
                   dropWhile (\<lambda>c. c \<noteq> CHR '']'') cs \<noteq> []
              else c \<noteq> CHR '':''))"

definition makeWebsocketUrl :: "string \<Rightarrow> error + unit" where
  "makeWebsocketUrl endpoint =
     (if URL_RE endpoint then Inr ()
      else Inl (TypeError (''Failed to validate endpoint URL '' @ backticked endpoint)))"

definition new_Connection :: "string lookup \<Rightarrow> string \<Rightarrow> error + Connection" where
  "new_Connection endpoint c =
     (case assertEndpointUrl endpoint of
        Inl e \<Rightarrow> Inl e
      | Inr u \<Rightarrow>
          (case makeWebsocketUrl u of
             Inl e \<Rightarrow> Inl e
           | Inr _ \<Rightarrow> Inr \<lparr>rpcEndpoint = u, commitment = c\<rparr>))"

text \<open>
  \<open>initializeConnection\<close> assigns the current network before it builds the connection:
  when the constructor throws, the network name has changed and the connection has not.
\<close>

definition initializeConnection :: "env \<Rightarrow> string option \<Rightarrow> unit prog" where
  "initializeConnection env arg =
     (let network = (case arg of None \<Rightarrow> ''devnet'' | Some n \<Rightarrow> n) in
      andThen (modify (\<lambda>s. s\<lparr>currentNetwork := network\<rparr>)) (\<lambda>_.
      let rpcUrl = lookup_or (property (NETWORKS env) network) (property (NETWORKS env) ''devnet'')
      in
      andThen (lift (new_Connection rpcUrl ''confirmed'')) (\<lambda>c.
      modify (\<lambda>s. s\<lparr>connection := Some c\<rparr>))))"

definition ensureConnection :: "env \<Rightarrow> unit prog" where
  "ensureConnection env =
     andThen (gets connectionInitialized) (\<lambda>initialized.
     if \<not> initialized
     then andThen (initializeConnection env None) (\<lambda>_.
          modify (\<lambda>s. s\<lparr>connectionInitialized := True\<rparr>))
     else Return ())"

section \<open>Operation handlers\<close>

text \<open>
  Each handler takes the arguments its tool schema declares, at the declared types; an
  optional argument is an \<open>option\<close>.
\<close>

definition wallet_exists :: "string \<Rightarrow> error" where
  "wallet_exists name = Error (''Wallet with name '' @ quoted name @ '' already exists'')"

definition wallet_not_found :: "string \<Rightarrow> error" where
  "wallet_not_found walletName = Error (''Wallet '' @ quoted walletName @ '' not found'')"

definition get_wallet :: "string \<Rightarrow> wallet prog" where
  "get_wallet walletName =
     andThen (gets wallets) (\<lambda>ws.
     case Map_get ws walletName of
       None \<Rightarrow> Throw (wallet_not_found walletName)
     | Some wallet \<Rightarrow> Return wallet)"

definition explorer_tx :: "string \<Rightarrow> string \<Rightarrow> string" where
  "explorer_tx signature network =
     ''https://explorer.solana.com/tx/'' @ signature @ ''?cluster='' @ network"

definition explorer_address :: "string \<Rightarrow> string \<Rightarrow> string" where
  "explorer_address address network =
     ''https://explorer.solana.com/address/'' @ address @ ''?cluster='' @ network"

definition json_of_lookup :: "string lookup \<Rightarrow> json" where
  "json_of_lookup v =
     (case v of Own u \<Rightarrow> JStr u | Inherited k \<Rightarrow> JMember k | Undefined \<Rightarrow> JUndefined)"

definition json_of_option :: "string option \<Rightarrow> json" where
  "json_of_option v = (case v of None \<Rightarrow> JNull | Some u \<Rightarrow> JStr u)"

definition TOKEN_PROGRAM_ID :: string where
  "TOKEN_PROGRAM_ID = ''TokenkegQfeZyiNwAJbNbGKPFXCWuBvf9Ss623VQ5DA''"

text \<open>
  Building, anchoring, signing and submitting a transaction, as every handler that sends
  one does: fetch the latest blockhash, set it and the fee payer, sign, send.
\<close>

definition submit :: "env \<Rightarrow> Transaction \<Rightarrow> wallet \<Rightarrow> string prog" where
  "submit env transaction wallet =
     andThen (on_connection (reply_string env) getLatestBlockhash) (\<lambda>p.
     andThen (await p) (\<lambda>blockhash.
     let transaction = sign (transaction\<lparr>recentBlockhash := Some blockhash,
                                        feePayer := Some (publicKey (wallet_keypair wallet))\<rparr>)
                            (wallet_keypair wallet)
     in
     andThen (on_connection (reply_string env)
                (\<lambda>c. sendTransaction c transaction [wallet_keypair wallet])) (\<lambda>q.
     await q)))"

definition handleCreateWallet :: "env \<Rightarrow> string \<Rightarrow> json prog" where
  "handleCreateWallet env name =
     andThen (gets wallets) (\<lambda>ws.
     if Map_has ws name then Throw (wallet_exists name)
     else
       andThen (gets generated) (\<lambda>n.
       let keypair = Keypair_generate env n in
       andThen (modify (\<lambda>s. s\<lparr>wallets := Map_set (wallets s) name
                                   \<lparr>wallet_keypair = keypair, wallet_name = name\<rparr>,
                                 generated := Suc n\<rparr>)) (\<lambda>_.
       Return (JObj [(''success'', JBool True),
                     (''wallet'', JObj [(''name'', JStr name),
                                        (''address'', JStr (publicKey keypair)),
                                        (''privateKey'', JStr (bs58_encode env (secretKey keypair)))])]))))"

definition handleImportWallet :: "env \<Rightarrow> string \<Rightarrow> string \<Rightarrow> json prog" where
  "handleImportWallet env name privateKey =
     andThen (gets wallets) (\<lambda>ws.
     if Map_has ws name then Throw (wallet_exists name)
     else
       tryCatch
         (andThen (lift (bs58_decode env privateKey)) (\<lambda>secretKey.
          andThen (lift (Keypair_fromSecretKey env secretKey)) (\<lambda>keypair.
          andThen (modify (\<lambda>s. s\<lparr>wallets := Map_set (wallets s) name
                                      \<lparr>wallet_keypair = keypair, wallet_name = name\<rparr>\<rparr>)) (\<lambda>_.
          Return (JObj [(''success'', JBool True),
                        (''wallet'', JObj [(''name'', JStr name),
                                           (''address'', JStr (publicKey keypair))])])))))
         (\<lambda>error. Throw (Error (''Invalid private key: '' @ String_of_error error))))"

definition handleListWallets :: "json prog" where
  "handleListWallets =
     andThen (gets wallets) (\<lambda>ws.
     let walletList =
           map (\<lambda>wallet. JObj [(''name'', JStr (wallet_name wallet)),
                                (''address'', JStr (publicKey (wallet_keypair wallet)))])
               (Map_values ws)
     in Return (JObj [(''wallets'', JArr walletList),
                      (''count'', JNum (js_nat (length walletList)))]))"

definition handleGetBalance :: "env \<Rightarrow> string \<Rightarrow> json prog" where
  "handleGetBalance env walletName =
     andThen (get_wallet walletName) (\<lambda>wallet.
     andThen (ensureConnection env) (\<lambda>_.
     andThen (on_connection (reply_number env)
                (\<lambda>c. getBalance c (publicKey (wallet_keypair wallet)))) (\<lambda>p.
     andThen (await (withTimeout p None)) (\<lambda>balance.
     let solBalance = js_div balance LAMPORTS_PER_SOL in
     Return (JObj [(''wallet'', JStr walletName),
                   (''address'', JStr (publicKey (wallet_keypair wallet))),
                   (''balance'', JObj [(''lamports'', JNum balance),
                                       (''sol'', JNum solBalance)])])))))"

definition handleGetTokenBalance :: "env \<Rightarrow> string \<Rightarrow> string \<Rightarrow> json prog" where
  "handleGetTokenBalance env walletName tokenMint =
     andThen (get_wallet walletName) (\<lambda>wallet.
     andThen (ensureConnection env) (\<lambda>_.
     tryCatch
       (andThen (lift (PublicKey_new env tokenMint)) (\<lambda>tokenMintPubkey.
        andThen (lift (getAssociatedTokenAddress env tokenMintPubkey
                         (publicKey (wallet_keypair wallet)))) (\<lambda>tokenAccount.
        andThen (on_connection (reply_Account env) (\<lambda>c. getAccount c tokenAccount)) (\<lambda>p.
        andThen (await p) (\<lambda>accountInfo.
        Return (JObj [(''wallet'', JStr walletName),
                      (''tokenMint'', JStr tokenMint),
                      (''balance'', JStr (String_of_int (acct_amount accountInfo))),
                      (''decimals'', JStr (acct_mint accountInfo))]))))))
       (\<lambda>error.
        Return (JObj [(''wallet'', JStr walletName),
                      (''tokenMint'', JStr tokenMint),
                      (''balance'', JStr ''0''),
                      (''error'', JStr ''Token account not found or error retrieving balance'')]))))"

definition handleTransferSol :: "env \<Rightarrow> string \<Rightarrow> string \<Rightarrow> jsnum \<Rightarrow> json prog" where
  "handleTransferSol env fromWallet toAddress amount =
     andThen (get_wallet fromWallet) (\<lambda>wallet.
     andThen (ensureConnection env) (\<lambda>_.
     andThen (lift (PublicKey_new env toAddress)) (\<lambda>toPubkey.
     let lamports = Math_floor (js_mul amount LAMPORTS_PER_SOL) in
     andThen (lift (SystemProgram_transfer env (publicKey (wallet_keypair wallet)) toPubkey
                      lamports)) (\<lambda>instruction.
     let transaction = add new_Transaction instruction in
     andThen (submit env transaction wallet) (\<lambda>signature.
     andThen (gets currentNetwork) (\<lambda>network.
     Return (JObj [(''success'', JBool True),
                   (''signature'', JStr signature),
                   (''explorerUrl'', JStr (explorer_tx signature network))])))))))"

definition handleTransferTokens ::
  "env \<Rightarrow> string \<Rightarrow> string \<Rightarrow> string \<Rightarrow> jsnum \<Rightarrow> json prog" where
  "handleTransferTokens env fromWallet toAddress tokenMint amount =
     andThen (get_wallet fromWallet) (\<lambda>wallet.
     andThen (ensureConnection env) (\<lambda>_.
     andThen (lift (PublicKey_new env tokenMint)) (\<lambda>tokenMintPubkey.
     andThen (lift (PublicKey_new env toAddress)) (\<lambda>toPubkey.
     andThen (lift (getAssociatedTokenAddress env tokenMintPubkey
                      (publicKey (wallet_keypair wallet)))) (\<lambda>fromTokenAccount.
     andThen (lift (getAssociatedTokenAddress env tokenMintPubkey toPubkey)) (\<lambda>toTokenAccount.
     andThen
       (tryCatch
          (andThen (on_connection (reply_Account env) (\<lambda>c. getAccount c toTokenAccount)) (\<lambda>p.
           andThen (await p) (\<lambda>_. Return new_Transaction)))
          (\<lambda>_. Return (add new_Transaction
                   (createAssociatedTokenAccountInstruction
                      (publicKey (wallet_keypair wallet)) toTokenAccount toPubkey tokenMintPubkey))))
       (\<lambda>transaction.
     andThen (lift (BigInt env (Math_floor amount))) (\<lambda>raw.
     andThen (lift (createTransferInstruction fromTokenAccount toTokenAccount
                      (publicKey (wallet_keypair wallet)) raw)) (\<lambda>instruction.
     let transaction = add transaction instruction in
     andThen (submit env transaction wallet) (\<lambda>signature.
     andThen (gets currentNetwork) (\<lambda>network.
     Return (JObj [(''success'', JBool True),
                   (''signature'', JStr signature),
                   (''explorerUrl'', JStr (explorer_tx signature network))]))))))))))))"

definition handleAirdropSol :: "env \<Rightarrow> string \<Rightarrow> jsnum option \<Rightarrow> json prog" where
  "handleAirdropSol env walletName amount_arg =
     (let amount = (case amount_arg of None \<Rightarrow> Fin 1 0 | Some a \<Rightarrow> a) in
      andThen (gets currentNetwork) (\<lambda>network.
      if network = ''mainnet'' then Throw (Error ''Airdrop is not available on mainnet'')
      else
        andThen (get_wallet walletName) (\<lambda>wallet.
        andThen (ensureConnection env) (\<lambda>_.
        let lamports = Math_floor (js_mul amount LAMPORTS_PER_SOL) in
        andThen (on_connection (reply_string env)
                   (\<lambda>c. requestAirdrop c (publicKey (wallet_keypair wallet)) lamports)) (\<lambda>p.
        andThen (await p) (\<lambda>signature.
        andThen (gets currentNetwork) (\<lambda>network.
        Return (JObj [(''success'', JBool True),
                      (''signature'', JStr signature),
                      (''amount'', JNum amount),
                      (''explorerUrl'', JStr (explorer_tx signature network))]))))))))"

definition handleGetAccountInfo :: "env \<Rightarrow> string \<Rightarrow> json prog" where
  "handleGetAccountInfo env address =
     andThen (ensureConnection env) (\<lambda>_.
     andThen (lift (PublicKey_new env address)) (\<lambda>pubkey.
     andThen (on_connection (reply_AccountInfo env) (\<lambda>c. getAccountInfo c pubkey)) (\<lambda>p.
     andThen (await p) (\<lambda>accountInfo.
     case accountInfo of
       None \<Rightarrow> Return (JObj [(''address'', JStr address), (''exists'', JBool False)])
     | Some info \<Rightarrow>
         Return (JObj [(''address'', JStr address),
                       (''exists'', JBool True),
                       (''lamports'', JNum (info_lamports info)),
                       (''owner'', JStr (info_owner info)),
                       (''executable'', JBool (info_executable info)),
                       (''rentEpoch'', info_rentEpoch info),
                       (''dataLength'', JNum (js_nat (info_data_length info)))])))))"

definition meta_fee_opt :: "TransactionMeta option \<Rightarrow> json" where
  "meta_fee_opt m = (case m of None \<Rightarrow> JUndefined | Some x \<Rightarrow> JNum (meta_fee x))"

definition meta_err_opt :: "TransactionMeta option \<Rightarrow> json" where
  "meta_err_opt m = (case m of None \<Rightarrow> JUndefined | Some x \<Rightarrow> meta_err x)"

definition handleGetTransaction :: "env \<Rightarrow> string \<Rightarrow> json prog" where
  "handleGetTransaction env signature =
     andThen (ensureConnection env) (\<lambda>_.
     andThen (on_connection (reply_Transaction env) (\<lambda>c. getTransaction c signature)) (\<lambda>p.
     andThen (await p) (\<lambda>transaction.
     case transaction of
       None \<Rightarrow> Throw (Error ''Transaction not found'')
     | Some tx \<Rightarrow>
         Return (JObj [(''signature'', JStr signature),
                       (''slot'', JNum (tx_slot tx)),
                       (''blockTime'', tx_blockTime tx),
                       (''fee'', meta_fee_opt (tx_meta tx)),
                       (''success'', JBool (\<not> truthy (meta_err_opt (tx_meta tx)))),
                       (''error'', meta_err_opt (tx_meta tx))]))))"

definition handleGetRecentBlockhash :: "env \<Rightarrow> json prog" where
  "handleGetRecentBlockhash env =
     andThen (ensureConnection env) (\<lambda>_.
     andThen (on_connection (reply_string env) getLatestBlockhash) (\<lambda>p.
     andThen (await p) (\<lambda>blockhash.
     andThen (gets currentNetwork) (\<lambda>network.
     Return (JObj [(''blockhash'', JStr blockhash), (''network'', JStr network)])))))"

definition handleSwitchNetwork :: "env \<Rightarrow> string \<Rightarrow> json prog" where
  "handleSwitchNetwork env network =
     andThen (initializeConnection env (Some network)) (\<lambda>_.
     andThen (gets currentNetwork) (\<lambda>current.
     Return (JObj [(''success'', JBool True),
                   (''network'', JStr current),
                   (''rpcUrl'', json_of_lookup (property (NETWORKS env) network))])))"

definition handleGetNetworkInfo :: "env \<Rightarrow> json prog" where
  "handleGetNetworkInfo env =
     andThen (ensureConnection env) (\<lambda>_.
     andThen (on_connection (reply_string env) getVersion) (\<lambda>p.
     andThen (await p) (\<lambda>version.
     andThen (on_connection (reply_EpochInfo env) getEpochInfo) (\<lambda>q.
     andThen (await q) (\<lambda>epochInfo.
     andThen (gets currentNetwork) (\<lambda>network.
     Return (JObj [(''network'', JStr network),
                   (''rpcUrl'', json_of_lookup (property (NETWORKS env) network)),
                   (''version'', JStr version),
                   (''epoch'', JNum (ei_epoch epochInfo)),
                   (''slotIndex'', JNum (ei_slotIndex epochInfo)),
                   (''slotsInEpoch'', JNum (ei_slotsInEpoch epochInfo))])))))))"

definition handleCreateTokenAccount :: "env \<Rightarrow> string \<Rightarrow> string \<Rightarrow> json prog" where
  "handleCreateTokenAccount env walletName tokenMint =
     andThen (get_wallet walletName) (\<lambda>wallet.
     andThen (ensureConnection env) (\<lambda>_.
     andThen (lift (PublicKey_new env tokenMint)) (\<lambda>tokenMintPubkey.
     andThen (lift (getAssociatedTokenAddress env tokenMintPubkey
                      (publicKey (wallet_keypair wallet)))) (\<lambda>tokenAccount.
     let transaction = add new_Transaction
           (createAssociatedTokenAccountInstruction (publicKey (wallet_keypair wallet))
              tokenAccount (publicKey (wallet_keypair wallet)) tokenMintPubkey)
     in
     andThen (submit env transaction wallet) (\<lambda>signature.
     andThen (gets currentNetwork) (\<lambda>network.
     Return (JObj [(''success'', JBool True),
                   (''tokenAccount'', JStr tokenAccount),
                   (''signature'', JStr signature),
                   (''explorerUrl'', JStr (explorer_tx signature network))])))))))"

definition token_account_entry :: "KeyedAccount \<Rightarrow> json" where
  "token_account_entry account =
     (let data = keyed_data account;
          info = opt_get (opt_get data ''parsed'') ''info''
      in JObj [(''address'', JStr (keyed_pubkey account)),
               (''mint'', js_or (opt_get info ''mint'') (JStr ''unknown'')),
               (''amount'', js_or (opt_get (opt_get info ''tokenAmount'') ''uiAmount'')
                                  (JNum (Fin 0 0))),
               (''decimals'', js_or (opt_get (opt_get info ''tokenAmount'') ''decimals'')
                                    (JNum (Fin 0 0)))])"

definition handleGetTokenAccounts :: "env \<Rightarrow> string \<Rightarrow> json prog" where
  "handleGetTokenAccounts env walletName =
     andThen (get_wallet walletName) (\<lambda>wallet.
     andThen (ensureConnection env) (\<lambda>_.
     andThen the_connection (\<lambda>c.
     andThen (lift (PublicKey_new env TOKEN_PROGRAM_ID)) (\<lambda>programId.
     andThen (request (reply_KeyedAccounts env)
                (getTokenAccountsByOwner c (publicKey (wallet_keypair wallet)) programId)) (\<lambda>p.
     andThen (await p) (\<lambda>tokenAccounts.
     let accounts = map token_account_entry tokenAccounts in
     Return (JObj [(''wallet'', JStr walletName),
                   (''tokenAccounts'', JArr accounts),
                   (''count'', JNum (js_nat (length accounts)))])))))))"

definition handleCreateSplToken ::
  "env \<Rightarrow> string \<Rightarrow> jsnum option \<Rightarrow> bool option \<Rightarrow> json prog" where
  "handleCreateSplToken env walletName decimals_arg freezeAuthority_arg =
     (let decimals = (case decimals_arg of None \<Rightarrow> Fin 9 0 | Some d \<Rightarrow> d);
          freezeAuthority = (case freezeAuthority_arg of None \<Rightarrow> False | Some b \<Rightarrow> b)
      in
      andThen (get_wallet walletName) (\<lambda>wallet.
      andThen (ensureConnection env) (\<lambda>_.
      let freezeAuthorityPubkey =
            (if freezeAuthority then Some (publicKey (wallet_keypair wallet)) else None)
      in
      andThen (on_connection (reply_string env)
                 (\<lambda>c. createMint c (wallet_keypair wallet) (publicKey (wallet_keypair wallet))
                         freezeAuthorityPubkey decimals)) (\<lambda>p.
      andThen (await p) (\<lambda>mint.
      andThen (gets currentNetwork) (\<lambda>network.
      Return (JObj [(''success'', JBool True),
                    (''tokenMint'', JStr mint),
                    (''decimals'', JNum decimals),
                    (''mintAuthority'', JStr (publicKey (wallet_keypair wallet))),
                    (''freezeAuthority'', json_of_option freezeAuthorityPubkey),
                    (''explorerUrl'', JStr (explorer_address mint network))])))))))"

text \<open>
  \<open>BigInt(Math.floor(amount * Math.pow(10, decimals)))\<close>, the scaling of a decimal token
  amount by the mint's decimal count.
\<close>

definition scaled_amount :: "env \<Rightarrow> jsnum \<Rightarrow> jsnum \<Rightarrow> error + int" where
  "scaled_amount env amount decimals =
     BigInt env (Math_floor (js_mul amount (Math_pow env (Fin 10 0) decimals)))"

text \<open>
  The destination's token account is looked up; when the lookup fails, a transaction of
  its own creates the account, and the handler then waits two seconds (the wait has no
  effect on the state).
\<close>

definition provision :: "env \<Rightarrow> wallet \<Rightarrow> pubkey \<Rightarrow> pubkey \<Rightarrow> pubkey \<Rightarrow> unit prog" where
  "provision env wallet destinationTokenAccount destinationPubkey tokenMintPubkey =
     tryCatch
       (andThen (on_connection (reply_Account env)
                   (\<lambda>c. getAccount c destinationTokenAccount)) (\<lambda>p.
        andThen (await p) (\<lambda>_. Return ())))
       (\<lambda>_.
        let transaction = add new_Transaction
              (createAssociatedTokenAccountInstruction (publicKey (wallet_keypair wallet))
                 destinationTokenAccount destinationPubkey tokenMintPubkey)
        in andThen (submit env transaction wallet) (\<lambda>_. Return ()))"

definition handleMintTokens ::
  "env \<Rightarrow> string \<Rightarrow> string \<Rightarrow> string \<Rightarrow> jsnum \<Rightarrow> json prog" where
  "handleMintTokens env walletName tokenMint destinationAddress amount =
     andThen (get_wallet walletName) (\<lambda>wallet.
     andThen (ensureConnection env) (\<lambda>_.
     andThen (lift (PublicKey_new env tokenMint)) (\<lambda>tokenMintPubkey.
     andThen (lift (PublicKey_new env destinationAddress)) (\<lambda>destinationPubkey.
     andThen (on_connection (reply_Mint env) (\<lambda>c. getMint c tokenMintPubkey)) (\<lambda>p.
     andThen (await p) (\<lambda>mintInfo.
     andThen (lift (scaled_amount env amount (mint_decimals mintInfo))) (\<lambda>rawAmount.
     andThen (lift (getAssociatedTokenAddress env tokenMintPubkey destinationPubkey))
       (\<lambda>destinationTokenAccount.
     andThen (provision env wallet destinationTokenAccount destinationPubkey tokenMintPubkey)
       (\<lambda>_.
     andThen (on_connection (reply_string env)
                (\<lambda>c. mintTo c (wallet_keypair wallet) tokenMintPubkey destinationTokenAccount
                        (wallet_keypair wallet) rawAmount)) (\<lambda>q.
     andThen (await q) (\<lambda>signature.
     andThen (gets currentNetwork) (\<lambda>network.
     Return (JObj [(''success'', JBool True),
                   (''signature'', JStr signature),
                   (''amount'', JNum amount),
                   (''tokenMint'', JStr tokenMint),
                   (''destination'', JStr destinationAddress),
                   (''explorerUrl'', JStr (explorer_tx signature network))])))))))))))))"

definition handleBurnTokens :: "env \<Rightarrow> string \<Rightarrow> string \<Rightarrow> jsnum \<Rightarrow> json prog" where
  "handleBurnTokens env walletName tokenMint amount =
     andThen (get_wallet walletName) (\<lambda>wallet.
     andThen (ensureConnection env) (\<lambda>_.
     andThen (lift (PublicKey_new env tokenMint)) (\<lambda>tokenMintPubkey.
     andThen (on_connection (reply_Mint env) (\<lambda>c. getMint c tokenMintPubkey)) (\<lambda>p.
     andThen (await p) (\<lambda>mintInfo.
     andThen (lift (scaled_amount env amount (mint_decimals mintInfo))) (\<lambda>rawAmount.
     andThen (lift (getAssociatedTokenAddress env tokenMintPubkey
                      (publicKey (wallet_keypair wallet)))) (\<lambda>tokenAccount.
     andThen (on_connection (reply_string env)
                (\<lambda>c. burn c (wallet_keypair wallet) tokenAccount tokenMintPubkey
                        (wallet_keypair wallet) rawAmount)) (\<lambda>q.
     andThen (await q) (\<lambda>signature.
     andThen (gets currentNetwork) (\<lambda>network.
     Return (JObj [(''success'', JBool True),
                   (''signature'', JStr signature),
                   (''amount'', JNum amount),
                   (''tokenMint'', JStr tokenMint),
                   (''explorerUrl'', JStr (explorer_tx signature network))])))))))))))"

definition handleFreezeAccount :: "env \<Rightarrow> string \<Rightarrow> string \<Rightarrow> string \<Rightarrow> json prog" where
  "handleFreezeAccount env walletName tokenMint accountAddress =
     andThen (get_wallet walletName) (\<lambda>wallet.
     andThen (ensureConnection env) (\<lambda>_.
     andThen (lift (PublicKey_new env tokenMint)) (\<lambda>tokenMintPubkey.
     andThen (lift (PublicKey_new env accountAddress)) (\<lambda>accountPubkey.
     andThen (on_connection (reply_string env)
                (\<lambda>c. freezeAccount c (wallet_keypair wallet) accountPubkey tokenMintPubkey
                        (wallet_keypair wallet))) (\<lambda>q.
     andThen (await q) (\<lambda>signature.
     andThen (gets currentNetwork) (\<lambda>network.
     Return (JObj [(''success'', JBool True),
                   (''signature'', JStr signature),
                   (''accountAddress'', JStr accountAddress),
                   (''explorerUrl'', JStr (explorer_tx signature network))]))))))))"

definition handleThawAccount :: "env \<Rightarrow> string \<Rightarrow> string \<Rightarrow> string \<Rightarrow> json prog" where
  "handleThawAccount env walletName tokenMint accountAddress =
     andThen (get_wallet walletName) (\<lambda>wallet.
     andThen (ensureConnection env) (\<lambda>_.
     andThen (lift (PublicKey_new env tokenMint)) (\<lambda>tokenMintPubkey.
     andThen (lift (PublicKey_new env accountAddress)) (\<lambda>accountPubkey.
     andThen (on_connection (reply_string env)
                (\<lambda>c. thawAccount c (wallet_keypair wallet) accountPubkey tokenMintPubkey
                        (wallet_keypair wallet))) (\<lambda>q.
     andThen (await q) (\<lambda>signature.
     andThen (gets currentNetwork) (\<lambda>network.
     Return (JObj [(''success'', JBool True),
                   (''signature'', JStr signature),
                   (''accountAddress'', JStr accountAddress),
                   (''explorerUrl'', JStr (explorer_tx signature network))]))))))))"

definition authorityTypeMap :: "(string \<times> AuthorityType) list" where
  "authorityTypeMap =
     [(''MintTokens'', MintTokens), (''FreezeAccount'', FreezeAccount),
      (''AccountOwner'', AccountOwner), (''CloseAccount'', CloseAccount)]"

definition handleSetTokenAuthority ::
  "env \<Rightarrow> string \<Rightarrow> string \<Rightarrow> string \<Rightarrow> string option \<Rightarrow> json prog" where
  "handleSetTokenAuthority env walletName tokenMint authorityType newAuthority =
     andThen (get_wallet walletName) (\<lambda>wallet.
     andThen (ensureConnection env) (\<lambda>_.
     andThen (lift (PublicKey_new env tokenMint)) (\<lambda>tokenMintPubkey.
     andThen (case newAuthority of
                None \<Rightarrow> Return None
              | Some a \<Rightarrow> if a \<noteq> []
                          then andThen (lift (PublicKey_new env a)) (\<lambda>k. Return (Some k))
                          else Return None) (\<lambda>newAuthorityPubkey.
     andThen (on_connection (reply_string env)
                (\<lambda>c. setAuthority c (wallet_keypair wallet) tokenMintPubkey
                        (wallet_keypair wallet) (property authorityTypeMap authorityType)
                        newAuthorityPubkey)) (\<lambda>q.
     andThen (await q) (\<lambda>signature.
     andThen (gets currentNetwork) (\<lambda>network.
     Return (JObj [(''success'', JBool True),
                   (''signature'', JStr signature),
                   (''authorityType'', JStr authorityType),
                   (''newAuthority'',
                      js_or (case newAuthority of None \<Rightarrow> JUndefined | Some a \<Rightarrow> JStr a)
                            (JStr ''revoked'')),
                   (''explorerUrl'', JStr (explorer_tx signature network))]))))))))"

definition handleGetTokenSupply :: "env \<Rightarrow> string \<Rightarrow> json prog" where
  "handleGetTokenSupply env tokenMint =
     andThen (ensureConnection env) (\<lambda>_.
     andThen (lift (PublicKey_new env tokenMint)) (\<lambda>tokenMintPubkey.
     andThen (on_connection (reply_Mint env) (\<lambda>c. getMint c tokenMintPubkey)) (\<lambda>p.
     andThen (await p) (\<lambda>mintInfo.
     let supply = js_div (Number_of_BigInt (mint_supply mintInfo))
                         (Math_pow env (Fin 10 0) (mint_decimals mintInfo))
     in
     Return (JObj [(''tokenMint'', JStr tokenMint),
                   (''supply'', JNum supply),
                   (''rawSupply'', JStr (String_of_int (mint_supply mintInfo))),
                   (''decimals'', JNum (mint_decimals mintInfo)),
                   (''mintAuthority'', json_of_option (mint_mintAuthority mintInfo)),
                   (''freezeAuthority'', json_of_option (mint_freezeAuthority mintInfo)),
                   (''isInitialized'', JBool (mint_isInitialized mintInfo))])))))"

definition handleCloseTokenAccount ::
  "env \<Rightarrow> string \<Rightarrow> string \<Rightarrow> string \<Rightarrow> json prog" where
  "handleCloseTokenAccount env walletName tokenMint destinationAddress =
     andThen (get_wallet walletName) (\<lambda>wallet.
     andThen (ensureConnection env) (\<lambda>_.
     andThen (lift (PublicKey_new env tokenMint)) (\<lambda>tokenMintPubkey.
     andThen (lift (PublicKey_new env destinationAddress)) (\<lambda>destinationPubkey.
     andThen (lift (getAssociatedTokenAddress env tokenMintPubkey
                      (publicKey (wallet_keypair wallet)))) (\<lambda>tokenAccount.
     andThen (on_connection (reply_string env)
                (\<lambda>c. closeAccount c (wallet_keypair wallet) tokenAccount destinationPubkey
                        (wallet_keypair wallet))) (\<lambda>q.
     andThen (await q) (\<lambda>signature.
     andThen (gets currentNetwork) (\<lambda>network.
     Return (JObj [(''success'', JBool True),
                   (''signature'', JStr signature),
                   (''closedAccount'', JStr tokenAccount),
                   (''destination'', JStr destinationAddress),
                   (''explorerUrl'', JStr (explorer_tx signature network))])))))))))"

definition handleApproveDelegate ::
  "env \<Rightarrow> string \<Rightarrow> string \<Rightarrow> string \<Rightarrow> jsnum \<Rightarrow> json prog" where
  "handleApproveDelegate env walletName tokenMint delegateAddress amount =
     andThen (get_wallet walletName) (\<lambda>wallet.
     andThen (ensureConnection env) (\<lambda>_.
     andThen (lift (PublicKey_new env tokenMint)) (\<lambda>tokenMintPubkey.
     andThen (lift (PublicKey_new env delegateAddress)) (\<lambda>delegatePubkey.
     andThen (on_connection (reply_Mint env) (\<lambda>c. getMint c tokenMintPubkey)) (\<lambda>p.
     andThen (await p) (\<lambda>mintInfo.
     andThen (lift (scaled_amount env amount (mint_decimals mintInfo))) (\<lambda>rawAmount.
     andThen (lift (getAssociatedTokenAddress env tokenMintPubkey
                      (publicKey (wallet_keypair wallet)))) (\<lambda>tokenAccount.
     andThen (on_connection (reply_string env)
                (\<lambda>c. approve c (wallet_keypair wallet) tokenAccount delegatePubkey
                        (wallet_keypair wallet) rawAmount)) (\<lambda>q.
     andThen (await q) (\<lambda>signature.
     andThen (gets currentNetwork) (\<lambda>network.
     Return (JObj [(''success'', JBool True),
                   (''signature'', JStr signature),
                   (''delegate'', JStr delegateAddress),
                   (''amount'', JNum amount),
                   (''explorerUrl'', JStr (explorer_tx signature network))]))))))))))))"

definition handleRevokeDelegate :: "env \<Rightarrow> string \<Rightarrow> string \<Rightarrow> json prog" where
  "handleRevokeDelegate env walletName tokenMint =
     andThen (get_wallet walletName) (\<lambda>wallet.
     andThen (ensureConnection env) (\<lambda>_.
     andThen (lift (PublicKey_new env tokenMint)) (\<lambda>tokenMintPubkey.
     andThen (lift (getAssociatedTokenAddress env tokenMintPubkey
                      (publicKey (wallet_keypair wallet)))) (\<lambda>tokenAccount.
     andThen (on_connection (reply_string env)
                (\<lambda>c. revoke c (wallet_keypair wallet) tokenAccount (wallet_keypair wallet))) (\<lambda>q.
     andThen (await q) (\<lambda>signature.
     andThen (gets currentNetwork) (\<lambda>network.
     Return (JObj [(''success'', JBool True),
                   (''signature'', JStr signature),
                   (''explorerUrl'', JStr (explorer_tx signature network))]))))))))"

definition health_checks :: "env \<Rightarrow> state \<Rightarrow> string \<Rightarrow> json" where
  "health_checks env s0 status =
     JObj [(''server'', JStr ''healthy''),
           (''network'', JStr (currentNetwork s0)),
           (''rpcUrl'', json_of_lookup (property (NETWORKS env) (currentNetwork s0))),
           (''connection'', JStr status),
           (''walletsLoaded'', JNum (js_nat (Map_size (wallets s0)))),
           (''timestamp'', JStr (Date_toISOString env (length (trace s0))))]"

definition handleHealthCheck :: "env \<Rightarrow> json prog" where
  "handleHealthCheck env =
     andThen (gets (\<lambda>s. s)) (\<lambda>s0.
     tryCatch
       (andThen (ensureConnection env) (\<lambda>_.
        andThen (on_connection (reply_string env) getVersion) (\<lambda>p.
        andThen (await (withTimeout p (Some 5000))) (\<lambda>version.
        Return (JObj [(''status'', JStr ''healthy''),
                      (''checks'', health_checks env s0 ''healthy''),
                      (''solanaVersion'', JStr version)])))))
       (\<lambda>error.
        Return (JObj [(''status'', JStr ''degraded''),
                      (''checks'', health_checks env s0 ''unhealthy''),
                      (''error'', JStr (if is_Error error then message error
                                        else ''Unknown error''))])))"

primrec forEach :: "('a \<Rightarrow> 'b prog) \<Rightarrow> 'a list \<Rightarrow> 'b list prog" where
  "forEach f [] = Return []"
| "forEach f (x # xs) = andThen (f x) (\<lambda>y. andThen (forEach f xs) (\<lambda>ys. Return (y # ys)))"

definition history_entry ::
  "ConfirmedSignatureInfo \<Rightarrow> (string \<times> json) list \<Rightarrow> string \<Rightarrow> json" where
  "history_entry sig extra network =
     JObj ([(''signature'', JStr (sig_signature sig)),
            (''slot'', JNum (sig_slot sig)),
            (''timestamp'', sig_blockTime sig),
            (''status'', JStr (if truthy (sig_err sig) then ''failed'' else ''success''))]
           @ extra
           @ [(''explorerUrl'', JStr (explorer_tx (sig_signature sig) network))])"

definition history_failed :: "ConfirmedSignatureInfo \<Rightarrow> json prog" where
  "history_failed sig =
     andThen (gets currentNetwork) (\<lambda>network.
     Return (history_entry sig
               [(''error'', JStr ''Failed to fetch transaction details'')] network))"

text \<open>
  \<open>Promise.all(signatures.map(async (sig) => ...))\<close>: every callback runs up to its
  first \<open>await\<close>, which issues its request, before any of them resumes.
\<close>

definition history_start ::
  "env \<Rightarrow> ConfirmedSignatureInfo
   \<Rightarrow> (ConfirmedSignatureInfo \<times> TransactionResponse option promise option) prog" where
  "history_start env sig =
     tryCatch
       (andThen (on_connection (reply_Transaction env)
                   (\<lambda>c. getTransaction c (sig_signature sig))) (\<lambda>p.
        Return (sig, Some p)))
       (\<lambda>_. Return (sig, None))"

definition history_finish ::
  "ConfirmedSignatureInfo \<times> TransactionResponse option promise option \<Rightarrow> json prog" where
  "history_finish started =
     (case started of
        (sig, None) \<Rightarrow> history_failed sig
      | (sig, Some p) \<Rightarrow>
          tryCatch
            (andThen (await p) (\<lambda>tx.
             andThen (gets currentNetwork) (\<lambda>network.
             Return (history_entry sig
                       [(''fee'', (case tx of None \<Rightarrow> JUndefined
                                   | Some t \<Rightarrow> meta_fee_opt (tx_meta t))),
                        (''err'', sig_err sig)] network))))
            (\<lambda>_. history_failed sig))"

definition handleGetTransactionHistory ::
  "env \<Rightarrow> string \<Rightarrow> jsnum option \<Rightarrow> string option \<Rightarrow> json prog" where
  "handleGetTransactionHistory env walletName limit_arg before_arg =
     (let limit = (case limit_arg of None \<Rightarrow> Fin 10 0 | Some l \<Rightarrow> l) in
      andThen (get_wallet walletName) (\<lambda>wallet.
      andThen (ensureConnection env) (\<lambda>_.
      let options_limit = Math_min limit (Fin 100 0);
          options_before = (case before_arg of None \<Rightarrow> None
                            | Some b \<Rightarrow> if b \<noteq> [] then Some b else None)
      in
      andThen (on_connection (reply_Signatures env)
                 (\<lambda>c. getSignaturesForAddress c (publicKey (wallet_keypair wallet))
                         options_limit options_before)) (\<lambda>p.
      andThen (await p) (\<lambda>signatures.
      andThen (forEach (history_start env) signatures) (\<lambda>started.
      andThen (forEach history_finish started) (\<lambda>transactions.
      Return (JObj [(''wallet'', JStr walletName),
                    (''address'', JStr (publicKey (wallet_keypair wallet))),
                    (''transactions'', JArr transactions),
                    (''count'', JNum (js_nat (length transactions))),
                    (''hasMore'', JBool (js_equal (js_nat (length transactions))
                                                  options_limit))]))))))))"

text \<open>Member access \<open>v.k\<close>, which throws on \<open>undefined\<close> and \<open>null\<close>.\<close>

definition cannot_read :: "json \<Rightarrow> string \<Rightarrow> error" where
  "cannot_read v k =
     TypeError (''Cannot read properties of '' @ (if v = JNull then ''null'' else ''undefined'')
                @ '' (reading '' @ quoted k @ '')'')"

definition member :: "json \<Rightarrow> string \<Rightarrow> error + json" where
  "member v k =
     (if v = JUndefined \<or> v = JNull then Inl (cannot_read v k) else Inr (opt_get v k))"

text \<open>\<open>tokens.find((t) => t.address === tokenMint)\<close>\<close>

fun find_address :: "json list \<Rightarrow> string \<Rightarrow> error + json" where
  "find_address [] tokenMint = Inr JUndefined"
| "find_address (t # ts) tokenMint =
     (case member t ''address'' of
        Inl e \<Rightarrow> Inl e
      | Inr a \<Rightarrow> if js_strict_equal a (JStr tokenMint) then Inr t
                 else find_address ts tokenMint)"

definition tokens_find :: "json \<Rightarrow> string \<Rightarrow> error + json" where
  "tokens_find tokens tokenMint =
     (case tokens of
        JArr ts \<Rightarrow> find_address ts tokenMint
      | JNull \<Rightarrow> Inl (cannot_read tokens ''find'')
      | JUndefined \<Rightarrow> Inl (cannot_read tokens ''find'')
      | _ \<Rightarrow> Inl (TypeError ''tokens.find is not a function''))"

definition handleGetTokenInfo :: "env \<Rightarrow> string \<Rightarrow> json prog" where
  "handleGetTokenInfo env tokenMint =
     tryCatch
       (andThen (request (reply_Response env) (fetch ''https://token.jup.ag/strict'')) (\<lambda>p.
        andThen (await (withTimeout p (Some 10000))) (\<lambda>response.
        andThen (await response) (\<lambda>tokens.
        andThen (lift (tokens_find tokens tokenMint)) (\<lambda>tokenInfo.
        if \<not> truthy tokenInfo
        then Return (JObj [(''tokenMint'', JStr tokenMint),
                           (''found'', JBool False),
                           (''message'', JStr ''Token not found in Jupiter token list'')])
        else
          andThen
            (tryCatch
               (andThen (request (reply_Response env)
                           (fetch (''https://price.jup.ag/v6/price?ids='' @ tokenMint))) (\<lambda>q.
                andThen (await (withTimeout q (Some 5000))) (\<lambda>priceResponse.
                andThen (await priceResponse) (\<lambda>priceData.
                andThen (lift (member priceData ''data'')) (\<lambda>d.
                Return (js_or (opt_get (opt_get d tokenMint) ''price'') JNull))))))
               (\<lambda>_. Return JNull))
            (\<lambda>price.
          Return (JObj [(''address'', opt_get tokenInfo ''address''),
                        (''name'', opt_get tokenInfo ''name''),
                        (''symbol'', opt_get tokenInfo ''symbol''),
                        (''decimals'', opt_get tokenInfo ''decimals''),
                        (''logoURI'', opt_get tokenInfo ''logoURI''),
                        (''price'', price),
                        (''found'', JBool True)])))))))
       (\<lambda>error.
        Return (JObj [(''tokenMint'', JStr tokenMint),
                      (''found'', JBool False),
                      (''error'', JStr (if is_Error error then message error
                                        else ''Failed to fetch token info''))]))"

definition json_of_number_option :: "jsnum option \<Rightarrow> json" where
  "json_of_number_option v = (case v of None \<Rightarrow> JNull | Some x \<Rightarrow> JNum x)"

definition balance_entry :: "ParsedTokenAccount \<Rightarrow> json" where
  "balance_entry account =
     JObj [(''mint'', JStr (parsed_mint account)),
           (''balance'', json_of_number_option (ta_uiAmount (parsed_tokenAmount account))),
           (''decimals'', JNum (ta_decimals (parsed_tokenAmount account))),
           (''rawBalance'', JStr (ta_amount (parsed_tokenAmount account))),
           (''account'', JStr (parsed_pubkey account))]"

definition positive_balance :: "ParsedTokenAccount \<Rightarrow> bool" where
  "positive_balance account =
     (case ta_uiAmount (parsed_tokenAmount account) of
        None \<Rightarrow> False
      | Some x \<Rightarrow> js_less (Fin 0 0) x)"

definition handleGetAllTokenBalances :: "env \<Rightarrow> string \<Rightarrow> bool option \<Rightarrow> json prog" where
  "handleGetAllTokenBalances env walletName includeZeroBalances_arg =
     (let includeZeroBalances =
            (case includeZeroBalances_arg of None \<Rightarrow> False | Some b \<Rightarrow> b)
      in
      andThen (get_wallet walletName) (\<lambda>wallet.
      andThen (ensureConnection env) (\<lambda>_.
      andThen the_connection (\<lambda>c.
      andThen (lift (PublicKey_new env TOKEN_PROGRAM_ID)) (\<lambda>programId.
      andThen (request (reply_ParsedAccounts env)
                 (getParsedTokenAccountsByOwner c (publicKey (wallet_keypair wallet))
                    programId)) (\<lambda>p.
      andThen (await p) (\<lambda>tokenAccounts.
      let balances =
            map balance_entry
              (filter (\<lambda>account. includeZeroBalances \<or> positive_balance account)
                      tokenAccounts)
      in
      Return (JObj [(''wallet'', JStr walletName),
                    (''address'', JStr (publicKey (wallet_keypair wallet))),
                    (''tokens'', JArr balances),
                    (''count'', JNum (js_nat (length balances)))]))))))))"

section \<open>Dispatch front-end\<close>

text \<open>
  An invoke-operation request: the operation's name with its arguments, or a name that
  is not registered.
\<close>

datatype tool_call =
    create_wallet string
  | import_wallet string string
  | list_wallets
  | get_balance string
  | get_token_balance string string
  | transfer_sol string string jsnum
  | transfer_tokens string string string jsnum
  | airdrop_sol string "jsnum option"
  | get_account_info string
  | get_transaction string
  | get_recent_blockhash
  | switch_network string
  | get_network_info
  | create_token_account string string
  | get_token_accounts string
  | create_spl_token string "jsnum option" "bool option"
  | mint_tokens string string string jsnum
  | burn_tokens string string jsnum
  | freeze_account string string string
  | thaw_account string string string
  | set_token_authority string string string "string option"
  | get_token_supply string
  | close_token_account string string string
  | approve_delegate string string string jsnum
  | revoke_delegate string string
  | health_check
  | get_transaction_history string "jsnum option" "string option"
  | get_token_info string
  | get_all_token_balances string "bool option"
  | unregistered string

fun handler :: "env \<Rightarrow> tool_call \<Rightarrow> json prog" where
  "handler env (create_wallet name) = handleCreateWallet env name"
| "handler env (import_wallet name privateKey) = handleImportWallet env name privateKey"
| "handler env list_wallets = handleListWallets"
| "handler env (get_balance walletName) = handleGetBalance env walletName"
| "handler env (get_token_balance walletName tokenMint) =
     handleGetTokenBalance env walletName tokenMint"
| "handler env (transfer_sol fromWallet toAddress amount) =
     handleTransferSol env fromWallet toAddress amount"
| "handler env (transfer_tokens fromWallet toAddress tokenMint amount) =
     handleTransferTokens env fromWallet toAddress tokenMint amount"
| "handler env (airdrop_sol walletName amount) = handleAirdropSol env walletName amount"
| "handler env (get_account_info address) = handleGetAccountInfo env address"
| "handler env (get_transaction signature) = handleGetTransaction env signature"
| "handler env get_recent_blockhash = handleGetRecentBlockhash env"
| "handler env (switch_network network) = handleSwitchNetwork env network"
| "handler env get_network_info = handleGetNetworkInfo env"
| "handler env (create_token_account walletName tokenMint) =
     handleCreateTokenAccount env walletName tokenMint"
| "handler env (get_token_accounts walletName) = handleGetTokenAccounts env walletName"
| "handler env (create_spl_token walletName decimals freezeAuthority) =
     handleCreateSplToken env walletName decimals freezeAuthority"
| "handler env (mint_tokens walletName tokenMint destinationAddress amount) =
     handleMintTokens env walletName tokenMint destinationAddress amount"
| "handler env (burn_tokens walletName tokenMint amount) =
     handleBurnTokens env walletName tokenMint amount"
| "handler env (freeze_account walletName tokenMint accountAddress) =
     handleFreezeAccount env walletName tokenMint accountAddress"
| "handler env (thaw_account walletName tokenMint accountAddress) =
     handleThawAccount env walletName tokenMint accountAddress"
| "handler env (set_token_authority walletName tokenMint authorityType newAuthority) =
     handleSetTokenAuthority env walletName tokenMint authorityType newAuthority"
| "handler env (get_token_supply tokenMint) = handleGetTokenSupply env tokenMint"
| "handler env (close_token_account walletName tokenMint destinationAddress) =
     handleCloseTokenAccount env walletName tokenMint destinationAddress"
| "handler env (approve_delegate walletName tokenMint delegateAddress amount) =
     handleApproveDelegate env walletName tokenMint delegateAddress amount"
| "handler env (revoke_delegate walletName tokenMint) =
     handleRevokeDelegate env walletName tokenMint"
| "handler env health_check = handleHealthCheck env"
| "handler env (get_transaction_history walletName limit before_arg) =
     handleGetTransactionHistory env walletName limit before_arg"
| "handler env (get_token_info tokenMint) = handleGetTokenInfo env tokenMint"
| "handler env (get_all_token_balances walletName includeZeroBalances) =
     handleGetAllTokenBalances env walletName includeZeroBalances"
| "handler env (unregistered name) = Throw (Error (''Unknown tool: '' @ name))"

record content =
  content_type :: string
  content_text :: string

record response =
  contents :: "content list"
  isError :: "bool option"

definition callTool :: "env \<Rightarrow> tool_call \<Rightarrow> response prog" where
  "callTool env request_params =
     tryCatch
       (andThen (handler env request_params) (\<lambda>result.
        Return \<lparr>contents = [\<lparr>content_type = ''text'',
                               content_text = JSON_stringify env result\<rparr>],
                isError = None\<rparr>))
       (\<lambda>error.
        Return \<lparr>contents = [\<lparr>content_type = ''text'',
                               content_text = ''Error: '' @ (if is_Error error then message error
                                                             else String_of_error error)\<rparr>],
                isError = Some True\<rparr>)"

text \<open>A session: requests served one after another, each to completion.\<close>

fun serve :: "env \<Rightarrow> tool_call list \<Rightarrow> state \<Rightarrow> state" where
  "serve env [] s = s"
| "serve env (r # rs) s = serve env rs (snd (callTool env r s))"

section \<open>Observations on a run\<close>

text \<open>The transactions submitted among some requests, in order.\<close>

fun sent :: "call list \<Rightarrow> Transaction list" where
  "sent [] = []"
| "sent (sendTransaction c tx kps # cs) = tx # sent cs"
| "sent (c # cs) = sent cs"

text \<open>A computation that adds at most \<open>n\<close> submitted transactions, on every state.\<close>

definition submits_at_most :: "nat \<Rightarrow> 'a prog \<Rightarrow> bool" where
  "submits_at_most n m =
     (\<forall>s. \<exists>txs. sent (trace (snd (m s))) = sent (trace s) @ txs \<and> length txs \<le> n)"

text \<open>A ledger all of whose replies settle, sooner or later.\<close>

definition settled :: "'a promise \<Rightarrow> bool" where
  "settled p = (case p of Pending \<Rightarrow> False | Settled t r \<Rightarrow> True)"

definition body_settled :: "Response promise \<Rightarrow> bool" where
  "body_settled p = (case p of Settled t (Inr body) \<Rightarrow> settled body | _ \<Rightarrow> True)"

definition responsive :: "env \<Rightarrow> bool" where
  "responsive env =
     ((\<forall>n c. settled (reply_number env n c)) \<and>
      (\<forall>n c. settled (reply_string env n c)) \<and>
      (\<forall>n c. settled (reply_Account env n c)) \<and>
      (\<forall>n c. settled (reply_Mint env n c)) \<and>
      (\<forall>n c. settled (reply_AccountInfo env n c)) \<and>
      (\<forall>n c. settled (reply_Transaction env n c)) \<and>
      (\<forall>n c. settled (reply_EpochInfo env n c)) \<and>
      (\<forall>n c. settled (reply_KeyedAccounts env n c)) \<and>
      (\<forall>n c. settled (reply_ParsedAccounts env n c)) \<and>
      (\<forall>n c. settled (reply_Signatures env n c)) \<and>
      (\<forall>n c. body_settled (reply_Response env n c)))"

text \<open>A computation that completes, by returning or by throwing, on every state.\<close>

definition finishes :: "'a prog \<Rightarrow> bool" where
  "finishes m = (\<forall>s. fst (m s) \<noteq> Hangs)"

text \<open>A computation whose returned values all satisfy a property.\<close>

definition yields :: "('a \<Rightarrow> bool) \<Rightarrow> 'a prog \<Rightarrow> bool" where
  "yields P m = (\<forall>s. case fst (m s) of Returns x \<Rightarrow> P x | _ \<Rightarrow> True)"

definition started_settled ::
  "ConfirmedSignatureInfo \<times> TransactionResponse option promise option \<Rightarrow> bool" where
  "started_settled st = (case snd st of None \<Rightarrow> True | Some p \<Rightarrow> settled p)"

text \<open>The requests that write the wallet store.\<close>

fun wallet_call :: "tool_call \<Rightarrow> bool" where
  "wallet_call (create_wallet name) = True"
| "wallet_call (import_wallet name privateKey) = True"
| "wallet_call r = False"

section \<open>A mocked client\<close>

text \<open>
  One concrete surrounding, used to run the handlers on examples: no environment
  overrides, a ledger that answers every request after 20 ms, an address parser that
  accepts 32 to 44 base-58 characters, and no token account at any address.
\<close>

definition base58_alphabet :: string where
  "base58_alphabet = ''123456789ABCDEFGHJKLMNPQRSTUVWXYZabcdefghijkmnopqrstuvwxyz''"

definition mock_PublicKey :: "string \<Rightarrow> error + pubkey" where
  "mock_PublicKey s =
     (if \<not> list_all (\<lambda>c. c \<in> set base58_alphabet) s then Inl (Error ''Non-base58 character'')
      else if length s < 32 \<or> 44 < length s then Inl (Error ''Invalid public key input'')
      else Inr s)"

definition mock_pow :: "jsnum \<Rightarrow> jsnum \<Rightarrow> jsnum" where
  "mock_pow x y =
     (case y of
        Fin d e \<Rightarrow> (if x = Fin 10 0 \<and> e = 0 \<and> 0 \<le> d then round_ratio (10 ^ nat d) 1 else NaN)
      | _ \<Rightarrow> NaN)"

fun mock_stringify :: "json \<Rightarrow> string" where
  "mock_stringify (JStr s) = [CHR 0x22] @ s @ [CHR 0x22]"
| "mock_stringify (JBool b) = (if b then ''true'' else ''false'')"
| "mock_stringify JNull = ''null''"
| "mock_stringify (JNum x) = (case x of Fin m e \<Rightarrow> String_of_int m @ ''e'' @ String_of_int e | _ \<Rightarrow> ''null'')"
| "mock_stringify (JArr xs) = ''['' @ concat (map (\<lambda>x. mock_stringify x @ '','') xs) @ '']''"
| "mock_stringify (JObj kvs) =
     ''{'' @ concat (map (\<lambda>kv. [CHR 0x22] @ fst kv @ [CHR 0x22] @ '':'' @ mock_stringify (snd kv) @ '','') kvs) @ ''}''"
| "mock_stringify v = ''''"

definition mock_string :: "call \<Rightarrow> string" where
  "mock_string c =
     (case c of
        getLatestBlockhash conn \<Rightarrow> ''EkSnNWid2cvwEVnVx9aBqawnmiCNiDgp3gUdkDPTKN1N''
      | getVersion conn \<Rightarrow> ''1.18.22''
      | createMint conn payer authority freeze d \<Rightarrow> ''So11111111111111111111111111111111111111112''
      | _ \<Rightarrow> ''5VERv8NMvzbJMEkV8xnrLkEaWRtSz9CosKDYjCJjBRnbJLgp8uirBgmQpjKhoR4tjF3ZpRzrFmBV6UjKdiSZkQUW'')"

definition mock_env :: env where
  "mock_env =
     \<lparr>process_env = (\<lambda>v. None),
      Keypair_generate = (\<lambda>n. \<lparr>publicKey = replicate 31 (CHR ''1'') @ [base58_alphabet ! (Suc n mod 58)],
                                secretKey = replicate 63 0 @ [Suc n mod 256]\<rparr>),
      bs58_encode = map (\<lambda>b. base58_alphabet ! (b mod 58)),
      bs58_decode = (\<lambda>s. if list_all (\<lambda>c. c \<in> set base58_alphabet) s
                          then Inr (map (\<lambda>c. of_char c mod 58) s)
                          else Inl (Error ''Non-base58 character'')),
      Keypair_fromSecretKey =
        (\<lambda>bytes. if length bytes = 64
                  then Inr \<lparr>publicKey = replicate 31 (CHR ''1'') @ [base58_alphabet ! (last bytes mod 58)],
                            secretKey = bytes\<rparr>
                  else Inl (Error ''bad secret key size'')),
      PublicKey_new = mock_PublicKey,
      getAssociatedTokenAddress = (\<lambda>m owner. Inr (take 22 owner @ take 22 m)),
      Math_pow = mock_pow,
      Number_toString = (\<lambda>x. mock_stringify (JNum x)),
      JSON_stringify = mock_stringify,
      Date_toISOString = (\<lambda>n. ''2025-01-01T00:00:00.000Z''),
      reply_number = (\<lambda>n c. Settled 20 (Inr (Fin 2500000000 0))),
      reply_string = (\<lambda>n c. Settled 20 (Inr (mock_string c))),
      reply_Account = (\<lambda>n c. Settled 20 (Inl (Error ''TokenAccountNotFoundError''))),
      reply_Mint = (\<lambda>n c. Settled 20 (Inr \<lparr>mint_decimals = Fin 6 0, mint_supply = 1000000,
                                            mint_mintAuthority = None,
                                            mint_freezeAuthority = None,
                                            mint_isInitialized = True\<rparr>)),
      reply_AccountInfo = (\<lambda>n c. Settled 20 (Inr None)),
      reply_Transaction = (\<lambda>n c. Settled 20 (Inr None)),
      reply_EpochInfo = (\<lambda>n c. Settled 20 (Inr \<lparr>ei_epoch = Fin 700 0, ei_slotIndex = Fin 1000 0,
                                                 ei_slotsInEpoch = Fin 432000 0\<rparr>)),
      reply_KeyedAccounts = (\<lambda>n c. Settled 20 (Inr [])),
      reply_ParsedAccounts = (\<lambda>n c. Settled 20 (Inr [])),
      reply_Signatures = (\<lambda>n c. Settled 20 (Inr [])),
      reply_Response = (\<lambda>n c. Settled 20 (Inr (Settled 5 (Inr (JArr [])))))\<rparr>"

text \<open>A wallet store holding one wallet, \<open>alice\<close>.\<close>

definition alice :: wallet where
  "alice = \<lparr>wallet_keypair = \<lparr>publicKey = ''4Nd1mBQtrMJVYVfKf2PJy9NZUZdTAsp7D4xWLs4gDB4T'',
                               secretKey = replicate 64 7\<rparr>,
            wallet_name = ''alice''\<rparr>"

definition with_alice :: "state \<Rightarrow> state" where
  "with_alice s = s\<lparr>wallets := [(''alice'', alice)]\<rparr>"

text \<open>The connection a fresh process opens by default, and two addresses.\<close>

definition devnet_connection :: Connection where
  "devnet_connection =
     \<lparr>rpcEndpoint = ''https://api.devnet.solana.com'', commitment = ''confirmed''\<rparr>"

definition system_program :: pubkey where
  "system_program = ''11111111111111111111111111111111''"

definition wrapped_sol :: pubkey where
  "wrapped_sol = ''So11111111111111111111111111111111111111112''"

text \<open>The same ledger, where every token account exists.\<close>

definition holder_env :: env where
  "holder_env =
     mock_env\<lparr>reply_Account :=
                (\<lambda>n c. Settled 20 (Inr \<lparr>acct_amount = 250, acct_mint = wrapped_sol\<rparr>))\<rparr>"

text \<open>A ledger that answers version requests after 7 s and balance requests never.\<close>

definition slow_env :: env where
  "slow_env = mock_env\<lparr>reply_string := (\<lambda>n c. Settled 7000 (Inr ''1.18.22'')),
                        reply_number := (\<lambda>n c. Pending)\<rparr>"

text \<open>A ledger whose version request fails after 3 s.\<close>

definition refusing_env :: env where
  "refusing_env = mock_env\<lparr>reply_string := (\<lambda>n c. Settled 3000 (Inl (Error ''fetch failed'')))\<rparr>"

text \<open>The signature the mocked ledger gives a submitted transaction.\<close>

definition signature_1 :: string where
  "signature_1 =
     ''5VERv8NMvzbJMEkV8xnrLkEaWRtSz9CosKDYjCJjBRnbJLgp8uirBgmQpjKhoR4tjF3ZpRzrFmBV6UjKdiSZkQUW''"

text \<open>A fresh process whose first request switched to mainnet.\<close>

definition on_mainnet :: state where
  "on_mainnet = snd (handleSwitchNetwork mock_env ''mainnet'' initial_state)"

section \<open>Numbers: every result is the nearest double\<close>

text \<open>
  The arithmetic on numbers goes through \<open>round_ratio\<close>, which turns an exact quotient of
  integers into a double. This section shows that the double it returns lies within half a
  unit in the last place of the exact quotient, that its exponent and mantissa stay in the
  range of the format, and that the mantissa of a normal result is normalised. Decimal
  literals and products inherit the bound.
\<close>

lemma dval_powi: "dval m e = of_int m * 2 powi e"
proof (cases "0 \<le> e")
  case True
  then have "(2::rat) powi e = 2 ^ nat e" by (simp only: power_int_def if_True)
  with True show ?thesis by (simp only: dval_def if_True)
next
  case False
  then have "(2::rat) powi e = inverse 2 ^ nat (- e)" by (simp only: power_int_def if_False)
  then have "(2::rat) powi e = inverse (2 ^ nat (- e))" by (simp only: power_inverse)
  with False show ?thesis by (simp only: dval_def if_False divide_inverse)
qed

text \<open>Rounding a quotient to an integer moves it by at most one half.\<close>

lemma round_half_even_nearest:
  assumes "0 < d"
  shows "\<bar>rat_of_int (round_half_even n d) - of_int n / of_int d\<bar> \<le> 1 / 2"
proof -
  define q r where "q = n div d" and "r = n mod d"
  have r: "0 \<le> r" "r < d" using assms by (simp_all add: r_def)
  have "n = q * d + r" by (simp add: q_def r_def)
  then have "rat_of_int n = of_int q * of_int d + of_int r" by simp
  then have frac: "rat_of_int n / of_int d = of_int q + of_int r / of_int d"
    using assms by (simp add: field_simps)
  show ?thesis
  proof (cases "d < 2 * r \<or> (2 * r = d \<and> odd q)")
    case True
    then have up: "round_half_even n d = q + 1"
      by (simp add: round_half_even_def Let_def q_def r_def)
    from True have "d \<le> 2 * r" by auto
    then have "rat_of_int d \<le> 2 * of_int r" by (metis of_int_le_iff of_int_mult of_int_numeral)
    moreover have "rat_of_int r < of_int d" using r by simp
    moreover have "0 < rat_of_int d" using assms by simp
    ultimately show ?thesis
      unfolding up frac by (simp add: field_simps abs_if)
  next
    case False
    then have down: "round_half_even n d = q"
      by (simp add: round_half_even_def Let_def q_def r_def)
    from False have "2 * r \<le> d" by auto
    then have "2 * rat_of_int r \<le> of_int d" by (metis of_int_le_iff of_int_mult of_int_numeral)
    moreover have "0 \<le> rat_of_int r" using r by simp
    moreover have "0 < rat_of_int d" using assms by simp
    ultimately show ?thesis
      unfolding down frac by (simp add: field_simps abs_if)
  qed
qed

text \<open>Scaling by the chosen power of two before rounding.\<close>

lemma powi_pos: "0 < (2::rat) powi e"
  by (simp add: power_int_def)

lemma powi_cancel: "(2::rat) powi (- e) * 2 powi e = 1"
proof -
  have "(2::rat) powi e \<noteq> 0" using powi_pos [of e] by simp
  then have "inverse ((2::rat) powi e) * 2 powi e = 1" by (rule left_inverse)
  then show ?thesis by (simp only: power_int_minus)
qed

lemma scaled_up:
  assumes "0 \<le> e"
  shows "rat_of_int a / of_int (d * 2 ^ nat e) = of_int a / of_int d * 2 powi (- e)"
proof -
  from assms have "(2::rat) powi e = 2 ^ nat e" by (simp only: power_int_def if_True)
  then have "(2::rat) powi (- e) = inverse (2 ^ nat e)" by (simp only: power_int_minus)
  then show ?thesis by (simp add: divide_inverse del: power_int_minus)
qed

lemma scaled_down:
  assumes "\<not> 0 \<le> e"
  shows "rat_of_int (a * 2 ^ nat (- e)) / of_int d = of_int a / of_int d * 2 powi (- e)"
proof -
  from assms have "0 \<le> - e" by simp
  then have "(2::rat) powi (- e) = 2 ^ nat (- e)" by (simp only: power_int_def if_True)
  then show ?thesis by (simp del: power_int_minus)
qed

lemma scaled_round:
  assumes "0 < d"
  shows "\<bar>rat_of_int (if 0 \<le> e then round_half_even a (d * 2 ^ nat e)
                        else round_half_even (a * 2 ^ nat (- e)) d)
         - of_int a / of_int d * 2 powi (- e)\<bar> \<le> 1 / 2"
proof (cases "0 \<le> e")
  case True
  have "0 < d * 2 ^ nat e" using assms by simp
  then have "\<bar>rat_of_int (round_half_even a (d * 2 ^ nat e))
              - of_int a / of_int (d * 2 ^ nat e)\<bar> \<le> 1 / 2"
    by (rule round_half_even_nearest)
  then show ?thesis using True by (simp only: scaled_up [OF True] if_True)
next
  case False
  have "\<bar>rat_of_int (round_half_even (a * 2 ^ nat (- e)) d)
              - of_int (a * 2 ^ nat (- e)) / of_int d\<bar> \<le> 1 / 2"
    using assms by (rule round_half_even_nearest)
  then show ?thesis using False by (simp only: scaled_down [OF False] if_False)
qed

lemma round_ratio_Fin:
  assumes "round_ratio n d = Fin m e" and "n \<noteq> 0"
  shows "e = binade \<bar>n\<bar> d"
    and "m = sgn n * (if 0 \<le> e then round_half_even \<bar>n\<bar> (d * 2 ^ nat e)
                      else round_half_even (\<bar>n\<bar> * 2 ^ nat (- e)) d)"
  using assms
  by (auto simp: round_ratio_def Let_def split: if_splits)

text \<open>
  A finite result of \<open>round_ratio n d\<close> differs from \<open>n / d\<close> by at most half the weight
  of its last mantissa bit.
\<close>

theorem round_ratio_error:
  assumes d: "0 < d" and r: "round_ratio n d = Fin m e"
  shows "\<bar>dval m e - of_int n / of_int d\<bar> \<le> 2 powi e / 2"
proof (cases "n = 0")
  case True
  with r have "m = 0" by (simp add: round_ratio_def)
  with True show ?thesis using powi_pos [of e] by (simp add: dval_powi)
next
  case False
  define m0 where "m0 = (if 0 \<le> e then round_half_even \<bar>n\<bar> (d * 2 ^ nat e)
                         else round_half_even (\<bar>n\<bar> * 2 ^ nat (- e)) d)"
  define x where "x = rat_of_int \<bar>n\<bar> / of_int d"
  define p where "p = (2::rat) powi e"
  define p' where "p' = (2::rat) powi (- e)"
  have p: "0 < p" unfolding p_def by (rule powi_pos)
  have cancel: "p' * p = 1" unfolding p_def p'_def by (rule powi_cancel)
  have m: "m = sgn n * m0"
    using round_ratio_Fin(2) [OF r False] by (simp only: m0_def)
  have near: "\<bar>rat_of_int m0 - x * p'\<bar> \<le> 1 / 2"
    unfolding m0_def x_def p'_def using d by (rule scaled_round)
  have "x * (p' * p) = x" by (simp only: cancel mult_1_right)
  then have "rat_of_int m0 * p - x = (rat_of_int m0 - x * p') * p"
    by (simp add: algebra_simps)
  then have "\<bar>rat_of_int m0 * p - x\<bar> = \<bar>rat_of_int m0 - x * p'\<bar> * p"
    using p by (simp add: abs_mult)
  also have "\<dots> \<le> 1 / 2 * p"
    using near p by (intro mult_right_mono) simp_all
  finally have mag: "\<bar>rat_of_int m0 * p - x\<bar> \<le> p / 2"
    by simp
  have "dval m e - of_int n / of_int d = of_int (sgn n) * (rat_of_int m0 * p - x)"
    using False by (simp add: dval_powi m x_def p_def algebra_simps sgn_if del: power_int_minus)
  then have "\<bar>dval m e - of_int n / of_int d\<bar> = \<bar>rat_of_int m0 * p - x\<bar>"
    using False by (simp add: abs_mult sgn_if)
  with mag show ?thesis by (simp add: p_def)
qed

text \<open>
  The exponent: from the bit lengths of numerator and denominator the quotient is known up
  to a factor of four, and one comparison settles which of the two candidate exponents
  makes the mantissa fit in 53 bits.
\<close>

lemma powi_shift: "(2::rat) powi (e + int k) = 2 ^ k * 2 powi e"
proof -
  have "(2::rat) powi (e + int k) = 2 powi e * 2 powi (int k)"
    by (rule power_int_add) simp
  also have "(2::rat) powi (int k) = 2 ^ k" by (simp only: power_int_of_nat)
  finally show ?thesis by (simp only: mult.commute)
qed

lemma powi_mono: "e \<le> e' \<Longrightarrow> (2::rat) powi e \<le> 2 powi e'"
  by (rule power_int_increasing) simp_all

lemma bitlen_rat:
  assumes "0 < n"
  shows "2 powi (bitlen n - 1) \<le> rat_of_int n" and "rat_of_int n < 2 powi (bitlen n)"
proof -
  from assms have b: "2 ^ nat (bitlen n - 1) \<le> n" "n < 2 ^ nat (bitlen n)"
    using bitlen_bounds [of n] by simp_all
  from assms have pos: "0 \<le> bitlen n - 1" "0 \<le> bitlen n"
    using bitlen_nonneg [of n] bitlen_eq_zero_iff [of n] by simp_all
  have "(2::rat) powi (bitlen n - 1) = 2 ^ nat (bitlen n - 1)"
    using pos(1) by (simp only: power_int_def if_True)
  also have "\<dots> = rat_of_int (2 ^ nat (bitlen n - 1))" by simp
  also have "\<dots> \<le> rat_of_int n" using b(1) by (simp only: of_int_le_iff)
  finally show "2 powi (bitlen n - 1) \<le> rat_of_int n" .
  have "rat_of_int n < rat_of_int (2 ^ nat (bitlen n))" using b(2) by (simp only: of_int_less_iff)
  also have "\<dots> = 2 ^ nat (bitlen n)" by simp
  also have "\<dots> = (2::rat) powi (bitlen n)"
    using pos(2) by (simp only: power_int_def if_True)
  finally show "rat_of_int n < 2 powi (bitlen n)" .
qed

lemma test_up:
  assumes "0 < d"
  shows "(c * (d * 2 ^ k) \<le> n) \<longleftrightarrow> (rat_of_int c * 2 powi (int k) \<le> of_int n / of_int d)"
proof -
  have "(rat_of_int c * 2 powi (int k) \<le> of_int n / of_int d) \<longleftrightarrow>
        (rat_of_int c * 2 ^ k * of_int d \<le> of_int n)"
    using assms by (simp add: pos_le_divide_eq)
  also have "rat_of_int c * 2 ^ k * of_int d = rat_of_int (c * (d * 2 ^ k))"
    by (simp add: mult_ac)
  finally show ?thesis by (simp only: of_int_le_iff)
qed

lemma test_down:
  assumes "0 < d"
  shows "(c * d \<le> n * 2 ^ k) \<longleftrightarrow> (rat_of_int c * 2 powi (- int k) \<le> of_int n / of_int d)"
proof -
  have "(2::rat) powi (- int k) = inverse (2 ^ k)"
    by (simp only: power_int_minus power_int_of_nat)
  then have "rat_of_int c * 2 powi (- int k) = of_int c / 2 ^ k"
    by (simp only: divide_inverse)
  moreover have "(rat_of_int c / 2 ^ k \<le> of_int n / of_int d) \<longleftrightarrow>
        (rat_of_int c * of_int d \<le> of_int n * 2 ^ k)"
    using assms by (simp add: field_simps)
  ultimately have "(rat_of_int c * 2 powi (- int k) \<le> of_int n / of_int d) \<longleftrightarrow>
        (rat_of_int c * of_int d \<le> of_int n * 2 ^ k)"
    by (simp only:)
  also have "rat_of_int c * of_int d = rat_of_int (c * d)" by simp
  also have "rat_of_int n * 2 ^ k = rat_of_int (n * 2 ^ k)" by simp
  finally show ?thesis by (simp only: of_int_le_iff)
qed

lemma binade_test:
  assumes "0 < d"
  shows "(if 0 \<le> e0 then c * (d * 2 ^ nat e0) \<le> n else c * d \<le> n * 2 ^ nat (- e0)) \<longleftrightarrow>
         (rat_of_int c * 2 powi e0 \<le> of_int n / of_int d)"
proof (cases "0 \<le> e0")
  case True
  then have "int (nat e0) = e0" by simp
  with test_up [OF assms, of c "nat e0" n] True show ?thesis by (simp only: if_True)
next
  case False
  then have "- int (nat (- e0)) = e0" by simp
  with test_down [OF assms, of c n "nat (- e0)"] False show ?thesis by (simp only: if_False)
qed

lemma quotient_window:
  assumes n: "0 < n" and d: "0 < d"
  defines "e0 \<equiv> bitlen n - bitlen d - 53"
  shows "2 ^ 52 * 2 powi e0 < rat_of_int n / of_int d"
    and "rat_of_int n / of_int d < 2 ^ 53 * 2 powi (e0 + 1)"
proof -
  have pn: "0 < (2::rat) powi (bitlen n - 1)" and pd: "0 < (2::rat) powi (bitlen d - 1)"
    by (rule powi_pos)+
  have "2 powi (bitlen n - 1) / 2 powi (bitlen d) < rat_of_int n / of_int d"
    using pn bitlen_rat(1) [OF n] bitlen_rat(2) [OF d] d
    by (intro frac_less2) simp_all
  moreover have "(2::rat) powi (bitlen n - 1) / 2 powi (bitlen d) = 2 powi (bitlen n - 1 - bitlen d)"
    by (rule power_int_diff [symmetric]) simp
  moreover have "bitlen n - 1 - bitlen d = e0 + int 52" by (simp add: e0_def)
  ultimately show "2 ^ 52 * 2 powi e0 < rat_of_int n / of_int d"
    by (simp only: powi_shift)
  have "rat_of_int n / of_int d < 2 powi (bitlen n) / 2 powi (bitlen d - 1)"
    using pd bitlen_rat(2) [OF n] bitlen_rat(1) [OF d] n
    by (intro frac_less) simp_all
  moreover have "(2::rat) powi (bitlen n) / 2 powi (bitlen d - 1) = 2 powi (bitlen n - (bitlen d - 1))"
    by (rule power_int_diff [symmetric]) simp
  moreover have "bitlen n - (bitlen d - 1) = (e0 + 1) + int 53" by (simp add: e0_def)
  ultimately show "rat_of_int n / of_int d < 2 ^ 53 * 2 powi (e0 + 1)"
    by (simp only: powi_shift)
qed

lemma binade_bounds:
  assumes n: "0 < n" and d: "0 < d"
  shows "- 1074 \<le> binade n d"
    and "rat_of_int n / of_int d < 2 ^ 53 * 2 powi (binade n d)"
    and "- 1074 < binade n d \<Longrightarrow> 2 ^ 52 * 2 powi (binade n d) \<le> rat_of_int n / of_int d"
proof -
  define e0 where "e0 = bitlen n - bitlen d - 53"
  define x where "x = rat_of_int n / of_int d"
  define T where "T \<longleftrightarrow> 2 ^ 53 * 2 powi e0 \<le> x"
  define e1 where "e1 = (if T then e0 + 1 else e0)"
  have tst: "(if 0 \<le> e0 then 2 ^ 53 * (d * 2 ^ nat e0) \<le> n else 2 ^ 53 * d \<le> n * 2 ^ nat (- e0)) \<longleftrightarrow> T"
    using binade_test [OF d, of e0 "2 ^ 53" n]
    by (simp only: T_def x_def of_int_power of_int_numeral)
  have bin: "binade n d = max e1 (- 1074)"
  proof (cases "0 \<le> e0")
    case True
    with tst have "2 ^ 53 * (d * 2 ^ nat e0) \<le> n \<longleftrightarrow> T" by (simp only: if_True)
    with True show ?thesis
      unfolding binade_def Let_def e0_def [symmetric] e1_def by (simp only: if_True)
  next
    case False
    with tst have "2 ^ 53 * d \<le> n * 2 ^ nat (- e0) \<longleftrightarrow> T" by (simp only: if_False)
    with False show ?thesis
      unfolding binade_def Let_def e0_def [symmetric] e1_def by (simp only: if_False)
  qed
  have win: "2 ^ 52 * 2 powi e0 < x" "x < 2 ^ 53 * 2 powi (e0 + 1)"
    using quotient_window [OF n d] by (simp_all only: x_def e0_def)
  have twice: "(2::rat) powi (e0 + 1) = 2 * 2 powi e0"
    using powi_shift [of e0 1] by simp
  have hi1: "x < 2 ^ 53 * 2 powi e1"
  proof (cases T)
    case True
    with win(2) show ?thesis by (simp only: e1_def if_True)
  next
    case False
    then have "x < 2 ^ 53 * 2 powi e0" by (simp only: T_def not_le)
    with False show ?thesis by (simp only: e1_def if_False)
  qed
  have lo1: "2 ^ 52 * 2 powi e1 \<le> x"
  proof (cases T)
    case True
    then have "2 ^ 53 * 2 powi e0 \<le> x" by (simp only: T_def)
    moreover have "(2::rat) ^ 52 * 2 powi (e0 + 1) = 2 ^ 53 * 2 powi e0"
      by (simp only: twice) simp
    ultimately have "2 ^ 52 * 2 powi (e0 + 1) \<le> x" by (simp only:)
    with True show ?thesis by (simp only: e1_def if_True)
  next
    case False
    from win(1) have "2 ^ 52 * 2 powi e0 \<le> x" by (rule less_imp_le)
    with False show ?thesis by (simp only: e1_def if_False)
  qed
  show "- 1074 \<le> binade n d" by (simp only: bin max.cobounded2)
  have "(2::rat) powi e1 \<le> 2 powi (binade n d)"
    by (rule powi_mono) (simp only: bin max.cobounded1)
  then have "(2::rat) ^ 53 * 2 powi e1 \<le> 2 ^ 53 * 2 powi (binade n d)"
    by (intro mult_left_mono) simp_all
  with hi1 show "rat_of_int n / of_int d < 2 ^ 53 * 2 powi (binade n d)"
    unfolding x_def by (rule less_le_trans)
  assume "- 1074 < binade n d"
  then have "binade n d = e1" unfolding bin by (simp add: max_def split: if_splits)
  with lo1 show "2 ^ 52 * 2 powi (binade n d) \<le> rat_of_int n / of_int d"
    by (simp only: x_def)
qed

lemma round_ratio_finite:
  assumes "round_ratio n d = Fin m e" and "n \<noteq> 0"
  shows "\<not> (971 < e \<or> (e = 971 \<and>
            (if 0 \<le> e then round_half_even \<bar>n\<bar> (d * 2 ^ nat e)
             else round_half_even (\<bar>n\<bar> * 2 ^ nat (- e)) d) = 2 ^ 53))"
  using assms
  by (simp add: round_ratio_def Let_def split: if_splits)

lemma nearest_int_bounds:
  assumes "\<bar>rat_of_int k - s\<bar> \<le> 1 / 2"
  shows "s < of_int b \<Longrightarrow> k \<le> b" and "of_int c \<le> s \<Longrightarrow> c \<le> k"
proof -
  assume "s < of_int b"
  with assms have "rat_of_int k < of_int b + 1" by linarith
  then have "rat_of_int k < of_int (b + 1)" by simp
  then have "k < b + 1" by (simp only: of_int_less_iff)
  then show "k \<le> b" by simp
next
  assume "of_int c \<le> s"
  with assms have "rat_of_int c - 1 < of_int k" by linarith
  then have "rat_of_int (c - 1) < of_int k" by simp
  then have "c - 1 < k" by (simp only: of_int_less_iff)
  then show "c \<le> k" by simp
qed

text \<open>
  A finite result has an exponent between \<open>-1074\<close> and \<open>971\<close> and a mantissa of at most
  \<open>2 ^ 53\<close> in absolute value, strictly less at the top exponent; above the subnormal
  exponent the mantissa of a non-zero result has at least 53 bits.
\<close>

theorem round_ratio_range:
  assumes d: "0 < d" and r: "round_ratio n d = Fin m e"
  shows "- 1074 \<le> e" and "e \<le> 971" and "\<bar>m\<bar> \<le> 2 ^ 53"
    and "e = 971 \<Longrightarrow> \<bar>m\<bar> < 2 ^ 53"
    and "n \<noteq> 0 \<Longrightarrow> - 1074 < e \<Longrightarrow> 2 ^ 52 \<le> \<bar>m\<bar>"
proof -
  define m0 where "m0 = (if 0 \<le> e then round_half_even \<bar>n\<bar> (d * 2 ^ nat e)
                         else round_half_even (\<bar>n\<bar> * 2 ^ nat (- e)) d)"
  define x where "x = rat_of_int \<bar>n\<bar> / of_int d"
  define p where "p = (2::rat) powi e"
  define p' where "p' = (2::rat) powi (- e)"
  have p': "0 < p'" unfolding p'_def by (rule powi_pos)
  have cancel: "p * p' = 1"
    using powi_cancel [of e] by (simp only: p_def p'_def mult.commute)
  have near: "\<bar>rat_of_int m0 - x * p'\<bar> \<le> 1 / 2"
    unfolding m0_def x_def p'_def using d by (rule scaled_round)
  have zero: "m = 0 \<and> e = 0" if "n = 0"
    using r that by (simp add: round_ratio_def)
  have nz: "e = binade \<bar>n\<bar> d \<and> m = sgn n * m0 \<and> \<not> (971 < e \<or> (e = 971 \<and> m0 = 2 ^ 53))"
    if "n \<noteq> 0"
    using round_ratio_Fin [OF r that] round_ratio_finite [OF r that]
    by (simp only: m0_def) simp
  have hi: "x * p' < 2 ^ 53" if "n \<noteq> 0"
  proof -
    from that have "0 < \<bar>n\<bar>" by simp
    from binade_bounds(2) [OF this d] nz [OF that]
    have "x < 2 ^ 53 * p" by (simp only: x_def p_def)
    then have "x * p' < 2 ^ 53 * p * p'" using p' by (rule mult_strict_right_mono)
    also have "\<dots> = 2 ^ 53" using cancel by (simp only: mult.assoc mult_1_right)
    finally show ?thesis .
  qed
  have lo: "2 ^ 52 \<le> x * p'" if "n \<noteq> 0" "- 1074 < e"
  proof -
    from that have "0 < \<bar>n\<bar>" by simp
    from binade_bounds(3) [OF this d] nz [OF that(1)] that(2)
    have "2 ^ 52 * p \<le> x" by (simp only: x_def p_def)
    then have "2 ^ 52 * p * p' \<le> x * p'" using p' by (intro mult_right_mono) simp_all
    moreover have "2 ^ 52 * p * p' = 2 ^ 52" using cancel by (simp only: mult.assoc mult_1_right)
    ultimately show ?thesis by (simp only:)
  qed
  have nonneg: "0 \<le> x * p'" using d p' by (simp add: x_def)
  have m0_hi: "m0 \<le> 2 ^ 53" if "n \<noteq> 0"
    using nearest_int_bounds(1) [OF near, of "2 ^ 53"] hi [OF that] by simp
  have m0_lo: "0 \<le> m0"
    using nearest_int_bounds(2) [OF near, of 0] nonneg by simp
  have abs_m: "\<bar>m\<bar> = m0" if "n \<noteq> 0"
    using nz [OF that] m0_lo that by (simp add: abs_mult sgn_if)
  show "- 1074 \<le> e"
  proof (cases "n = 0")
    case True
    with zero show ?thesis by simp
  next
    case False
    then have "0 < \<bar>n\<bar>" by simp
    from binade_bounds(1) [OF this d] nz [OF False] show ?thesis by simp
  qed
  show "e \<le> 971"
  proof (cases "n = 0")
    case True
    with zero show ?thesis by simp
  next
    case False
    from nz [OF False] show ?thesis by simp
  qed
  show "\<bar>m\<bar> \<le> 2 ^ 53"
  proof (cases "n = 0")
    case True
    with zero show ?thesis by simp
  next
    case False
    with m0_hi abs_m show ?thesis by simp
  qed
  show "\<bar>m\<bar> < 2 ^ 53" if "e = 971"
  proof (cases "n = 0")
    case True
    with zero show ?thesis by simp
  next
    case False
    with nz [OF False] m0_hi [OF False] abs_m [OF False] that show ?thesis by simp
  qed
  show "2 ^ 52 \<le> \<bar>m\<bar>" if "n \<noteq> 0" "- 1074 < e"
    using nearest_int_bounds(2) [OF near, of "2 ^ 52"] lo [OF that] abs_m [OF that(1)] by simp
qed

text \<open>Decimal literals and products.\<close>

theorem js_decimal_error:
  assumes "js_decimal digits scale = Fin m e"
  shows "\<bar>dval m e - of_int digits / 10 ^ scale\<bar> \<le> 2 powi e / 2"
proof -
  have "(0::int) < 10 ^ scale" by simp
  from round_ratio_error [OF this, of digits m e] assms show ?thesis
    by (simp add: js_decimal_def)
qed

lemma product_as_ratio:
  "rat_of_int (if 0 \<le> e then a * 2 ^ nat e else a) / of_int (if 0 \<le> e then 1 else 2 ^ nat (- e)) =
   of_int a * 2 powi e"
proof (cases "0 \<le> e")
  case True
  then have "(2::rat) powi e = 2 ^ nat e" by (simp only: power_int_def if_True)
  with True show ?thesis by simp
next
  case False
  then have "(2::rat) powi e = inverse 2 ^ nat (- e)" by (simp only: power_int_def if_False)
  then have "(2::rat) powi e = inverse (2 ^ nat (- e))" by (simp only: power_inverse)
  with False show ?thesis by (simp only: if_False divide_inverse of_int_power of_int_numeral)
qed

theorem js_mul_error:
  assumes "js_mul (Fin m1 e1) (Fin m2 e2) = Fin m e"
  shows "\<bar>dval m e - dval m1 e1 * dval m2 e2\<bar> \<le> 2 powi e / 2"
proof -
  define n where "n = (if 0 \<le> e1 + e2 then m1 * m2 * 2 ^ nat (e1 + e2) else m1 * m2)"
  define d :: int where "d = (if 0 \<le> e1 + e2 then 1 else 2 ^ nat (- (e1 + e2)))"
  have d: "0 < d" by (simp add: d_def)
  have r: "round_ratio n d = Fin m e"
    using assms by (simp add: n_def d_def split: if_splits)
  have "rat_of_int n / of_int d = of_int (m1 * m2) * 2 powi (e1 + e2)"
    unfolding n_def d_def by (rule product_as_ratio)
  also have "(2::rat) powi (e1 + e2) = 2 powi e1 * 2 powi e2"
    by (rule power_int_add) simp
  finally have "rat_of_int n / of_int d = dval m1 e1 * dval m2 e2"
    by (simp add: dval_powi)
  with round_ratio_error [OF d r] show ?thesis by (simp only:)
qed

text \<open>Some known doubles, computed by the definitions.\<close>

lemma one_tenth: "js_decimal 1 1 = Fin 7205759403792794 (- 56)"
  by code_simp

lemma three_tenths_in_lamports:
  "js_mul (js_decimal 3 1) LAMPORTS_PER_SOL = Fin 5033164800000000 (- 24)"
  by code_simp

lemma smallest_subnormal: "js_div (Fin 1 (- 1074)) (Fin 2 0) = Fin 0 (- 1074)"
  by code_simp

lemma overflow_to_infinity: "js_mul (Fin 1 971) (Fin (2 ^ 53) 0) = PosInf"
  by code_simp

section \<open>Running asynchronous code: basic facts\<close>

lemma andThen_Return [simp]: "andThen (Return x) f = f x"
  by (simp add: andThen_def Return_def)

lemma andThen_Throw [simp]: "andThen (Throw e) f = Throw e"
  by (simp add: andThen_def Throw_def)

lemma andThen_gets [simp]: "andThen (gets g) f s = f (g s) s"
  by (simp add: andThen_def gets_def)

lemma andThen_modify [simp]: "andThen (modify g) f s = f () (g s)"
  by (simp add: andThen_def modify_def)

lemma Throw_apply: "Throw e s = (Throws e, s)"
  by (simp add: Throw_def)

lemma Return_apply: "Return x s = (Returns x, s)"
  by (simp add: Return_def)

lemma tryCatch_Return [simp]: "tryCatch (Return x) h = Return x"
  by (simp add: tryCatch_def Return_def)

lemma tryCatch_Throw [simp]: "tryCatch (Throw e) h = h e"
  by (simp add: tryCatch_def Throw_def)

lemma lift_Inl [simp]: "lift (Inl e) = Throw e"
  by (simp add: lift_def)

lemma lift_Inr [simp]: "lift (Inr x) = Return x"
  by (simp add: lift_def)

text \<open>Unfolding these runs a handler on a state step by step.\<close>

lemmas prog_defs =
  andThen_def tryCatch_def Return_def Throw_def gets_def modify_def lift_def await_def
  request_def the_connection_def on_connection_def

section \<open>What the dispatch front-end does with a handler's outcome\<close>

lemma callTool_Returns:
  "handler env r s = (Returns v, s') \<Longrightarrow>
   callTool env r s =
     (Returns \<lparr>contents = [\<lparr>content_type = ''text'', content_text = JSON_stringify env v\<rparr>],
               isError = None\<rparr>, s')"
  by (simp add: callTool_def tryCatch_def andThen_def Return_def)

lemma callTool_Throws:
  "handler env r s = (Throws e, s') \<Longrightarrow>
   callTool env r s =
     (Returns \<lparr>contents = [\<lparr>content_type = ''text'',
                  content_text = ''Error: '' @ (if is_Error e then message e else String_of_error e)\<rparr>],
               isError = Some True\<rparr>, s')"
  by (simp add: callTool_def tryCatch_def andThen_def Return_def)

lemma callTool_Hangs:
  "handler env r s = (Hangs, s') \<Longrightarrow> callTool env r s = (Hangs, s')"
  by (simp add: callTool_def tryCatch_def andThen_def Return_def)

lemma callTool_state: "snd (callTool env r s) = snd (handler env r s)"
proof (cases "handler env r s")
  case (Pair out s')
  then show ?thesis
    by (cases out) (simp_all add: callTool_Returns callTool_Throws callTool_Hangs)
qed

section \<open>Connection manager: what a call leaves behind\<close>

lemma initializeConnection_built:
  "new_Connection (lookup_or (property (NETWORKS env) network) (property (NETWORKS env) ''devnet''))
     ''confirmed'' = Inr c \<Longrightarrow>
   initializeConnection env (Some network) s =
     (Returns (), s\<lparr>currentNetwork := network, connection := Some c\<rparr>)"
  by (simp add: initializeConnection_def prog_defs)

lemma initializeConnection_refused:
  "new_Connection (lookup_or (property (NETWORKS env) network) (property (NETWORKS env) ''devnet''))
     ''confirmed'' = Inl e \<Longrightarrow>
   initializeConnection env (Some network) s = (Throws e, s\<lparr>currentNetwork := network\<rparr>)"
  by (simp add: initializeConnection_def prog_defs)

lemma devnet_entry:
  "lookup_or (property (NETWORKS env) ''devnet'') (property (NETWORKS env) ''devnet'') =
     property (NETWORKS env) ''devnet''"
  by (simp add: property_def NETWORKS_def env_or_def split: option.splits)

lemma ensureConnection_initialized:
  "connectionInitialized s \<Longrightarrow> ensureConnection env s = (Returns (), s)"
  by (simp add: ensureConnection_def Return_def)

lemma ensureConnection_fresh:
  "\<not> connectionInitialized s \<Longrightarrow>
   new_Connection (property (NETWORKS env) ''devnet'') ''confirmed'' = Inr c \<Longrightarrow>
   ensureConnection env s =
     (Returns (), s\<lparr>currentNetwork := ''devnet'', connection := Some c,
                    connectionInitialized := True\<rparr>)"
  by (simp add: ensureConnection_def initializeConnection_def devnet_entry prog_defs)

lemma ensureConnection_refused:
  "\<not> connectionInitialized s \<Longrightarrow>
   new_Connection (property (NETWORKS env) ''devnet'') ''confirmed'' = Inl e \<Longrightarrow>
   ensureConnection env s = (Throws e, s\<lparr>currentNetwork := ''devnet''\<rparr>)"
  by (simp add: ensureConnection_def initializeConnection_def devnet_entry prog_defs)

lemma ensureConnection_cases:
  obtains "ensureConnection env s = (Returns (), s)"
  | c where "ensureConnection env s =
               (Returns (), s\<lparr>currentNetwork := ''devnet'', connection := Some c,
                              connectionInitialized := True\<rparr>)"
  | e where "ensureConnection env s = (Throws e, s\<lparr>currentNetwork := ''devnet''\<rparr>)"
proof (cases "connectionInitialized s")
  case True
  then show ?thesis using that(1) by (simp add: ensureConnection_initialized)
next
  case False
  then show ?thesis
    using that(2,3) ensureConnection_fresh [of s env] ensureConnection_refused [of s env]
    by (cases "new_Connection (property (NETWORKS env) ''devnet'') ''confirmed''") auto
qed

lemma trace_ensureConnection [simp]: "trace (snd (ensureConnection env s)) = trace s"
  by (rule ensureConnection_cases [of env s]) simp_all

lemma wallets_ensureConnection [simp]: "wallets (snd (ensureConnection env s)) = wallets s"
  by (rule ensureConnection_cases [of env s]) simp_all

lemma ensureConnection_never_hangs: "fst (ensureConnection env s) \<noteq> Hangs"
  by (rule ensureConnection_cases [of env s]) simp_all

lemma ensureConnection_Returns:
  "ensureConnection env s = (Returns u, s1) \<Longrightarrow>
   trace s1 = trace s \<and> wallets s1 = wallets s \<and> connectionInitialized s1"
proof (cases "connectionInitialized s")
  case True
  assume "ensureConnection env s = (Returns u, s1)"
  with True show ?thesis by (simp add: ensureConnection_initialized)
next
  case False
  assume r: "ensureConnection env s = (Returns u, s1)"
  show ?thesis
  proof (cases "new_Connection (property (NETWORKS env) ''devnet'') ''confirmed''")
    case (Inl e)
    from ensureConnection_refused [OF False Inl] r show ?thesis by simp
  next
    case (Inr c)
    from ensureConnection_fresh [OF False Inr] r show ?thesis by auto
  qed
qed

section \<open>Reading a successful run backwards\<close>

text \<open>
  When a sequence of steps returns, each step returned; these rules recover what each
  step saw.
\<close>

lemma andThen_ReturnsE:
  assumes "andThen m f s = (Returns v, s')"
  obtains x s1 where "m s = (Returns x, s1)" and "f x s1 = (Returns v, s')"
  using assms
  by (auto simp: andThen_def split: prod.splits outcome.splits)

lemma get_wallet_ReturnsD:
  "get_wallet walletName s = (Returns w, s1) \<Longrightarrow>
   Map_get (wallets s) walletName = Some w \<and> s1 = s"
  by (auto simp: get_wallet_def gets_def andThen_def Throw_def Return_def split: option.splits)

lemma lift_ReturnsD: "lift r s = (Returns x, s1) \<Longrightarrow> r = Inr x \<and> s1 = s"
  by (cases r) (simp_all add: Throw_def Return_def)

lemma gets_ReturnsD: "gets f s = (Returns x, s1) \<Longrightarrow> x = f s \<and> s1 = s"
  by (auto simp: gets_def)

lemma Return_ReturnsD: "Return y s = (Returns x, s1) \<Longrightarrow> x = y \<and> s1 = s"
  by (auto simp: Return_def)

lemma await_ReturnsD: "await p s = (Returns x, s1) \<Longrightarrow> (\<exists>t. p = Settled t (Inr x)) \<and> s1 = s"
  by (auto simp: await_def Throw_def Return_def split: promise.splits sum.splits)

lemma on_connection_ReturnsD:
  "on_connection reply f s = (Returns p, s1) \<Longrightarrow>
   \<exists>c. connection s = Some c \<and> reply (length (trace s)) (f c) = p \<and>
       s1 = s\<lparr>trace := trace s @ [f c]\<rparr>"
  by (auto simp: on_connection_def the_connection_def request_def andThen_def
           split: option.splits)

text \<open>A request on the connection that is awaited at once.\<close>

lemma asked_ReturnsD:
  assumes "andThen (on_connection reply f) await s = (Returns x, s1)"
  shows "\<exists>c t. connection s = Some c \<and> reply (length (trace s)) (f c) = Settled t (Inr x) \<and>
               s1 = s\<lparr>trace := trace s @ [f c]\<rparr>"
proof -
  from assms obtain p s2 where a: "on_connection reply f s = (Returns p, s2)"
    and b: "await p s2 = (Returns x, s1)"
    by (rule andThen_ReturnsE)
  from on_connection_ReturnsD [OF a] obtain c where c: "connection s = Some c"
    "reply (length (trace s)) (f c) = p" "s2 = s\<lparr>trace := trace s @ [f c]\<rparr>"
    by auto
  from await_ReturnsD [OF b] obtain t where t: "p = Settled t (Inr x)" "s1 = s2" by auto
  from c(2) t(1) have "reply (length (trace s)) (f c) = Settled t (Inr x)" by simp
  with c(1,3) t(2) show ?thesis by blast
qed

lemma submit_ReturnsD:
  assumes "submit env transaction wallet s = (Returns signature, s1)"
  shows "\<exists>c t blockhash.
           connection s = Some c \<and>
           reply_string env (length (trace s)) (getLatestBlockhash c) = Settled t (Inr blockhash) \<and>
           s1 = s\<lparr>trace := trace s @
                   [getLatestBlockhash c,
                    sendTransaction c
                      (sign (transaction\<lparr>recentBlockhash := Some blockhash,
                                          feePayer := Some (publicKey (wallet_keypair wallet))\<rparr>)
                            (wallet_keypair wallet))
                      [wallet_keypair wallet]]\<rparr>"
proof -
  from assms obtain p s2 where a: "on_connection (reply_string env) getLatestBlockhash s = (Returns p, s2)"
    and r1: "andThen (await p) (\<lambda>blockhash.
     let transaction = sign (transaction\<lparr>recentBlockhash := Some blockhash,
                                        feePayer := Some (publicKey (wallet_keypair wallet))\<rparr>)
                            (wallet_keypair wallet)
     in
     andThen (on_connection (reply_string env)
                (\<lambda>c. sendTransaction c transaction [wallet_keypair wallet])) (\<lambda>q.
     await q)) s2 = (Returns signature, s1)"
    unfolding submit_def by (rule andThen_ReturnsE)
  from r1 obtain blockhash s3 where b: "await p s2 = (Returns blockhash, s3)"
    and r2: "andThen (on_connection (reply_string env)
                (\<lambda>c. sendTransaction c
                   (sign (transaction\<lparr>recentBlockhash := Some blockhash,
                                          feePayer := Some (publicKey (wallet_keypair wallet))\<rparr>)
                            (wallet_keypair wallet)) [wallet_keypair wallet])) (\<lambda>q.
     await q) s3 = (Returns signature, s1)"
    by (rule andThen_ReturnsE) (simp add: Let_def)
  from r2 obtain q s4 where c: "on_connection (reply_string env)
                (\<lambda>c. sendTransaction c
                   (sign (transaction\<lparr>recentBlockhash := Some blockhash,
                                          feePayer := Some (publicKey (wallet_keypair wallet))\<rparr>)
                            (wallet_keypair wallet)) [wallet_keypair wallet]) s3 = (Returns q, s4)"
    and d: "await q s4 = (Returns signature, s1)"
    by (rule andThen_ReturnsE)
  from on_connection_ReturnsD [OF a] obtain k where k: "connection s = Some k"
    "reply_string env (length (trace s)) (getLatestBlockhash k) = p"
    "s2 = s\<lparr>trace := trace s @ [getLatestBlockhash k]\<rparr>"
    by auto
  from await_ReturnsD [OF b] obtain t where t: "p = Settled t (Inr blockhash)" "s3 = s2" by auto
  from on_connection_ReturnsD [OF c] k t have
    "s4 = s\<lparr>trace := trace s @
                   [getLatestBlockhash k,
                    sendTransaction k
                      (sign (transaction\<lparr>recentBlockhash := Some blockhash,
                                          feePayer := Some (publicKey (wallet_keypair wallet))\<rparr>)
                            (wallet_keypair wallet))
                      [wallet_keypair wallet]]\<rparr>"
    by auto
  moreover from await_ReturnsD [OF d] have "s1 = s4" by simp
  moreover from k(2) t(1)
  have "reply_string env (length (trace s)) (getLatestBlockhash k) = Settled t (Inr blockhash)"
    by simp
  ultimately show ?thesis using k(1) by blast
qed

section \<open>Session store: names are unique\<close>

lemma Map_get_set_other: "k' \<noteq> k \<Longrightarrow> Map_get (Map_set m k v) k' = Map_get m k'"
proof (cases "Map_has m k")
  case True
  assume neq: "k' \<noteq> k"
  have "map_of (map (\<lambda>(a, b). if a = k then (a, v) else (a, b)) m) k' = map_of m k'"
    using neq by (induction m) auto
  with True show ?thesis by (simp add: Map_get_def Map_set_def)
next
  case False
  assume "k' \<noteq> k"
  with False show ?thesis
    by (simp add: Map_get_def Map_set_def map_add_def split: option.splits)
qed

lemma create_duplicate:
  "Map_has (wallets s) name \<Longrightarrow> handleCreateWallet env name s = (Throws (wallet_exists name), s)"
  by (simp add: handleCreateWallet_def Throw_def)

lemma import_duplicate:
  "Map_has (wallets s) name \<Longrightarrow>
   handleImportWallet env name privateKey s = (Throws (wallet_exists name), s)"
  by (simp add: handleImportWallet_def Throw_def)

lemma create_keeps_binding:
  "Map_get (wallets s) k = Some w \<Longrightarrow>
   Map_get (wallets (snd (handleCreateWallet env name s))) k = Some w"
proof (cases "Map_has (wallets s) name")
  case True
  assume "Map_get (wallets s) k = Some w"
  with True show ?thesis by (simp add: create_duplicate)
next
  case False
  assume bound: "Map_get (wallets s) k = Some w"
  with False have "k \<noteq> name" by (auto simp: Map_has_def Map_get_def)
  with False bound show ?thesis
    by (simp add: handleCreateWallet_def Let_def Return_def Map_get_set_other)
qed

lemma import_keeps_binding:
  "Map_get (wallets s) k = Some w \<Longrightarrow>
   Map_get (wallets (snd (handleImportWallet env name privateKey s))) k = Some w"
proof (cases "Map_has (wallets s) name")
  case True
  assume "Map_get (wallets s) k = Some w"
  with True show ?thesis by (simp add: import_duplicate)
next
  case False
  assume bound: "Map_get (wallets s) k = Some w"
  with False have "k \<noteq> name" by (auto simp: Map_has_def Map_get_def)
  with False bound show ?thesis
    by (cases "bs58_decode env privateKey";
        cases "Keypair_fromSecretKey env (projr (bs58_decode env privateKey))")
       (simp_all add: handleImportWallet_def prog_defs Map_get_set_other)
qed

lemma wallet_call_keeps_binding:
  "wallet_call r \<Longrightarrow> Map_get (wallets s) k = Some w \<Longrightarrow>
   Map_get (wallets (snd (callTool env r s))) k = Some w"
  by (cases r) (simp_all add: callTool_state create_keeps_binding import_keeps_binding)

lemma serve_keeps_binding:
  "list_all wallet_call rs \<Longrightarrow> Map_get (wallets s) k = Some w \<Longrightarrow>
   Map_get (wallets (serve env rs s)) k = Some w"
  by (induction rs arbitrary: s) (simp_all add: wallet_call_keeps_binding)

text \<open>
  Claim C1. When \<open>name\<close> is already bound in the wallet store, \<open>create_wallet\<close> and
  \<open>import_wallet\<close> with that name both throw the error "Wallet with name 'name' already
  exists" and return the state exactly as it was: no binding is changed and none is added.
  The binding also survives every later sequence of \<open>create_wallet\<close> and
  \<open>import_wallet\<close> requests: a lookup of \<open>name\<close> still gives the same key pair.
\<close>

theorem duplicate_name_rejected:
  "Map_get (wallets s) name = Some w \<Longrightarrow>
     handleCreateWallet env name s = (Throws (wallet_exists name), s) \<and>
     handleImportWallet env name privateKey s = (Throws (wallet_exists name), s) \<and>
     (list_all wallet_call rs \<longrightarrow> Map_get (wallets (serve env rs s)) name = Some w)"
proof -
  assume bound: "Map_get (wallets s) name = Some w"
  then have has: "Map_has (wallets s) name"
    by (simp add: Map_has_def Map_get_def)
  have "handleCreateWallet env name s = (Throws (wallet_exists name), s)"
    using has by (rule create_duplicate)
  moreover have "handleImportWallet env name privateKey s = (Throws (wallet_exists name), s)"
    using has by (rule import_duplicate)
  moreover have "list_all wallet_call rs \<longrightarrow> Map_get (wallets (serve env rs s)) name = Some w"
    using bound by (simp add: serve_keeps_binding)
  ultimately show ?thesis by simp
qed

theorem duplicate_name_rejected_witness:
  "Map_get (wallets (with_alice initial_state)) ''alice'' = Some alice \<and>
   handleCreateWallet mock_env ''alice'' (with_alice initial_state) =
     (Throws (wallet_exists ''alice''), with_alice initial_state) \<and>
   handleImportWallet mock_env ''alice'' ''2222'' (with_alice initial_state) =
     (Throws (wallet_exists ''alice''), with_alice initial_state) \<and>
   list_all wallet_call [create_wallet ''bob'', create_wallet ''alice'', import_wallet ''alice'' ''2222''] \<and>
   Map_get (wallets (serve mock_env
                       [create_wallet ''bob'', create_wallet ''alice'', import_wallet ''alice'' ''2222'']
                       (with_alice initial_state))) ''alice'' = Some alice"
proof -
  have bound: "Map_get (wallets (with_alice initial_state)) ''alice'' = Some alice"
    by (simp add: with_alice_def Map_get_def)
  show ?thesis
    using bound
      duplicate_name_rejected [OF bound, of mock_env "''2222''"
        "[create_wallet ''bob'', create_wallet ''alice'', import_wallet ''alice'' ''2222'']"]
    by simp
qed

section \<open>Completion: a handler hangs only on a reply that never settles\<close>

lemma finishes_Return [simp, intro!]: "finishes (Return x)"
  by (simp add: finishes_def Return_def)

lemma finishes_Throw [simp, intro!]: "finishes (Throw e)"
  by (simp add: finishes_def Throw_def)

lemma finishes_gets [simp, intro!]: "finishes (gets f)"
  by (simp add: finishes_def gets_def)

lemma finishes_modify [simp, intro!]: "finishes (modify f)"
  by (simp add: finishes_def modify_def)

lemma finishes_lift [simp, intro!]: "finishes (lift r)"
  by (cases r) simp_all

lemma finishes_the_connection [simp, intro!]: "finishes the_connection"
  by (simp add: finishes_def the_connection_def split: option.splits)

lemma finishes_andThen [intro!]:
  "finishes m \<Longrightarrow> (\<And>x. finishes (f x)) \<Longrightarrow> finishes (andThen m f)"
  unfolding finishes_def andThen_def
proof
  fix s
  assume m: "\<forall>s. fst (m s) \<noteq> Hangs" and f: "\<And>x. \<forall>s. fst (f x s) \<noteq> Hangs"
  obtain out s' where ms: "m s = (out, s')" by (cases "m s")
  with m have "out \<noteq> Hangs" by (metis fst_conv)
  with ms f show "fst (case m s of (Returns x, s') \<Rightarrow> f x s' | (Throws e, s') \<Rightarrow> (Throws e, s')
                       | (Hangs, s') \<Rightarrow> (Hangs, s')) \<noteq> Hangs"
    by (cases out) simp_all
qed

lemma finishes_tryCatch [intro!]:
  "finishes m \<Longrightarrow> (\<And>e. finishes (h e)) \<Longrightarrow> finishes (tryCatch m h)"
  unfolding finishes_def tryCatch_def
proof
  fix s
  assume m: "\<forall>s. fst (m s) \<noteq> Hangs" and h: "\<And>e. \<forall>s. fst (h e s) \<noteq> Hangs"
  obtain out s' where ms: "m s = (out, s')" by (cases "m s")
  with m have "out \<noteq> Hangs" by (metis fst_conv)
  with ms h show "fst (case m s of (Returns x, s') \<Rightarrow> (Returns x, s') | (Throws e, s') \<Rightarrow> h e s'
                       | (Hangs, s') \<Rightarrow> (Hangs, s')) \<noteq> Hangs"
    by (cases out) simp_all
qed

lemma finishes_await: "settled p \<Longrightarrow> finishes (await p)"
  by (cases p) (simp_all add: settled_def await_def finishes_def Return_def Throw_def split: sum.splits)

lemma settled_withTimeout [simp]: "settled (withTimeout p d)"
  by (cases p) (simp_all add: withTimeout_def setTimeout_reject_def settled_def Let_def)

lemma finishes_await_withTimeout [simp, intro!]: "finishes (await (withTimeout p d))"
  by (simp add: finishes_await)

text \<open>Issuing a request and awaiting its reply.\<close>

lemma finishes_request_await [intro!]:
  "(\<And>n c. settled (reply n c)) \<Longrightarrow> (\<And>x. finishes (g x)) \<Longrightarrow>
   finishes (andThen (request reply c) (\<lambda>p. andThen (await p) g))"
  by (simp add: finishes_def andThen_def request_def)
     (metis finishes_andThen finishes_await finishes_def andThen_def)

lemma andThen_assoc: "andThen (andThen m k) h = andThen m (\<lambda>x. andThen (k x) h)"
  by (rule ext) (simp add: andThen_def split: prod.splits outcome.splits)

lemma finishes_request [simp, intro!]: "finishes (request reply c)"
  by (simp add: finishes_def request_def)

lemma finishes_on_connection [simp, intro!]: "finishes (on_connection reply f)"
  unfolding on_connection_def by (rule finishes_andThen) simp_all

lemma finishes_on_connection_await:
  "(\<And>n c. settled (reply n c)) \<Longrightarrow> (\<And>x. finishes (g x)) \<Longrightarrow>
   finishes (andThen (on_connection reply f) (\<lambda>p. andThen (await p) g))"
  unfolding on_connection_def andThen_assoc
  by (rule finishes_andThen, simp, rule finishes_request_await)

lemma finishes_body:
  "body_settled p \<Longrightarrow> (\<And>x. finishes (g x)) \<Longrightarrow>
   finishes (andThen (await (withTimeout p d)) (\<lambda>response. andThen (await response) g))"
proof -
  assume b: "body_settled p" and g: "\<And>x. finishes (g x)"
  have "\<And>t body. withTimeout p d = Settled t (Inr body) \<Longrightarrow> settled body"
    using b
    by (cases p)
       (auto simp: withTimeout_def setTimeout_reject_def body_settled_def Let_def settled_def
             split: if_splits sum.splits promise.splits)
  then show ?thesis
    using g settled_withTimeout [of p d]
    by (cases "withTimeout p d")
       (auto simp: finishes_def andThen_def await_def settled_def Return_def Throw_def
             split: sum.splits promise.splits prod.splits outcome.splits)
qed

lemma finishes_fetch:
  "(\<And>n c. body_settled (reply n c)) \<Longrightarrow> (\<And>x. finishes (g x)) \<Longrightarrow>
   finishes (andThen (request reply c)
               (\<lambda>p. andThen (await (withTimeout p d)) (\<lambda>response. andThen (await response) g)))"
proof -
  assume r: "\<And>n c. body_settled (reply n c)" and g: "\<And>x. finishes (g x)"
  have "\<And>n. finishes (andThen (await (withTimeout (reply n c) d))
                           (\<lambda>response. andThen (await response) g))"
    using r g by (rule finishes_body)
  then show ?thesis
    by (simp add: finishes_def andThen_def request_def)
qed

lemma finishes_if:
  "finishes m \<Longrightarrow> finishes m' \<Longrightarrow> finishes (if b then m else m')"
  by simp

lemma finishes_case_option:
  "finishes m \<Longrightarrow> (\<And>x. finishes (f x)) \<Longrightarrow> finishes (case v of None \<Rightarrow> m | Some x \<Rightarrow> f x)"
  by (cases v) simp_all

lemma finishes_forEach: "(\<And>x. finishes (f x)) \<Longrightarrow> finishes (forEach f xs)"
  by (induction xs) (auto intro!: finishes_andThen)

lemma finishes_get_wallet [simp, intro!]: "finishes (get_wallet walletName)"
  unfolding get_wallet_def
  by (rule finishes_andThen, simp, rule finishes_case_option) simp_all

lemma andThen_Return_right: "andThen m Return = m"
  by (rule ext) (simp add: andThen_def Return_def split: prod.splits outcome.splits)

lemma finishes_on_connection_await_last:
  "(\<And>n c. settled (reply n c)) \<Longrightarrow> finishes (andThen (on_connection reply f) await)"
  using finishes_on_connection_await [of reply Return f]
  by (simp add: andThen_Return_right)

lemma finishes_initializeConnection [simp, intro!]: "finishes (initializeConnection env arg)"
  unfolding initializeConnection_def Let_def
  by (intro finishes_andThen finishes_modify finishes_lift)

lemma finishes_ensureConnection [simp, intro!]: "finishes (ensureConnection env)"
  unfolding ensureConnection_def
  by (intro finishes_andThen finishes_gets finishes_if finishes_initializeConnection
        finishes_modify finishes_Return)

lemmas finishes_rules =
  finishes_on_connection_await finishes_on_connection_await_last finishes_request_await
  finishes_fetch

lemmas finishes_general =
  finishes_andThen finishes_tryCatch finishes_if finishes_case_option finishes_forEach
  finishes_Return finishes_Throw finishes_gets finishes_modify finishes_lift
  finishes_the_connection finishes_get_wallet finishes_await_withTimeout finishes_request
  finishes_on_connection finishes_initializeConnection finishes_ensureConnection

lemma finishes_submit:
  "responsive env \<Longrightarrow> finishes (submit env transaction wallet)"
  unfolding submit_def Let_def
  by ((rule finishes_rules | rule finishes_general | simp add: responsive_def)+)

lemma finishes_provision:
  "responsive env \<Longrightarrow> finishes (provision env wallet a b c)"
  unfolding provision_def Let_def
  by ((rule finishes_rules finishes_submit | rule finishes_general | simp add: responsive_def)+)

lemma finishes_history_start:
  "responsive env \<Longrightarrow> finishes (history_start env sig)"
  unfolding history_start_def Let_def
  by ((rule finishes_rules | rule finishes_general | simp add: responsive_def)+)

lemma finishes_history_failed [simp]: "finishes (history_failed sig)"
  unfolding history_failed_def by (rule finishes_andThen) simp_all

lemma finishes_andThen_yields:
  "finishes m \<Longrightarrow> yields P m \<Longrightarrow> (\<And>x. P x \<Longrightarrow> finishes (f x)) \<Longrightarrow> finishes (andThen m f)"
  unfolding finishes_def andThen_def yields_def
proof
  fix s
  assume m: "\<forall>s. fst (m s) \<noteq> Hangs"
    and y: "\<forall>s. case fst (m s) of Returns x \<Rightarrow> P x | _ \<Rightarrow> True"
    and f: "\<And>x. P x \<Longrightarrow> \<forall>s. fst (f x s) \<noteq> Hangs"
  obtain out s' where ms: "m s = (out, s')" by (cases "m s")
  with m have nh: "out \<noteq> Hangs" by (metis fst_conv)
  from y ms have "case out of Returns x \<Rightarrow> P x | _ \<Rightarrow> True" by (metis fst_conv)
  with ms nh f show "fst (case m s of (Returns x, s') \<Rightarrow> f x s' | (Throws e, s') \<Rightarrow> (Throws e, s')
                       | (Hangs, s') \<Rightarrow> (Hangs, s')) \<noteq> Hangs"
    by (cases out) simp_all
qed

lemma yields_Return: "P x \<Longrightarrow> yields P (Return x)"
  by (simp add: yields_def Return_def)

lemma yields_andThen:
  "(\<And>x. yields P (f x)) \<Longrightarrow> yields P (andThen m f)"
  unfolding yields_def andThen_def
proof
  fix s
  assume f: "\<And>x. \<forall>s. case fst (f x s) of Returns x \<Rightarrow> P x | _ \<Rightarrow> True"
  obtain out s' where ms: "m s = (out, s')" by (cases "m s")
  with f show "case fst (case m s of (Returns x, s') \<Rightarrow> f x s' | (Throws e, s') \<Rightarrow> (Throws e, s')
                     | (Hangs, s') \<Rightarrow> (Hangs, s')) of Returns x \<Rightarrow> P x | _ \<Rightarrow> True"
    by (cases out) simp_all
qed

lemma yields_forEach:
  "(\<And>x. yields P (f x)) \<Longrightarrow> yields (list_all P) (forEach f xs)"
proof (induction xs)
  case Nil
  show ?case by (simp add: yields_Return)
next
  case (Cons x xs)
  have head: "yields P (f x)" by (rule Cons.prems)
  have tail: "yields (list_all P) (forEach f xs)" using Cons.prems by (rule Cons.IH)
  show ?case
    unfolding yields_def
  proof
    fix s
    obtain out s1 where fx: "f x s = (out, s1)" by (cases "f x s")
    show "case fst (forEach f (x # xs) s) of Returns ys \<Rightarrow> list_all P ys | _ \<Rightarrow> True"
    proof (cases out)
      case (Returns y)
      from head have "case fst (f x s) of Returns x \<Rightarrow> P x | _ \<Rightarrow> True"
        unfolding yields_def by (rule spec)
      with fx Returns have py: "P y" by simp
      obtain out2 s2 where rest: "forEach f xs s1 = (out2, s2)" by (cases "forEach f xs s1")
      show ?thesis
      proof (cases out2)
        case (Returns ys)
        from tail have "case fst (forEach f xs s1) of Returns x \<Rightarrow> list_all P x | _ \<Rightarrow> True"
          unfolding yields_def by (rule spec)
        with rest Returns have "list_all P ys" by simp
        with py fx rest \<open>out = Returns y\<close> Returns show ?thesis
          by (simp add: andThen_def Return_def)
      next
        case (Throws e)
        with fx rest \<open>out = Returns y\<close> show ?thesis by (simp add: andThen_def)
      next
        case Hangs
        with fx rest \<open>out = Returns y\<close> show ?thesis by (simp add: andThen_def)
      qed
    next
      case (Throws e)
      with fx show ?thesis by (simp add: andThen_def)
    next
      case Hangs
      with fx show ?thesis by (simp add: andThen_def)
    qed
  qed
qed

lemma finishes_forEach_list_all:
  "list_all (\<lambda>x. finishes (f x)) xs \<Longrightarrow> finishes (forEach f xs)"
  by (induction xs) (auto intro!: finishes_andThen)

lemma yields_history_start:
  "responsive env \<Longrightarrow> yields started_settled (history_start env sig)"
  by (simp add: yields_def history_start_def prog_defs started_settled_def responsive_def
      split: option.splits)

lemma finishes_history_finish:
  "started_settled st \<Longrightarrow> finishes (history_finish st)"
proof (cases st)
  case (Pair sig started)
  assume ok: "started_settled st"
  show ?thesis
  proof (cases started)
    case None
    with Pair show ?thesis by (simp add: history_finish_def)
  next
    case (Some p)
    with ok Pair have "settled p" by (simp add: started_settled_def)
    then have "finishes (await p)" by (rule finishes_await)
    with Pair Some show ?thesis
      by (auto simp: history_finish_def intro!: finishes_tryCatch finishes_andThen)
  qed
qed

lemma finishes_history_all:
  assumes "responsive env" and g: "\<And>x. finishes (g x)"
  shows "finishes (andThen (forEach (history_start env) signatures)
                     (\<lambda>started. andThen (forEach history_finish started) g))"
proof (rule finishes_andThen_yields [where P = "list_all started_settled"])
  show "finishes (forEach (history_start env) signatures)"
    using assms(1) by (intro finishes_forEach finishes_history_start)
  show "yields (list_all started_settled) (forEach (history_start env) signatures)"
    using assms(1) by (intro yields_forEach yields_history_start)
  fix started
  assume "list_all started_settled started"
  then have "list_all (\<lambda>x. finishes (history_finish x)) started"
    by (induction started) (simp_all add: finishes_history_finish)
  then have "finishes (forEach history_finish started)"
    by (rule finishes_forEach_list_all)
  then show "finishes (andThen (forEach history_finish started) g)"
    using g by (rule finishes_andThen)
qed

lemma finishes_handleCreateWallet:
  "responsive env \<Longrightarrow> finishes (handleCreateWallet env name)"
  unfolding handleCreateWallet_def Let_def
  by ((rule finishes_rules finishes_submit finishes_provision finishes_history_all
       | rule finishes_general | simp add: responsive_def)+)

lemma finishes_handleImportWallet:
  "responsive env \<Longrightarrow> finishes (handleImportWallet env name privateKey)"
  unfolding handleImportWallet_def Let_def
  by ((rule finishes_rules finishes_submit finishes_provision finishes_history_all
       | rule finishes_general | simp add: responsive_def)+)

lemma finishes_handleListWallets:
  "responsive env \<Longrightarrow> finishes (handleListWallets)"
  unfolding handleListWallets_def Let_def
  by ((rule finishes_rules finishes_submit finishes_provision finishes_history_all
       | rule finishes_general | simp add: responsive_def)+)

lemma finishes_handleGetBalance:
  "responsive env \<Longrightarrow> finishes (handleGetBalance env walletName)"
  unfolding handleGetBalance_def Let_def
  by ((rule finishes_rules finishes_submit finishes_provision finishes_history_all
       | rule finishes_general | simp add: responsive_def)+)

lemma finishes_handleGetTokenBalance:
  "responsive env \<Longrightarrow> finishes (handleGetTokenBalance env walletName tokenMint)"
  unfolding handleGetTokenBalance_def Let_def
  by ((rule finishes_rules finishes_submit finishes_provision finishes_history_all
       | rule finishes_general | simp add: responsive_def)+)

lemma finishes_handleTransferSol:
  "responsive env \<Longrightarrow> finishes (handleTransferSol env fromWallet toAddress amount)"
  unfolding handleTransferSol_def Let_def
  by ((rule finishes_rules finishes_submit finishes_provision finishes_history_all
       | rule finishes_general | simp add: responsive_def)+)

lemma finishes_handleTransferTokens:
  "responsive env \<Longrightarrow> finishes (handleTransferTokens env fromWallet toAddress tokenMint amount)"
  unfolding handleTransferTokens_def Let_def
  by ((rule finishes_rules finishes_submit finishes_provision finishes_history_all
       | rule finishes_general | simp add: responsive_def)+)

lemma finishes_handleAirdropSol:
  "responsive env \<Longrightarrow> finishes (handleAirdropSol env walletName amount)"
  unfolding handleAirdropSol_def Let_def
  by ((rule finishes_rules finishes_submit finishes_provision finishes_history_all
       | rule finishes_general | simp add: responsive_def)+)

lemma finishes_handleGetAccountInfo:
  "responsive env \<Longrightarrow> finishes (handleGetAccountInfo env address)"
  unfolding handleGetAccountInfo_def Let_def
  by ((rule finishes_rules finishes_submit finishes_provision finishes_history_all
       | rule finishes_general | simp add: responsive_def)+)

lemma finishes_handleGetTransaction:
  "responsive env \<Longrightarrow> finishes (handleGetTransaction env signature)"
  unfolding handleGetTransaction_def Let_def
  by ((rule finishes_rules finishes_submit finishes_provision finishes_history_all
       | rule finishes_general | simp add: responsive_def)+)

lemma finishes_handleGetRecentBlockhash:
  "responsive env \<Longrightarrow> finishes (handleGetRecentBlockhash env)"
  unfolding handleGetRecentBlockhash_def Let_def
  by ((rule finishes_rules finishes_submit finishes_provision finishes_history_all
       | rule finishes_general | simp add: responsive_def)+)

lemma finishes_handleSwitchNetwork:
  "responsive env \<Longrightarrow> finishes (handleSwitchNetwork env network)"
  unfolding handleSwitchNetwork_def Let_def
  by ((rule finishes_rules finishes_submit finishes_provision finishes_history_all
       | rule finishes_general | simp add: responsive_def)+)

lemma finishes_handleGetNetworkInfo:
  "responsive env \<Longrightarrow> finishes (handleGetNetworkInfo env)"
  unfolding handleGetNetworkInfo_def Let_def
  by ((rule finishes_rules finishes_submit finishes_provision finishes_history_all
       | rule finishes_general | simp add: responsive_def)+)

lemma finishes_handleCreateTokenAccount:
  "responsive env \<Longrightarrow> finishes (handleCreateTokenAccount env walletName tokenMint)"
  unfolding handleCreateTokenAccount_def Let_def
  by ((rule finishes_rules finishes_submit finishes_provision finishes_history_all
       | rule finishes_general | simp add: responsive_def)+)

lemma finishes_handleGetTokenAccounts:
  "responsive env \<Longrightarrow> finishes (handleGetTokenAccounts env walletName)"
  unfolding handleGetTokenAccounts_def Let_def
  by ((rule finishes_rules finishes_submit finishes_provision finishes_history_all
       | rule finishes_general | simp add: responsive_def)+)

lemma finishes_handleCreateSplToken:
  "responsive env \<Longrightarrow> finishes (handleCreateSplToken env walletName decimals freezeAuthority)"
  unfolding handleCreateSplToken_def Let_def
  by ((rule finishes_rules finishes_submit finishes_provision finishes_history_all
       | rule finishes_general | simp add: responsive_def)+)

lemma finishes_handleMintTokens:
  "responsive env \<Longrightarrow> finishes (handleMintTokens env walletName tokenMint destinationAddress amount)"
  unfolding handleMintTokens_def Let_def
  by ((rule finishes_rules finishes_submit finishes_provision finishes_history_all
       | rule finishes_general | simp add: responsive_def)+)

lemma finishes_handleBurnTokens:
  "responsive env \<Longrightarrow> finishes (handleBurnTokens env walletName tokenMint amount)"
  unfolding handleBurnTokens_def Let_def
  by ((rule finishes_rules finishes_submit finishes_provision finishes_history_all
       | rule finishes_general | simp add: responsive_def)+)

lemma finishes_handleFreezeAccount:
  "responsive env \<Longrightarrow> finishes (handleFreezeAccount env walletName tokenMint accountAddress)"
  unfolding handleFreezeAccount_def Let_def
  by ((rule finishes_rules finishes_submit finishes_provision finishes_history_all
       | rule finishes_general | simp add: responsive_def)+)

lemma finishes_handleThawAccount:
  "responsive env \<Longrightarrow> finishes (handleThawAccount env walletName tokenMint accountAddress)"
  unfolding handleThawAccount_def Let_def
  by ((rule finishes_rules finishes_submit finishes_provision finishes_history_all
       | rule finishes_general | simp add: responsive_def)+)

lemma finishes_handleSetTokenAuthority:
  "responsive env \<Longrightarrow> finishes (handleSetTokenAuthority env walletName tokenMint authorityType newAuthority)"
  unfolding handleSetTokenAuthority_def Let_def
  by ((rule finishes_rules finishes_submit finishes_provision finishes_history_all
       | rule finishes_general | simp add: responsive_def)+)

lemma finishes_handleGetTokenSupply:
  "responsive env \<Longrightarrow> finishes (handleGetTokenSupply env tokenMint)"
  unfolding handleGetTokenSupply_def Let_def
  by ((rule finishes_rules finishes_submit finishes_provision finishes_history_all
       | rule finishes_general | simp add: responsive_def)+)

lemma finishes_handleCloseTokenAccount:
  "responsive env \<Longrightarrow> finishes (handleCloseTokenAccount env walletName tokenMint destinationAddress)"
  unfolding handleCloseTokenAccount_def Let_def
  by ((rule finishes_rules finishes_submit finishes_provision finishes_history_all
       | rule finishes_general | simp add: responsive_def)+)

lemma finishes_handleApproveDelegate:
  "responsive env \<Longrightarrow> finishes (handleApproveDelegate env walletName tokenMint delegateAddress amount)"
  unfolding handleApproveDelegate_def Let_def
  by ((rule finishes_rules finishes_submit finishes_provision finishes_history_all
       | rule finishes_general | simp add: responsive_def)+)

lemma finishes_handleRevokeDelegate:
  "responsive env \<Longrightarrow> finishes (handleRevokeDelegate env walletName tokenMint)"
  unfolding handleRevokeDelegate_def Let_def
  by ((rule finishes_rules finishes_submit finishes_provision finishes_history_all
       | rule finishes_general | simp add: responsive_def)+)

lemma finishes_handleHealthCheck:
  "responsive env \<Longrightarrow> finishes (handleHealthCheck env)"
  unfolding handleHealthCheck_def Let_def
  by ((rule finishes_rules finishes_submit finishes_provision finishes_history_all
       | rule finishes_general | simp add: responsive_def)+)

lemma finishes_handleGetTransactionHistory:
  "responsive env \<Longrightarrow> finishes (handleGetTransactionHistory env walletName limit before_arg)"
  unfolding handleGetTransactionHistory_def Let_def
  by ((rule finishes_rules finishes_submit finishes_provision finishes_history_all
       | rule finishes_general | simp add: responsive_def)+)

lemma finishes_handleGetTokenInfo:
  "responsive env \<Longrightarrow> finishes (handleGetTokenInfo env tokenMint)"
  unfolding handleGetTokenInfo_def Let_def
  by ((rule finishes_rules finishes_submit finishes_provision finishes_history_all
       | rule finishes_general | simp add: responsive_def)+)

lemma finishes_handleGetAllTokenBalances:
  "responsive env \<Longrightarrow> finishes (handleGetAllTokenBalances env walletName includeZeroBalances)"
  unfolding handleGetAllTokenBalances_def Let_def
  by ((rule finishes_rules finishes_submit finishes_provision finishes_history_all
       | rule finishes_general | simp add: responsive_def)+)

lemma finishes_handler: "responsive env \<Longrightarrow> finishes (handler env r)"
  by (cases r)
     (simp_all add: finishes_handleCreateWallet finishes_handleImportWallet finishes_handleListWallets finishes_handleGetBalance finishes_handleGetTokenBalance finishes_handleTransferSol finishes_handleTransferTokens finishes_handleAirdropSol finishes_handleGetAccountInfo finishes_handleGetTransaction finishes_handleGetRecentBlockhash finishes_handleSwitchNetwork finishes_handleGetNetworkInfo finishes_handleCreateTokenAccount finishes_handleGetTokenAccounts finishes_handleCreateSplToken finishes_handleMintTokens finishes_handleBurnTokens finishes_handleFreezeAccount finishes_handleThawAccount finishes_handleSetTokenAuthority finishes_handleGetTokenSupply finishes_handleCloseTokenAccount finishes_handleApproveDelegate finishes_handleRevokeDelegate finishes_handleHealthCheck finishes_handleGetTransactionHistory finishes_handleGetTokenInfo finishes_handleGetAllTokenBalances)

section \<open>Dispatch front-end: every outcome becomes a response\<close>

lemma responsive_mock_env: "responsive mock_env"
  by (simp add: responsive_def mock_env_def settled_def body_settled_def)

text \<open>
  Claim C8. Whatever the request, registered or not, the front-end never throws. When the
  handler throws, the response has the error flag set and one text item, "Error: "
  followed by the message of the thrown error (its string conversion when it is not an
  \<open>Error\<close>); when the handler returns, the response has no error flag and one text item,
  the JSON encoding of the result. A request naming an unregistered operation gets the
  response "Error: Unknown tool: name". The front-end fails to respond only when the
  handler awaits a reply that never settles; on a ledger whose replies all settle, every
  request gets a response.
\<close>

theorem dispatch_envelope:
  "(case handler env r s of
      (Returns v, s') \<Rightarrow>
        callTool env r s =
          (Returns \<lparr>contents = [\<lparr>content_type = ''text'',
                                   content_text = JSON_stringify env v\<rparr>],
                    isError = None\<rparr>, s')
    | (Throws e, s') \<Rightarrow>
        callTool env r s =
          (Returns \<lparr>contents = [\<lparr>content_type = ''text'',
                                   content_text = ''Error: '' @ (if is_Error e then message e
                                                                 else String_of_error e)\<rparr>],
                    isError = Some True\<rparr>, s')
    | (Hangs, s') \<Rightarrow> callTool env r s = (Hangs, s')) \<and>
   (\<forall>e. fst (callTool env r s) \<noteq> Throws e) \<and>
   (responsive env \<longrightarrow> (\<exists>resp. fst (callTool env r s) = Returns resp)) \<and>
   callTool env (unregistered name) s =
     (Returns \<lparr>contents = [\<lparr>content_type = ''text'',
                              content_text = ''Error: Unknown tool: '' @ name\<rparr>],
               isError = Some True\<rparr>, s)"
proof -
  obtain out s' where h: "handler env r s = (out, s')"
    by (cases "handler env r s")
  have shape: "case handler env r s of
      (Returns v, s') \<Rightarrow>
        callTool env r s =
          (Returns \<lparr>contents = [\<lparr>content_type = ''text'',
                                   content_text = JSON_stringify env v\<rparr>],
                    isError = None\<rparr>, s')
    | (Throws e, s') \<Rightarrow>
        callTool env r s =
          (Returns \<lparr>contents = [\<lparr>content_type = ''text'',
                                   content_text = ''Error: '' @ (if is_Error e then message e
                                                                 else String_of_error e)\<rparr>],
                    isError = Some True\<rparr>, s')
    | (Hangs, s') \<Rightarrow> callTool env r s = (Hangs, s')"
    using h by (cases out) (simp_all add: callTool_Returns callTool_Throws callTool_Hangs)
  have never_throws: "\<forall>e. fst (callTool env r s) \<noteq> Throws e"
    using h by (cases out) (simp_all add: callTool_Returns callTool_Throws callTool_Hangs)
  have responds: "responsive env \<longrightarrow> (\<exists>resp. fst (callTool env r s) = Returns resp)"
  proof
    assume "responsive env"
    then have "finishes (handler env r)" by (rule finishes_handler)
    then have "fst (handler env r s) \<noteq> Hangs" by (simp add: finishes_def)
    with h have "out \<noteq> Hangs" by simp
    with h show "\<exists>resp. fst (callTool env r s) = Returns resp"
      by (cases out) (simp_all add: callTool_Returns callTool_Throws)
  qed
  have "handler env (unregistered name) s = (Throws (Error (''Unknown tool: '' @ name)), s)"
    by (simp add: Throw_def)
  then have unknown: "callTool env (unregistered name) s =
     (Returns \<lparr>contents = [\<lparr>content_type = ''text'',
                              content_text = ''Error: Unknown tool: '' @ name\<rparr>],
               isError = Some True\<rparr>, s)"
    by (simp add: callTool_Throws)
  from shape never_throws responds unknown show ?thesis by blast
qed

theorem dispatch_envelope_witness:
  "responsive mock_env \<and>
   fst (callTool mock_env (get_balance ''nobody'') initial_state) =
     Returns \<lparr>contents = [\<lparr>content_type = ''text'',
                             content_text = ''Error: Wallet '' @ quoted ''nobody'' @ '' not found''\<rparr>],
              isError = Some True\<rparr> \<and>
   fst (callTool mock_env list_wallets initial_state) =
     Returns \<lparr>contents = [\<lparr>content_type = ''text'',
                             content_text = JSON_stringify mock_env
                               (JObj [(''wallets'', JArr []), (''count'', JNum (Fin 0 0))])\<rparr>],
              isError = None\<rparr> \<and>
   fst (callTool mock_env (unregistered ''stake_sol'') initial_state) =
     Returns \<lparr>contents = [\<lparr>content_type = ''text'',
                             content_text = ''Error: Unknown tool: stake_sol''\<rparr>],
              isError = Some True\<rparr>"
proof -
  have a: "handler mock_env (get_balance ''nobody'') initial_state =
      (Throws (wallet_not_found ''nobody''), initial_state)"
    by (simp add: handleGetBalance_def get_wallet_def prog_defs Map_get_def initial_state_def)
  have b: "handler mock_env list_wallets initial_state =
      (Returns (JObj [(''wallets'', JArr []), (''count'', JNum (Fin 0 0))]), initial_state)"
    by (simp add: handleListWallets_def prog_defs Map_values_def initial_state_def js_nat_def)
  from a b responsive_mock_env
    dispatch_envelope [of mock_env "get_balance ''nobody''" initial_state "''stake_sol''"]
    dispatch_envelope [of mock_env list_wallets initial_state "''stake_sol''"]
  show ?thesis by (simp add: wallet_not_found_def)
qed

section \<open>Airdrops are refused on mainnet\<close>

lemma airdrop_mainnet:
  "currentNetwork s = ''mainnet'' \<Longrightarrow>
   handleAirdropSol env walletName amount s =
     (Throws (Error ''Airdrop is not available on mainnet''), s)"
  by (simp add: handleAirdropSol_def Let_def Throw_def)

lemma on_mainnet_eq:
  "on_mainnet =
     initial_state\<lparr>currentNetwork := ''mainnet'',
       connection := Some \<lparr>rpcEndpoint = ''https://api.mainnet-beta.solana.com'',
                            commitment = ''confirmed''\<rparr>\<rparr>"
  by code_simp

text \<open>
  Claim C3. While the current network is \<open>mainnet\<close>, \<open>airdrop_sol\<close> throws "Airdrop is not
  available on mainnet" for every wallet name and every amount, whether or not the wallet
  exists, and leaves the state as it was: in particular no request is added to those
  made so far, so none reaches the ledger client.
\<close>

theorem airdrop_denied_on_mainnet:
  "currentNetwork s = ''mainnet'' \<Longrightarrow>
     handleAirdropSol env walletName amount s =
       (Throws (Error ''Airdrop is not available on mainnet''), s) \<and>
     callTool env (airdrop_sol walletName amount) s =
       (Returns \<lparr>contents = [\<lparr>content_type = ''text'',
                                content_text = ''Error: Airdrop is not available on mainnet''\<rparr>],
                 isError = Some True\<rparr>, s) \<and>
     trace (snd (callTool env (airdrop_sol walletName amount) s)) = trace s"
proof -
  assume "currentNetwork s = ''mainnet''"
  then have h: "handleAirdropSol env walletName amount s =
      (Throws (Error ''Airdrop is not available on mainnet''), s)"
    by (rule airdrop_mainnet)
  then have "handler env (airdrop_sol walletName amount) s =
      (Throws (Error ''Airdrop is not available on mainnet''), s)"
    by simp
  then have "callTool env (airdrop_sol walletName amount) s =
       (Returns \<lparr>contents = [\<lparr>content_type = ''text'',
                                content_text = ''Error: Airdrop is not available on mainnet''\<rparr>],
                 isError = Some True\<rparr>, s)"
    by (simp add: callTool_Throws)
  with h show ?thesis by simp
qed

theorem airdrop_denied_on_mainnet_witness:
  "currentNetwork on_mainnet = ''mainnet'' \<and>
   Map_get (wallets on_mainnet) ''nobody'' = None \<and>
   handleAirdropSol mock_env ''nobody'' (Some (Fin 5 0)) on_mainnet =
       (Throws (Error ''Airdrop is not available on mainnet''), on_mainnet) \<and>
   trace (snd (callTool mock_env (airdrop_sol ''nobody'' (Some (Fin 5 0))) on_mainnet)) = []"
proof -
  have net: "currentNetwork on_mainnet = ''mainnet''"
    by (simp add: on_mainnet_eq)
  have "trace on_mainnet = []" "Map_get (wallets on_mainnet) ''nobody'' = None"
    by (simp_all add: on_mainnet_eq initial_state_def Map_get_def)
  with net airdrop_denied_on_mainnet [OF net, of mock_env "''nobody''" "Some (Fin 5 0)"]
  show ?thesis by simp
qed

section \<open>Network selection\<close>

lemma switch_sets_network:
  "currentNetwork (snd (handleSwitchNetwork env network s)) = network"
  by (cases "new_Connection (lookup_or (property (NETWORKS env) network)
                               (property (NETWORKS env) ''devnet'')) ''confirmed''")
     (simp_all add: handleSwitchNetwork_def initializeConnection_def prog_defs Let_def)

lemma switch_keeps_flag:
  "connectionInitialized (snd (handleSwitchNetwork env network s)) = connectionInitialized s"
  by (cases "new_Connection (lookup_or (property (NETWORKS env) network)
                               (property (NETWORKS env) ''devnet'')) ''confirmed''")
     (simp_all add: handleSwitchNetwork_def initializeConnection_def prog_defs Let_def)

text \<open>Once some handler has run \<open>ensureConnection\<close>, a switch is kept by the later ones.\<close>

lemma later_switch_is_kept:
  "connectionInitialized s \<Longrightarrow>
   ensureConnection env (snd (handleSwitchNetwork env network s)) =
     (Returns (), snd (handleSwitchNetwork env network s))"
  by (simp add: ensureConnection_initialized switch_keeps_flag)

text \<open>Before that, the next \<open>ensureConnection\<close> puts the default network back.\<close>

lemma first_switch_is_reset:
  "\<not> connectionInitialized s \<Longrightarrow>
   currentNetwork (snd (ensureConnection env (snd (handleSwitchNetwork env network s)))) =
     ''devnet''"
proof -
  assume "\<not> connectionInitialized s"
  then have f: "\<not> connectionInitialized (snd (handleSwitchNetwork env network s))"
    by (simp add: switch_keeps_flag)
  show ?thesis
  proof (cases "new_Connection (property (NETWORKS env) ''devnet'') ''confirmed''")
    case (Inl e)
    from ensureConnection_refused [OF f Inl] show ?thesis by simp
  next
    case (Inr c)
    from ensureConnection_fresh [OF f Inr] show ?thesis by simp
  qed
qed

text \<open>
  Claim C2, at the input where the code departs from it: in a fresh process,
  \<open>switch_network\<close> to \<open>mainnet\<close> is the first request. The switch itself sets the current
  network to \<open>mainnet\<close>, but the next \<open>get_recent_blockhash\<close> reports \<open>devnet\<close> and leaves
  the connection on devnet's endpoint, and so does \<open>get_network_info\<close>.
\<close>

theorem first_switch_is_forgotten:
  "currentNetwork (snd (handler mock_env (switch_network ''mainnet'') initial_state)) = ''mainnet'' \<and>
   fst (handler mock_env get_recent_blockhash
          (snd (handler mock_env (switch_network ''mainnet'') initial_state))) =
     Returns (JObj [(''blockhash'', JStr ''EkSnNWid2cvwEVnVx9aBqawnmiCNiDgp3gUdkDPTKN1N''),
                    (''network'', JStr ''devnet'')]) \<and>
   connection (snd (handler mock_env get_recent_blockhash
          (snd (handler mock_env (switch_network ''mainnet'') initial_state)))) =
     Some \<lparr>rpcEndpoint = ''https://api.devnet.solana.com'', commitment = ''confirmed''\<rparr> \<and>
   fst (handler mock_env get_network_info
          (snd (handler mock_env (switch_network ''mainnet'') initial_state))) =
     Returns (JObj [(''network'', JStr ''devnet''),
                    (''rpcUrl'', JStr ''https://api.devnet.solana.com''),
                    (''version'', JStr ''1.18.22''),
                    (''epoch'', JNum (Fin 700 0)),
                    (''slotIndex'', JNum (Fin 1000 0)),
                    (''slotsInEpoch'', JNum (Fin 432000 0))])"
  by code_simp

lemma NETWORKS_resolution:
  "property (NETWORKS env) ''mainnet'' =
     Own (env_or (process_env env ''SOLANA_MAINNET_RPC'') ''https://api.mainnet-beta.solana.com'')"
  "property (NETWORKS env) ''devnet'' =
     Own (env_or (process_env env ''SOLANA_DEVNET_RPC'') ''https://api.devnet.solana.com'')"
  "property (NETWORKS env) ''testnet'' =
     Own (env_or (process_env env ''SOLANA_TESTNET_RPC'') ''https://api.testnet.solana.com'')"
  "property (NETWORKS env) ''localhost'' =
     Own (env_or (process_env env ''SOLANA_LOCALHOST_RPC'') ''http://127.0.0.1:8899'')"
  "property (NETWORKS env) ''custom'' = Own (env_or (process_env env ''SOLANA_CUSTOM_RPC'') [])"
  by (simp_all add: property_def NETWORKS_def)

lemma env_or_resolution:
  "env_or None d = d" "env_or (Some []) d = d" "u \<noteq> [] \<Longrightarrow> env_or (Some u) d = u"
  by (simp_all add: env_or_def)

text \<open>The hardcoded endpoints are accepted by the constructor of \<open>Connection\<close>.\<close>

lemma default_endpoints_accepted:
  "new_Connection (Own ''https://api.mainnet-beta.solana.com'') c =
     Inr \<lparr>rpcEndpoint = ''https://api.mainnet-beta.solana.com'', commitment = c\<rparr>"
  "new_Connection (Own ''https://api.devnet.solana.com'') c =
     Inr \<lparr>rpcEndpoint = ''https://api.devnet.solana.com'', commitment = c\<rparr>"
  "new_Connection (Own ''https://api.testnet.solana.com'') c =
     Inr \<lparr>rpcEndpoint = ''https://api.testnet.solana.com'', commitment = c\<rparr>"
  "new_Connection (Own ''http://127.0.0.1:8899'') c =
     Inr \<lparr>rpcEndpoint = ''http://127.0.0.1:8899'', commitment = c\<rparr>"
  by (simp_all add: new_Connection_def assertEndpointUrl_def makeWebsocketUrl_def URL_RE_def
        starts_with_def)

text \<open>
  An identifier that is neither recognized nor the name of a member of
  \<open>Object.prototype\<close> gets the default network's endpoint, when the constructor accepts
  that endpoint.
\<close>

lemma unknown_network_falls_back:
  "map_of (NETWORKS env) network = None \<Longrightarrow> network \<notin> set Object_prototype \<Longrightarrow>
   new_Connection (property (NETWORKS env) ''devnet'') ''confirmed'' = Inr c \<Longrightarrow>
   handleSwitchNetwork env network s =
     (Returns (JObj [(''success'', JBool True), (''network'', JStr network),
                     (''rpcUrl'', JUndefined)]),
      s\<lparr>currentNetwork := network, connection := Some c\<rparr>)"
  by (simp add: handleSwitchNetwork_def initializeConnection_def prog_defs Let_def
        property_def json_of_lookup_def)

text \<open>The constructor refuses every member inherited from \<open>Object.prototype\<close>.\<close>

lemma inherited_member_refused:
  "new_Connection (Inherited k) c =
     Inl (TypeError (''Endpoint URL must start with '' @ backticked ''http:'' @ '' or ''
                     @ backticked ''https:'' @ ''.''))"
  by (simp add: new_Connection_def assertEndpointUrl_def)

lemma switch_to_inherited_name:
  "network \<in> set Object_prototype \<Longrightarrow>
   handleSwitchNetwork env network s =
     (Throws (TypeError (''Endpoint URL must start with '' @ backticked ''http:'' @ '' or ''
                         @ backticked ''https:'' @ ''.'')),
      s\<lparr>currentNetwork := network\<rparr>)"
proof -
  assume n: "network \<in> set Object_prototype"
  then have "map_of (NETWORKS env) network = None"
    by (auto simp: NETWORKS_def Object_prototype_def)
  with n have "property (NETWORKS env) network = Inherited network"
    by (simp add: property_def)
  then have "initializeConnection env (Some network) s =
      (Throws (TypeError (''Endpoint URL must start with '' @ backticked ''http:'' @ '' or ''
                         @ backticked ''https:'' @ ''.'')), s\<lparr>currentNetwork := network\<rparr>)"
    by (intro initializeConnection_refused) (simp add: inherited_member_refused)
  then show ?thesis
    by (simp add: handleSwitchNetwork_def andThen_def)
qed

text \<open>
  Claim C9, at the input where the code departs from it: the identifier \<open>constructor\<close>
  is not recognized, yet \<open>switch_network\<close> does not fall back to devnet. The lookup in
  \<open>NETWORKS\<close> finds the member inherited from \<open>Object.prototype\<close>, which is truthy, so the
  fallback is not taken; the constructor of \<open>Connection\<close> refuses that value, and the
  call fails with its error. The current network has been renamed by then, and the
  connection is the one that was there before: on any state, whatever the environment.
  A process that had switched to mainnet stays connected to mainnet's endpoint under the
  name \<open>constructor\<close>.
\<close>

theorem inherited_name_is_not_devnet:
  "handleSwitchNetwork env ''constructor'' s =
     (Throws (TypeError (''Endpoint URL must start with '' @ backticked ''http:'' @ '' or ''
                         @ backticked ''https:'' @ ''.'')),
      s\<lparr>currentNetwork := ''constructor''\<rparr>) \<and>
   callTool env (switch_network ''constructor'') s =
     (Returns \<lparr>contents =
                 [\<lparr>content_type = ''text'',
                   content_text = ''Error: Endpoint URL must start with '' @ backticked ''http:''
                                  @ '' or '' @ backticked ''https:'' @ ''.''\<rparr>],
               isError = Some True\<rparr>,
      s\<lparr>currentNetwork := ''constructor''\<rparr>) \<and>
   connection (snd (callTool env (switch_network ''constructor'') s)) = connection s \<and>
   connection (snd (callTool mock_env (switch_network ''constructor'') on_mainnet)) =
     Some \<lparr>rpcEndpoint = ''https://api.mainnet-beta.solana.com'', commitment = ''confirmed''\<rparr> \<and>
   property (NETWORKS mock_env) ''devnet'' = Own ''https://api.devnet.solana.com''"
proof -
  have h: "handleSwitchNetwork env ''constructor'' s =
     (Throws (TypeError (''Endpoint URL must start with '' @ backticked ''http:'' @ '' or ''
                         @ backticked ''https:'' @ ''.'')),
      s\<lparr>currentNetwork := ''constructor''\<rparr>)" for env s
    by (rule switch_to_inherited_name) (simp add: Object_prototype_def)
  then have c: "callTool env (switch_network ''constructor'') s =
     (Returns \<lparr>contents =
                 [\<lparr>content_type = ''text'',
                   content_text = ''Error: Endpoint URL must start with '' @ backticked ''http:''
                                  @ '' or '' @ backticked ''https:'' @ ''.''\<rparr>],
               isError = Some True\<rparr>,
      s\<lparr>currentNetwork := ''constructor''\<rparr>)" for env s
    by (simp add: callTool_Throws)
  have d: "property (NETWORKS mock_env) ''devnet'' = Own ''https://api.devnet.solana.com''"
    by code_simp
  from h c d show ?thesis by (simp add: on_mainnet_eq)
qed

section \<open>Malformed addresses\<close>

text \<open>A handler that parses the address outside any \<open>try\<close> surfaces the parser's error.\<close>

lemma transfer_sol_surfaces_parse_error:
  "Map_get (wallets s) fromWallet = Some w \<Longrightarrow> PublicKey_new env toAddress = Inl e \<Longrightarrow>
   ensureConnection env s = (Returns (), s1) \<Longrightarrow>
   handleTransferSol env fromWallet toAddress amount s = (Throws e, s1)"
  by (simp add: handleTransferSol_def get_wallet_def andThen_def gets_def Return_def Throw_def)

lemma token_balance_swallows_parse_error:
  "Map_get (wallets s) walletName = Some w \<Longrightarrow> PublicKey_new env tokenMint = Inl e \<Longrightarrow>
   ensureConnection env s = (Returns (), s1) \<Longrightarrow>
   handleGetTokenBalance env walletName tokenMint s =
     (Returns (JObj [(''wallet'', JStr walletName), (''tokenMint'', JStr tokenMint),
                     (''balance'', JStr ''0''),
                     (''error'', JStr ''Token account not found or error retrieving balance'')]),
      s1)"
  by (simp add: handleGetTokenBalance_def get_wallet_def andThen_def tryCatch_def gets_def
        Return_def Throw_def)

text \<open>
  Claim C7, at the input where the code departs from it: \<open>get_token_balance\<close> for the
  existing wallet \<open>alice\<close> and the mint string \<open>not-a-key\<close>, which the address parser
  rejects. The handler parses the mint inside its \<open>try\<close> block, so the rejection is
  caught and the handler returns a result with balance "0", without any request to the
  ledger.
\<close>

theorem malformed_mint_gives_zero_balance:
  "PublicKey_new mock_env ''not-a-key'' = Inl (Error ''Non-base58 character'') \<and>
   fst (handleGetTokenBalance mock_env ''alice'' ''not-a-key'' (with_alice initial_state)) =
     Returns (JObj [(''wallet'', JStr ''alice''), (''tokenMint'', JStr ''not-a-key''),
                    (''balance'', JStr ''0''),
                    (''error'', JStr ''Token account not found or error retrieving balance'')]) \<and>
   trace (snd (handleGetTokenBalance mock_env ''alice'' ''not-a-key'' (with_alice initial_state))) = []"
  by code_simp

section \<open>What the handlers send\<close>

lemma sent_append: "sent (xs @ ys) = sent xs @ sent ys"
  by (induction xs rule: sent.induct) simp_all

lemma Math_floor_Fin: "Math_floor (Fin m e) = Fin \<lfloor>dval m e\<rfloor> 0"
proof (cases "0 \<le> e")
  case True
  have "dval m e = of_int (m * 2 ^ nat e)" using True by (simp add: dval_def)
  then have "\<lfloor>dval m e\<rfloor> = m * 2 ^ nat e" by (simp only: floor_of_int)
  with True show ?thesis by simp
next
  case False
  have "dval m e = of_int m / of_int (2 ^ nat (- e))" using False by (simp add: dval_def)
  then have "\<lfloor>dval m e\<rfloor> = m div 2 ^ nat (- e)"
    by (simp only: floor_divide_of_int_eq)
  with False show ?thesis by simp
qed

lemma BigInt_floor: "BigInt env (Math_floor (Fin m e)) = Inr \<lfloor>dval m e\<rfloor>"
  by (simp only: Math_floor_Fin) (simp add: BigInt_def)

lemma BigInt_floor_Inr:
  "BigInt env (Math_floor x) = Inr n \<Longrightarrow> \<exists>m e. x = Fin m e \<and> n = \<lfloor>dval m e\<rfloor>"
  by (cases x) (simp_all only: BigInt_floor, simp_all add: BigInt_def)

lemma SystemProgram_transfer_Inr:
  "SystemProgram_transfer env a b x = Inr i \<Longrightarrow>
   \<exists>n. BigInt env x = Inr n \<and> 0 \<le> n \<and> n < 2 ^ 64 \<and> i = SystemTransfer a b n"
  by (auto simp: SystemProgram_transfer_def encode_u64_def split: sum.splits if_splits)

lemma hex_length_u64: "0 \<le> n \<Longrightarrow> n < 2 ^ 64 \<Longrightarrow> hex_length n \<le> 16"
proof -
  assume "0 \<le> n" "n < 2 ^ 64"
  then have "bitlen n \<le> 64" using bitlen_le_iff_power [of n 64] by simp
  then show ?thesis by (simp add: hex_length_def)
qed

lemma toBufferLE_8_u64: "0 \<le> n \<Longrightarrow> n < 2 ^ 64 \<Longrightarrow> toBufferLE_8 n = Inr n"
  using hex_length_u64 [of n] by (simp add: toBufferLE_8_def)

lemma createTransferInstruction_Inr:
  "createTransferInstruction a b c n = Inr i \<Longrightarrow>
   0 \<le> n \<and> i = TokenTransfer a b c (n div 16 ^ (hex_length n - 16))"
  by (auto simp: createTransferInstruction_def toBufferLE_8_def split: sum.splits if_splits)

lemma transfer_sol_Returns:
  assumes "handleTransferSol env fromWallet toAddress amount s = (Returns v, s')"
  shows "\<exists>w tk c t blockhash n.
           Map_get (wallets s) fromWallet = Some w \<and>
           PublicKey_new env toAddress = Inr tk \<and>
           BigInt env (Math_floor (js_mul amount LAMPORTS_PER_SOL)) = Inr n \<and>
           0 \<le> n \<and> n < 2 ^ 64 \<and>
           connection s' = Some c \<and>
           reply_string env (length (trace s)) (getLatestBlockhash c) = Settled t (Inr blockhash) \<and>
           trace s' = trace s @
             [getLatestBlockhash c,
              sendTransaction c
                \<lparr>instructions = [SystemTransfer (publicKey (wallet_keypair w)) tk n],
                 recentBlockhash = Some blockhash,
                 feePayer = Some (publicKey (wallet_keypair w)),
                 signers = [wallet_keypair w]\<rparr>
                [wallet_keypair w]]"
  using assms unfolding handleTransferSol_def Let_def
  by (auto elim!: andThen_ReturnsE
           dest!: get_wallet_ReturnsD lift_ReturnsD gets_ReturnsD Return_ReturnsD
                  submit_ReturnsD ensureConnection_Returns SystemProgram_transfer_Inr
           simp: add_def sign_def new_Transaction_def)

text \<open>The lookup of the destination's token account, and what the handler does on its failure.\<close>

lemma lookup_ReturnsD:
  assumes "tryCatch
             (andThen (on_connection reply f) (\<lambda>p. andThen (await p) (\<lambda>_. Return a)))
             (\<lambda>_. Return b) s = (Returns x, s1)"
  shows "(connection s = None \<and> x = b \<and> s1 = s) \<or>
         (\<exists>c t e. connection s = Some c \<and> reply (length (trace s)) (f c) = Settled t (Inl e) \<and>
                  x = b \<and> s1 = s\<lparr>trace := trace s @ [f c]\<rparr>) \<or>
         (\<exists>c t y. connection s = Some c \<and> reply (length (trace s)) (f c) = Settled t (Inr y) \<and>
                  x = a \<and> s1 = s\<lparr>trace := trace s @ [f c]\<rparr>)"
proof (cases "connection s")
  case None
  with assms show ?thesis
    by (simp add: tryCatch_def andThen_def on_connection_def the_connection_def Return_def)
next
  case (Some c)
  show ?thesis
  proof (cases "reply (length (trace s)) (f c)")
    case Pending
    with Some assms show ?thesis
      by (simp add: tryCatch_def andThen_def on_connection_def the_connection_def request_def
            await_def Return_def)
  next
    case (Settled t r)
    with Some assms show ?thesis
      by (cases r)
         (auto simp: tryCatch_def andThen_def on_connection_def the_connection_def request_def
            await_def Return_def Throw_def)
  qed
qed

lemma transfer_tokens_Returns:
  assumes "handleTransferTokens env fromWallet toAddress tokenMint amount s = (Returns v, s')"
  shows "\<exists>w mk tk fa ta c t r raw t' blockhash.
           Map_get (wallets s) fromWallet = Some w \<and>
           PublicKey_new env tokenMint = Inr mk \<and>
           PublicKey_new env toAddress = Inr tk \<and>
           getAssociatedTokenAddress env mk (publicKey (wallet_keypair w)) = Inr fa \<and>
           getAssociatedTokenAddress env mk tk = Inr ta \<and>
           connection s' = Some c \<and>
           reply_Account env (length (trace s)) (getAccount c ta) = Settled t r \<and>
           reply_string env (Suc (length (trace s))) (getLatestBlockhash c) =
             Settled t' (Inr blockhash) \<and>
           BigInt env (Math_floor amount) = Inr raw \<and> 0 \<le> raw \<and>
           trace s' = trace s @
             [getAccount c ta, getLatestBlockhash c,
              sendTransaction c
                \<lparr>instructions =
                   (case r of
                      Inr account \<Rightarrow> []
                    | Inl e \<Rightarrow> [createAssociatedTokenAccountInstruction
                                  (publicKey (wallet_keypair w)) ta tk mk]) @
                   [TokenTransfer fa ta (publicKey (wallet_keypair w))
                      (raw div 16 ^ (hex_length raw - 16))],
                 recentBlockhash = Some blockhash,
                 feePayer = Some (publicKey (wallet_keypair w)),
                 signers = [wallet_keypair w]\<rparr>
                [wallet_keypair w]]"
  using assms unfolding handleTransferTokens_def Let_def
  by (auto elim!: andThen_ReturnsE
           dest!: get_wallet_ReturnsD lift_ReturnsD gets_ReturnsD Return_ReturnsD
                  submit_ReturnsD ensureConnection_Returns createTransferInstruction_Inr
                  lookup_ReturnsD
           simp: add_def sign_def new_Transaction_def)

lemma scaled_amount_Fin:
  "js_mul amount (Math_pow env (Fin 10 0) d) = Fin m e \<Longrightarrow>
   scaled_amount env amount d = Inr \<lfloor>dval m e\<rfloor>"
  by (simp only: scaled_amount_def BigInt_floor)

lemma scaled_amount_Inr:
  "scaled_amount env amount d = Inr raw \<Longrightarrow>
   \<exists>m e. js_mul amount (Math_pow env (Fin 10 0) d) = Fin m e \<and> raw = \<lfloor>dval m e\<rfloor>"
  unfolding scaled_amount_def by (rule BigInt_floor_Inr)

lemma floor_bounds: "of_int \<lfloor>dval m e\<rfloor> \<le> dval m e \<and> dval m e < of_int \<lfloor>dval m e\<rfloor> + 1"
  by linarith

lemma burn_Returns:
  assumes "handleBurnTokens env walletName tokenMint amount s = (Returns v, s')"
  shows "\<exists>w mk c t mintInfo fa m e.
           Map_get (wallets s) walletName = Some w \<and>
           PublicKey_new env tokenMint = Inr mk \<and>
           getAssociatedTokenAddress env mk (publicKey (wallet_keypair w)) = Inr fa \<and>
           connection s' = Some c \<and>
           reply_Mint env (length (trace s)) (getMint c mk) = Settled t (Inr mintInfo) \<and>
           js_mul amount (Math_pow env (Fin 10 0) (mint_decimals mintInfo)) = Fin m e \<and>
           trace s' = trace s @
             [getMint c mk, burn c (wallet_keypair w) fa mk (wallet_keypair w) \<lfloor>dval m e\<rfloor>]"
  using assms unfolding handleBurnTokens_def Let_def
  by (auto elim!: andThen_ReturnsE
           dest!: get_wallet_ReturnsD lift_ReturnsD gets_ReturnsD Return_ReturnsD
                  asked_ReturnsD on_connection_ReturnsD await_ReturnsD
                  ensureConnection_Returns scaled_amount_Inr)

lemma approve_Returns:
  assumes "handleApproveDelegate env walletName tokenMint delegateAddress amount s = (Returns v, s')"
  shows "\<exists>w mk dk c t mintInfo fa m e.
           Map_get (wallets s) walletName = Some w \<and>
           PublicKey_new env tokenMint = Inr mk \<and>
           PublicKey_new env delegateAddress = Inr dk \<and>
           getAssociatedTokenAddress env mk (publicKey (wallet_keypair w)) = Inr fa \<and>
           connection s' = Some c \<and>
           reply_Mint env (length (trace s)) (getMint c mk) = Settled t (Inr mintInfo) \<and>
           js_mul amount (Math_pow env (Fin 10 0) (mint_decimals mintInfo)) = Fin m e \<and>
           trace s' = trace s @
             [getMint c mk, approve c (wallet_keypair w) fa dk (wallet_keypair w) \<lfloor>dval m e\<rfloor>]"
  using assms unfolding handleApproveDelegate_def Let_def
  by (auto elim!: andThen_ReturnsE
           dest!: get_wallet_ReturnsD lift_ReturnsD gets_ReturnsD Return_ReturnsD
                  asked_ReturnsD on_connection_ReturnsD await_ReturnsD
                  ensureConnection_Returns scaled_amount_Inr)

text \<open>Provisioning the destination's token account adds requests and nothing else.\<close>

lemma provision_Returns:
  assumes "provision env w a b k s = (Returns u, s1)"
  shows "\<exists>reqs. s1 = s\<lparr>trace := trace s @ reqs\<rparr> \<and>
                list_all (\<lambda>call. case call of mintTo c p m d au n \<Rightarrow> False | _ \<Rightarrow> True) reqs"
proof (cases "connection s")
  case None
  with assms show ?thesis
    by (simp add: provision_def submit_def tryCatch_def andThen_def on_connection_def
          the_connection_def Return_def)
next
  case (Some c)
  show ?thesis
  proof (cases "reply_Account env (length (trace s)) (getAccount c a)")
    case Pending
    with Some assms show ?thesis
      by (simp add: provision_def tryCatch_def andThen_def on_connection_def the_connection_def
            request_def await_def Return_def)
  next
    case (Settled t r)
    show ?thesis
    proof (cases r)
      case (Inr account)
      with Some Settled assms have "s1 = s\<lparr>trace := trace s @ [getAccount c a]\<rparr>"
        by (simp add: provision_def tryCatch_def andThen_def on_connection_def the_connection_def
              request_def await_def Return_def)
      then show ?thesis by (intro exI [of _ "[getAccount c a]"]) simp
    next
      case (Inl e)
      with Some Settled assms obtain sg where
        "submit env (add new_Transaction
              (createAssociatedTokenAccountInstruction (publicKey (wallet_keypair w)) a b k)) w
           (s\<lparr>trace := trace s @ [getAccount c a]\<rparr>) = (Returns sg, s1)"
        by (auto simp: provision_def tryCatch_def andThen_def on_connection_def the_connection_def
              request_def await_def Return_def Throw_def Let_def
              split: prod.splits outcome.splits)
      from submit_ReturnsD [OF this]
      obtain c' tx where "s1 = s\<lparr>trace := trace s @ [getAccount c a, getLatestBlockhash c',
                                  sendTransaction c' tx [wallet_keypair w]]\<rparr>"
        by auto
      then show ?thesis
        by (intro exI [of _ "[getAccount c a, getLatestBlockhash c',
                               sendTransaction c' tx [wallet_keypair w]]"]) simp
    qed
  qed
qed

lemma mint_Returns:
  assumes "handleMintTokens env walletName tokenMint destinationAddress amount s = (Returns v, s')"
  shows "\<exists>w mk dk c t mintInfo ta m e reqs.
           Map_get (wallets s) walletName = Some w \<and>
           PublicKey_new env tokenMint = Inr mk \<and>
           PublicKey_new env destinationAddress = Inr dk \<and>
           getAssociatedTokenAddress env mk dk = Inr ta \<and>
           connection s' = Some c \<and>
           reply_Mint env (length (trace s)) (getMint c mk) = Settled t (Inr mintInfo) \<and>
           js_mul amount (Math_pow env (Fin 10 0) (mint_decimals mintInfo)) = Fin m e \<and>
           list_all (\<lambda>call. case call of mintTo c p m d au n \<Rightarrow> False | _ \<Rightarrow> True) reqs \<and>
           trace s' = trace s @ [getMint c mk] @ reqs @
             [mintTo c (wallet_keypair w) mk ta (wallet_keypair w) \<lfloor>dval m e\<rfloor>]"
  using assms unfolding handleMintTokens_def Let_def
  by (auto elim!: andThen_ReturnsE
           dest!: get_wallet_ReturnsD lift_ReturnsD gets_ReturnsD Return_ReturnsD
                  asked_ReturnsD on_connection_ReturnsD await_ReturnsD
                  ensureConnection_Returns scaled_amount_Inr provision_Returns)

lemma SystemProgram_transfer_refused:
  "BigInt env x = Inl e \<Longrightarrow> SystemProgram_transfer env a b x = Inl e"
  "BigInt env x = Inr n \<Longrightarrow> n < 0 \<or> 2 ^ 64 \<le> n \<Longrightarrow>
   SystemProgram_transfer env a b x = Inl (u64_out_of_range n)"
  by (auto simp: SystemProgram_transfer_def encode_u64_def)

lemma createTransferInstruction_negative:
  "n < 0 \<Longrightarrow> createTransferInstruction a b c n =
     Inl (TypeError ''Blob.encode[amount] requires (length 8) Uint8Array as src'')"
  by (simp add: createTransferInstruction_def toBufferLE_8_def)

subsection \<open>Counting submissions\<close>

lemma submits_same:
  "(\<And>s. trace (snd (m s)) = trace s) \<Longrightarrow> submits_at_most 0 m"
  by (simp add: submits_at_most_def)

lemma submits_Return: "submits_at_most 0 (Return x)"
  by (rule submits_same) (simp add: Return_def)

lemma submits_Throw: "submits_at_most 0 (Throw e)"
  by (rule submits_same) (simp add: Throw_def)

lemma submits_gets: "submits_at_most 0 (gets f)"
  by (rule submits_same) (simp add: gets_def)

lemma submits_lift: "submits_at_most 0 (lift r)"
  by (cases r) (simp_all add: submits_Return submits_Throw)

lemma submits_await: "submits_at_most 0 (await p)"
  by (rule submits_same) (simp add: await_def Return_def Throw_def split: promise.splits sum.splits)

lemma submits_get_wallet: "submits_at_most 0 (get_wallet walletName)"
  by (rule submits_same)
     (simp add: get_wallet_def andThen_def gets_def Return_def Throw_def split: option.splits)

lemma submits_ensureConnection: "submits_at_most 0 (ensureConnection env)"
  by (rule submits_same) simp

lemma submits_on_connection:
  "(\<And>c. sent [f c] = []) \<Longrightarrow> submits_at_most 0 (on_connection reply f)"
  by (simp add: submits_at_most_def on_connection_def the_connection_def request_def andThen_def
        sent_append split: option.splits)

lemma submits_mono: "submits_at_most a m \<Longrightarrow> a \<le> n \<Longrightarrow> submits_at_most n m"
  unfolding submits_at_most_def by (meson le_trans)

lemma submits_andThen:
  assumes "submits_at_most a m" and "\<And>x. submits_at_most b (f x)"
  shows "submits_at_most (a + b) (andThen m f)"
  unfolding submits_at_most_def
proof
  fix s
  obtain out s1 where ms: "m s = (out, s1)" by (cases "m s")
  from assms(1) obtain txs where t1: "sent (trace s1) = sent (trace s) @ txs" "length txs \<le> a"
    unfolding submits_at_most_def using ms by (metis snd_conv)
  show "\<exists>txs. sent (trace (snd (andThen m f s))) = sent (trace s) @ txs \<and> length txs \<le> a + b"
  proof (cases out)
    case (Returns x)
    from assms(2) [of x] obtain txs' where
      t2: "sent (trace (snd (f x s1))) = sent (trace s1) @ txs'" "length txs' \<le> b"
      unfolding submits_at_most_def by blast
    from Returns ms have "andThen m f s = f x s1" by (simp add: andThen_def)
    with t1 t2 have "sent (trace (snd (andThen m f s))) = sent (trace s) @ (txs @ txs') \<and>
        length (txs @ txs') \<le> a + b"
      by simp
    then show ?thesis by blast
  next
    case (Throws e)
    with ms have "snd (andThen m f s) = s1" by (simp add: andThen_def)
    with t1 show ?thesis by auto
  next
    case Hangs
    with ms have "snd (andThen m f s) = s1" by (simp add: andThen_def)
    with t1 show ?thesis by auto
  qed
qed

lemma submits_tryCatch:
  assumes "submits_at_most a m" and "\<And>e. submits_at_most b (h e)"
  shows "submits_at_most (a + b) (tryCatch m h)"
  unfolding submits_at_most_def
proof
  fix s
  obtain out s1 where ms: "m s = (out, s1)" by (cases "m s")
  from assms(1) obtain txs where t1: "sent (trace s1) = sent (trace s) @ txs" "length txs \<le> a"
    unfolding submits_at_most_def using ms by (metis snd_conv)
  show "\<exists>txs. sent (trace (snd (tryCatch m h s))) = sent (trace s) @ txs \<and> length txs \<le> a + b"
  proof (cases out)
    case (Throws e)
    from assms(2) [of e] obtain txs' where
      t2: "sent (trace (snd (h e s1))) = sent (trace s1) @ txs'" "length txs' \<le> b"
      unfolding submits_at_most_def by blast
    from Throws ms have "tryCatch m h s = h e s1" by (simp add: tryCatch_def)
    with t1 t2 have "sent (trace (snd (tryCatch m h s))) = sent (trace s) @ (txs @ txs') \<and>
        length (txs @ txs') \<le> a + b"
      by simp
    then show ?thesis by blast
  next
    case (Returns x)
    with ms have "snd (tryCatch m h s) = s1" by (simp add: tryCatch_def)
    with t1 show ?thesis by auto
  next
    case Hangs
    with ms have "snd (tryCatch m h s) = s1" by (simp add: tryCatch_def)
    with t1 show ?thesis by auto
  qed
qed

text \<open>A step that submits nothing, followed by the rest; and the rest after the submission.\<close>

lemma submits_then:
  "submits_at_most 0 m \<Longrightarrow> (\<And>x. submits_at_most n (f x)) \<Longrightarrow> submits_at_most n (andThen m f)"
  using submits_andThen [of 0 m n f] by simp

lemma submits_caught:
  "submits_at_most 0 m \<Longrightarrow> (\<And>e. submits_at_most n (h e)) \<Longrightarrow> submits_at_most n (tryCatch m h)"
  using submits_tryCatch [of 0 m n h] by simp

lemma submits_request: "submits_at_most 1 (on_connection reply f)"
proof -
  have "length (sent [c]) \<le> 1" for c by (cases c) simp_all
  then show ?thesis
    by (auto simp: submits_at_most_def on_connection_def the_connection_def request_def
          andThen_def sent_append split: option.splits)
qed

lemma submits_submit: "submits_at_most 1 (submit env transaction wallet)"
proof -
  have rest: "submits_at_most 1 (andThen (on_connection (reply_string env) g) (\<lambda>q. await q))" for g
    using submits_andThen [OF submits_request, of 0 await "reply_string env" g]
    by (simp add: submits_await)
  show ?thesis
    unfolding submit_def Let_def
    by (rule submits_then, rule submits_on_connection, simp,
        rule submits_then, rule submits_await, rule rest)
qed

lemma submits_after_submit:
  "(\<And>x. submits_at_most 0 (f x)) \<Longrightarrow>
   submits_at_most 1 (andThen (submit env transaction wallet) f)"
  using submits_andThen [OF submits_submit, of 0 f] by simp

lemmas submits_leaves =
  submits_Return submits_Throw submits_gets submits_lift submits_await submits_get_wallet
  submits_ensureConnection

lemma submits_leaf [simp]:
  "submits_at_most n (Return x)" "submits_at_most n (Throw e)" "submits_at_most n (gets g)"
  "submits_at_most n (lift r)" "submits_at_most n (await p)"
  "submits_at_most n (get_wallet walletName)" "submits_at_most n (ensureConnection env)"
  by (rule submits_mono, rule submits_leaves, simp)+

lemma submits_lookup [simp]:
  "submits_at_most n
     (tryCatch (andThen (on_connection reply (\<lambda>c. getAccount c a))
                  (\<lambda>p. andThen (await p) (\<lambda>_. Return x)))
               (\<lambda>_. Return y))"
proof -
  have "submits_at_most 0
     (tryCatch (andThen (on_connection reply (\<lambda>c. getAccount c a))
                  (\<lambda>p. andThen (await p) (\<lambda>_. Return x)))
               (\<lambda>_. Return y))"
    by (rule submits_caught, rule submits_then, rule submits_on_connection, simp,
        rule submits_then, simp_all)
  then show ?thesis by (rule submits_mono) simp
qed

lemma transfer_tokens_at_most_one:
  "submits_at_most 1 (handleTransferTokens env fromWallet toAddress tokenMint amount)"
  unfolding handleTransferTokens_def Let_def
  by ((rule submits_then, (simp; fail)) | rule submits_after_submit | (simp; fail))+

lemma transfer_tokens_refused:
  assumes "BigInt env (Math_floor amount) = Inl e \<or>
           (\<exists>raw. BigInt env (Math_floor amount) = Inr raw \<and> raw < 0)"
  shows "submits_at_most 0 (handleTransferTokens env fromWallet toAddress tokenMint amount)"
  using assms
proof
  assume a: "BigInt env (Math_floor amount) = Inl e"
  show ?thesis
    unfolding handleTransferTokens_def Let_def a lift_Inl andThen_Throw
    by ((rule submits_then, (simp; fail)) | (simp; fail))+
next
  assume "\<exists>raw. BigInt env (Math_floor amount) = Inr raw \<and> raw < 0"
  then obtain raw where a: "BigInt env (Math_floor amount) = Inr raw" and n: "raw < 0" by blast
  show ?thesis
    unfolding handleTransferTokens_def Let_def a lift_Inr andThen_Return
      createTransferInstruction_negative [OF n] lift_Inl andThen_Throw
    by ((rule submits_then, (simp; fail)) | (simp; fail))+
qed

lemma transfer_sol_refused:
  assumes "\<And>a b. SystemProgram_transfer env a b (Math_floor (js_mul amount LAMPORTS_PER_SOL)) = Inl e"
  shows "submits_at_most 0 (handleTransferSol env fromWallet toAddress amount)"
    and "finishes (handleTransferSol env fromWallet toAddress amount)"
    and "fst (handleTransferSol env fromWallet toAddress amount s) \<noteq> Returns v"
proof -
  show "submits_at_most 0 (handleTransferSol env fromWallet toAddress amount)"
    unfolding handleTransferSol_def Let_def assms lift_Inl andThen_Throw
    by ((rule submits_then, (simp; fail)) | (simp; fail))+
  show "finishes (handleTransferSol env fromWallet toAddress amount)"
    unfolding handleTransferSol_def Let_def assms lift_Inl andThen_Throw
    by (rule finishes_general | (simp; fail))+
  show "fst (handleTransferSol env fromWallet toAddress amount s) \<noteq> Returns v"
  proof
    assume "fst (handleTransferSol env fromWallet toAddress amount s) = Returns v"
    then have "handleTransferSol env fromWallet toAddress amount s =
        (Returns v, snd (handleTransferSol env fromWallet toAddress amount s))"
      by (simp add: prod_eq_iff)
    from transfer_sol_Returns [OF this] obtain n where
      "BigInt env (Math_floor (js_mul amount LAMPORTS_PER_SOL)) = Inr n" "0 \<le> n" "n < 2 ^ 64"
      by blast
    then have "SystemProgram_transfer env [] [] (Math_floor (js_mul amount LAMPORTS_PER_SOL)) =
        Inr (SystemTransfer [] [] n)"
      by (simp add: SystemProgram_transfer_def encode_u64_def)
    with assms [of "[]" "[]"] show False by simp
  qed
qed

lemma refused_throws:
  assumes "finishes m" and "\<And>v. fst (m s) \<noteq> Returns v"
  shows "\<exists>e. fst (m s) = Throws e"
  using assms by (cases "fst (m s)") (auto simp: finishes_def)

section \<open>Signs and sizes of amounts\<close>

lemma round_half_even_nonneg: "0 \<le> n \<Longrightarrow> 0 < d \<Longrightarrow> 0 \<le> round_half_even n d"
  by (simp add: round_half_even_def Let_def pos_imp_zdiv_nonneg_iff)

lemma round_ratio_nonneg:
  assumes "0 \<le> n" and "0 < d"
  shows "round_ratio n d = PosInf \<or> (\<exists>m e. round_ratio n d = Fin m e \<and> 0 \<le> m)"
proof (cases "n = 0")
  case True
  then show ?thesis by (simp add: round_ratio_def)
next
  case False
  with assms have n: "0 < n" by simp
  define k where "k = binade \<bar>n\<bar> d"
  define m0 where "m0 = (if 0 \<le> k then round_half_even \<bar>n\<bar> (d * 2 ^ nat k)
                         else round_half_even (\<bar>n\<bar> * 2 ^ nat (- k)) d)"
  have "0 \<le> m0"
    unfolding m0_def using n assms(2) by (simp add: round_half_even_nonneg)
  moreover have "round_ratio n d =
      (if 971 < k \<or> (k = 971 \<and> m0 = 2 ^ 53) then PosInf else Fin m0 k)"
  proof -
    from n have f: "(n = 0) = False" "(n < 0) = False" "sgn n = 1" by simp_all
    show ?thesis
      by (simp only: round_ratio_def Let_def k_def m0_def f if_False mult_1)
  qed
  ultimately show ?thesis
    by (cases "971 < k \<or> (k = 971 \<and> m0 = 2 ^ 53)") (simp_all only: if_True if_False, blast+)
qed

lemma dval_nonneg: "0 \<le> m \<Longrightarrow> 0 \<le> dval m e"
  by (simp add: dval_def)

lemma lamports_nonneg:
  assumes "0 \<le> m"
  shows "js_mul (Fin m e) LAMPORTS_PER_SOL = PosInf \<or>
         (\<exists>m' e'. js_mul (Fin m e) LAMPORTS_PER_SOL = Fin m' e' \<and> 0 \<le> \<lfloor>dval m' e'\<rfloor>)"
proof -
  have "round_ratio n d = PosInf \<or> (\<exists>m' e'. round_ratio n d = Fin m' e' \<and> 0 \<le> \<lfloor>dval m' e'\<rfloor>)"
    if "0 \<le> n" "0 < d" for n d
    using round_ratio_nonneg [OF that] dval_nonneg by fastforce
  then show ?thesis
    using assms by (simp add: LAMPORTS_PER_SOL_def)
qed

lemma createTransferInstruction_nonneg:
  "0 \<le> n \<Longrightarrow> createTransferInstruction a b c n =
     Inr (TokenTransfer a b c (n div 16 ^ (hex_length n - 16)))"
  by (simp add: createTransferInstruction_def toBufferLE_8_def)

lemma leading_digits_u64: "0 \<le> n \<Longrightarrow> n < 2 ^ 64 \<Longrightarrow> n div 16 ^ (hex_length n - 16) = n"
  using hex_length_u64 [of n] by simp

section \<open>Native transfers: the lamport amount\<close>

lemma lamports_of_product:
  "BigInt env (Math_floor (js_mul amount LAMPORTS_PER_SOL)) = Inr n \<Longrightarrow>
   \<exists>m' e'. js_mul amount LAMPORTS_PER_SOL = Fin m' e' \<and> n = \<lfloor>dval m' e'\<rfloor>"
  by (rule BigInt_floor_Inr)

lemma transfer_sol_out_of_range:
  assumes "js_mul amount LAMPORTS_PER_SOL = Fin m' e'"
    and "\<lfloor>dval m' e'\<rfloor> < 0 \<or> 2 ^ 64 \<le> \<lfloor>dval m' e'\<rfloor>"
  shows "(\<exists>err. fst (handleTransferSol env fromWallet toAddress amount s) = Throws err) \<and>
         sent (trace (snd (handleTransferSol env fromWallet toAddress amount s))) = sent (trace s)"
proof -
  have b: "BigInt env (Math_floor (js_mul amount LAMPORTS_PER_SOL)) = Inr \<lfloor>dval m' e'\<rfloor>"
    using assms(1) by (simp only: BigInt_floor)
  have r: "SystemProgram_transfer env a b (Math_floor (js_mul amount LAMPORTS_PER_SOL)) =
      Inl (u64_out_of_range \<lfloor>dval m' e'\<rfloor>)" for a b
    using b assms(2) by (rule SystemProgram_transfer_refused(2))
  from transfer_sol_refused(1) [OF r]
  have "sent (trace (snd (handleTransferSol env fromWallet toAddress amount s))) = sent (trace s)"
    unfolding submits_at_most_def by (metis append_Nil2 le_zero_eq length_0_conv)
  moreover have "\<exists>err. fst (handleTransferSol env fromWallet toAddress amount s) = Throws err"
    using transfer_sol_refused(2) [OF r] transfer_sol_refused(3) [OF r]
    by (rule refused_throws)
  ultimately show ?thesis by simp
qed

lemma transfer_sol_not_finite:
  assumes "js_mul amount LAMPORTS_PER_SOL = PosInf"
  shows "(\<exists>err. fst (handleTransferSol env fromWallet toAddress amount s) = Throws err) \<and>
         sent (trace (snd (handleTransferSol env fromWallet toAddress amount s))) = sent (trace s)"
proof -
  have b: "BigInt env (Math_floor (js_mul amount LAMPORTS_PER_SOL)) = Inl (not_an_integer env PosInf)"
    using assms by (simp add: BigInt_def)
  have r: "SystemProgram_transfer env a b (Math_floor (js_mul amount LAMPORTS_PER_SOL)) =
      Inl (not_an_integer env PosInf)" for a b
    using b by (rule SystemProgram_transfer_refused(1))
  from transfer_sol_refused(1) [OF r]
  have "sent (trace (snd (handleTransferSol env fromWallet toAddress amount s))) = sent (trace s)"
    unfolding submits_at_most_def by (metis append_Nil2 le_zero_eq length_0_conv)
  moreover have "\<exists>err. fst (handleTransferSol env fromWallet toAddress amount s) = Throws err"
    using transfer_sol_refused(2) [OF r] transfer_sol_refused(3) [OF r]
    by (rule refused_throws)
  ultimately show ?thesis by simp
qed


lemma alice_bound: "Map_get (wallets (with_alice initial_state)) ''alice'' = Some alice"
  by (simp add: with_alice_def Map_get_def)

lemma fresh_trace: "trace (with_alice initial_state) = []"
  by (simp add: with_alice_def initial_state_def)



text \<open>
  The floor of the exact product of the received double with \<open>10^9\<close> is not what the
  handler computes either: for the decimal 0.3 the received double is below 0.3, the
  exact product is below 300000000, and the double-precision product is 300000000.
\<close>

lemma transfer_of_0_3_sol:
  "js_decimal 3 1 = Fin 5404319552844595 (- 54) \<and>
   Math_floor (js_mul (js_decimal 3 1) LAMPORTS_PER_SOL) = Fin 300000000 0 \<and>
   \<lfloor>dval 5404319552844595 (- 54) * 10 ^ 9\<rfloor> = 299999999"
  by code_simp

section \<open>Token transfers: one submission\<close>




section \<open>Token amounts: raw units and decimal units\<close>

lemma floor_of_two_to_64: "\<lfloor>dval 1 64\<rfloor> = 2 ^ 64"
  by (simp add: dval_def)


lemma transfer_tokens_negative:
  assumes "\<lfloor>dval m e\<rfloor> < 0"
  shows "fst (handleTransferTokens env fromWallet toAddress tokenMint (Fin m e) s) \<noteq> Returns v"
    and "sent (trace (snd (handleTransferTokens env fromWallet toAddress tokenMint (Fin m e) s))) =
           sent (trace s)"
proof -
  have b: "BigInt env (Math_floor (Fin m e)) = Inr \<lfloor>dval m e\<rfloor>"
    by (rule BigInt_floor)
  show "fst (handleTransferTokens env fromWallet toAddress tokenMint (Fin m e) s) \<noteq> Returns v"
  proof
    assume "fst (handleTransferTokens env fromWallet toAddress tokenMint (Fin m e) s) = Returns v"
    then have "handleTransferTokens env fromWallet toAddress tokenMint (Fin m e) s =
        (Returns v, snd (handleTransferTokens env fromWallet toAddress tokenMint (Fin m e) s))"
      by (simp add: prod_eq_iff)
    from transfer_tokens_Returns [OF this] obtain raw where
      "BigInt env (Math_floor (Fin m e)) = Inr raw" "0 \<le> raw"
      by blast
    with b assms show False by (simp del: Math_floor.simps)
  qed
  from b assms have "BigInt env (Math_floor (Fin m e)) = Inl undefined \<or>
           (\<exists>raw. BigInt env (Math_floor (Fin m e)) = Inr raw \<and> raw < 0)"
    by blast
  from transfer_tokens_refused [OF this]
  show "sent (trace (snd (handleTransferTokens env fromWallet toAddress tokenMint (Fin m e) s))) =
           sent (trace s)"
    unfolding submits_at_most_def by (metis append_Nil2 le_zero_eq length_0_conv)
qed


lemma one_and_a_half: "js_decimal 15 1 = Fin 6755399441055744 (- 52)"
  by code_simp


section \<open>Timeout guard\<close>

lemma withTimeout_never:
  "withTimeout Pending (Some d) = Settled d (Inl (Error ''Operation timed out''))"
  by (simp add: withTimeout_def setTimeout_reject_def)

lemma withTimeout_late:
  "d < t \<Longrightarrow> withTimeout (Settled t r) (Some d) = Settled d (Inl (Error ''Operation timed out''))"
  by (simp add: withTimeout_def setTimeout_reject_def)

lemma withTimeout_early:
  "t \<le> d \<Longrightarrow> withTimeout (Settled t r) (Some d) = Settled t r"
  by (simp add: withTimeout_def setTimeout_reject_def)

lemma withTimeout_default: "withTimeout p None = withTimeout p (Some 10000)"
  by (simp add: withTimeout_def)

lemma withTimeout_overdue:
  "p = Pending \<or> (\<exists>t r. p = Settled t r \<and> d < t) \<Longrightarrow>
   withTimeout p (Some d) = Settled d (Inl (Error ''Operation timed out''))"
  by (auto simp: withTimeout_never withTimeout_late)

text \<open>
  The health check, once the connection is there: what it returns is decided by the
  version request, raced against a timer of 5000 ms.
\<close>

lemma health_check_probe:
  assumes "ensureConnection env s = (Returns (), s1)" and "connection s1 = Some c"
    and "withTimeout (reply_string env (length (trace s)) (getVersion c)) (Some 5000) =
           Settled t r"
  shows "handleHealthCheck env s =
           (Returns (case r of
                       Inr version \<Rightarrow>
                         JObj [(''status'', JStr ''healthy''),
                               (''checks'', health_checks env s ''healthy''),
                               (''solanaVersion'', JStr version)]
                     | Inl error \<Rightarrow>
                         JObj [(''status'', JStr ''degraded''),
                               (''checks'', health_checks env s ''unhealthy''),
                               (''error'', JStr (if is_Error error then message error
                                                 else ''Unknown error''))]),
            s1\<lparr>trace := trace s @ [getVersion c]\<rparr>)"
proof -
  from assms(1) have "trace s1 = trace s" by (simp add: ensureConnection_Returns)
  with assms show ?thesis
    by (cases r) (simp_all add: handleHealthCheck_def prog_defs)
qed

lemma health_check_timeout:
  assumes "ensureConnection env s = (Returns (), s1)" and "connection s1 = Some c"
    and "reply_string env (length (trace s)) (getVersion c) = Pending \<or>
         (\<exists>t r. reply_string env (length (trace s)) (getVersion c) = Settled t r \<and> 5000 < t)"
  shows "handleHealthCheck env s =
           (Returns (JObj [(''status'', JStr ''degraded''),
                           (''checks'', health_checks env s ''unhealthy''),
                           (''error'', JStr ''Operation timed out'')]),
            s1\<lparr>trace := trace s @ [getVersion c]\<rparr>)"
  using health_check_probe [OF assms(1,2) withTimeout_overdue [OF assms(3)]] by simp

lemma health_check_in_time:
  assumes "ensureConnection env s = (Returns (), s1)" and "connection s1 = Some c"
    and "reply_string env (length (trace s)) (getVersion c) = Settled t r" and "t \<le> 5000"
  shows "handleHealthCheck env s =
           (Returns (case r of
                       Inr version \<Rightarrow>
                         JObj [(''status'', JStr ''healthy''),
                               (''checks'', health_checks env s ''healthy''),
                               (''solanaVersion'', JStr version)]
                     | Inl error \<Rightarrow>
                         JObj [(''status'', JStr ''degraded''),
                               (''checks'', health_checks env s ''unhealthy''),
                               (''error'', JStr (if is_Error error then message error
                                                 else ''Unknown error''))]),
            s1\<lparr>trace := trace s @ [getVersion c]\<rparr>)"
  using health_check_probe [OF assms(1,2), of t r] assms(3,4) by (simp add: withTimeout_early)

lemma get_balance_timeout:
  assumes "Map_get (wallets s) walletName = Some w"
    and "ensureConnection env s = (Returns (), s1)" and "connection s1 = Some c"
    and "withTimeout (reply_number env (length (trace s)) (getBalance c (publicKey (wallet_keypair w))))
           (Some 10000) = Settled 10000 (Inl (Error ''Operation timed out''))"
  shows "fst (handleGetBalance env walletName s) = Throws (Error ''Operation timed out'')"
proof -
  from assms(2) have "trace s1 = trace s" by (simp add: ensureConnection_Returns)
  with assms show ?thesis
    by (simp add: handleGetBalance_def get_wallet_def prog_defs withTimeout_default)
qed

text \<open>
  Claim C6. A promise wrapped by \<open>withTimeout\<close> that never settles, or settles only after
  the deadline, becomes a rejection with "Operation timed out" at the deadline; one that
  settles before the deadline is returned unchanged. Without a deadline argument the
  deadline is 10000 ms. The health check makes one version request and wraps it with a
  deadline of 5000 ms: a reply within 5000 ms decides the result, "healthy" with the
  version when it is fulfilled and "degraded" with the error's message when it is
  rejected; a reply after 5000 ms, or none, gives "degraded" with the timeout message.
  \<open>get_balance\<close> uses the default: when its balance request is unsettled after 10000 ms
  the handler throws the timeout error.
\<close>

theorem timeout_guard:
  "(p = Pending \<or> (\<exists>t r. p = Settled t r \<and> d < t) \<longrightarrow>
      withTimeout p (Some d) = Settled d (Inl (Error ''Operation timed out''))) \<and>
   (\<forall>t r. p = Settled t r \<and> t < d \<longrightarrow> withTimeout p (Some d) = p) \<and>
   withTimeout p None = withTimeout p (Some 10000) \<and>
   (ensureConnection env s = (Returns (), s1) \<and> connection s1 = Some c \<and>
    (reply_string env (length (trace s)) (getVersion c) = Pending \<or>
     (\<exists>t r. reply_string env (length (trace s)) (getVersion c) = Settled t r \<and> 5000 < t)) \<longrightarrow>
      handleHealthCheck env s =
        (Returns (JObj [(''status'', JStr ''degraded''),
                        (''checks'', health_checks env s ''unhealthy''),
                        (''error'', JStr ''Operation timed out'')]),
         s1\<lparr>trace := trace s @ [getVersion c]\<rparr>)) \<and>
   (ensureConnection env s = (Returns (), s1) \<and> connection s1 = Some c \<and>
    reply_string env (length (trace s)) (getVersion c) = Settled t (Inr version) \<and> t \<le> 5000 \<longrightarrow>
      handleHealthCheck env s =
        (Returns (JObj [(''status'', JStr ''healthy''),
                        (''checks'', health_checks env s ''healthy''),
                        (''solanaVersion'', JStr version)]),
         s1\<lparr>trace := trace s @ [getVersion c]\<rparr>)) \<and>
   (ensureConnection env s = (Returns (), s1) \<and> connection s1 = Some c \<and>
    reply_string env (length (trace s)) (getVersion c) = Settled t (Inl err) \<and> t \<le> 5000 \<longrightarrow>
      handleHealthCheck env s =
        (Returns (JObj [(''status'', JStr ''degraded''),
                        (''checks'', health_checks env s ''unhealthy''),
                        (''error'', JStr (if is_Error err then message err
                                          else ''Unknown error''))]),
         s1\<lparr>trace := trace s @ [getVersion c]\<rparr>)) \<and>
   (Map_get (wallets s) walletName = Some w \<and>
    ensureConnection env s = (Returns (), s1) \<and> connection s1 = Some c \<and>
    (reply_number env (length (trace s)) (getBalance c (publicKey (wallet_keypair w))) = Pending \<or>
     (\<exists>t r. reply_number env (length (trace s)) (getBalance c (publicKey (wallet_keypair w))) =
              Settled t r \<and> 10000 < t)) \<longrightarrow>
      fst (handleGetBalance env walletName s) = Throws (Error ''Operation timed out''))"
proof (intro conjI impI allI)
  assume "p = Pending \<or> (\<exists>t r. p = Settled t r \<and> d < t)"
  then show "withTimeout p (Some d) = Settled d (Inl (Error ''Operation timed out''))"
    by (rule withTimeout_overdue)
next
  fix t r
  assume "p = Settled t r \<and> t < d"
  then show "withTimeout p (Some d) = p" by (simp add: withTimeout_early)
next
  show "withTimeout p None = withTimeout p (Some 10000)" by (rule withTimeout_default)
next
  assume "ensureConnection env s = (Returns (), s1) \<and> connection s1 = Some c \<and>
    (reply_string env (length (trace s)) (getVersion c) = Pending \<or>
     (\<exists>t r. reply_string env (length (trace s)) (getVersion c) = Settled t r \<and> 5000 < t))"
  then show "handleHealthCheck env s =
        (Returns (JObj [(''status'', JStr ''degraded''),
                        (''checks'', health_checks env s ''unhealthy''),
                        (''error'', JStr ''Operation timed out'')]),
         s1\<lparr>trace := trace s @ [getVersion c]\<rparr>)"
    by (intro health_check_timeout) simp_all
next
  assume "ensureConnection env s = (Returns (), s1) \<and> connection s1 = Some c \<and>
    reply_string env (length (trace s)) (getVersion c) = Settled t (Inr version) \<and> t \<le> 5000"
  then show "handleHealthCheck env s =
        (Returns (JObj [(''status'', JStr ''healthy''),
                        (''checks'', health_checks env s ''healthy''),
                        (''solanaVersion'', JStr version)]),
         s1\<lparr>trace := trace s @ [getVersion c]\<rparr>)"
    using health_check_in_time [of env s s1 c t "Inr version"] by simp
next
  assume "ensureConnection env s = (Returns (), s1) \<and> connection s1 = Some c \<and>
    reply_string env (length (trace s)) (getVersion c) = Settled t (Inl err) \<and> t \<le> 5000"
  then show "handleHealthCheck env s =
        (Returns (JObj [(''status'', JStr ''degraded''),
                        (''checks'', health_checks env s ''unhealthy''),
                        (''error'', JStr (if is_Error err then message err
                                          else ''Unknown error''))]),
         s1\<lparr>trace := trace s @ [getVersion c]\<rparr>)"
    using health_check_in_time [of env s s1 c t "Inl err"] by simp
next
  assume a: "Map_get (wallets s) walletName = Some w \<and>
    ensureConnection env s = (Returns (), s1) \<and> connection s1 = Some c \<and>
    (reply_number env (length (trace s)) (getBalance c (publicKey (wallet_keypair w))) = Pending \<or>
     (\<exists>t r. reply_number env (length (trace s)) (getBalance c (publicKey (wallet_keypair w))) =
              Settled t r \<and> 10000 < t))"
  then have "withTimeout (reply_number env (length (trace s)) (getBalance c (publicKey (wallet_keypair w))))
           (Some 10000) = Settled 10000 (Inl (Error ''Operation timed out''))"
    by (intro withTimeout_overdue) simp
  with a show "fst (handleGetBalance env walletName s) = Throws (Error ''Operation timed out'')"
    by (intro get_balance_timeout [where w = w and c = c and ?s1.0 = s1]) simp_all
qed

theorem timeout_guard_witness:
  "withTimeout (Settled 7000 (Inr ''1.18.22'')) (Some 5000) =
     Settled 5000 (Inl (Error ''Operation timed out'')) \<and>
   withTimeout (Settled 7000 (Inr ''1.18.22'')) None = Settled 7000 (Inr ''1.18.22'') \<and>
   withTimeout (Settled 3000 (Inl (Error ''fetch failed''))) (Some 5000) =
     (Settled 3000 (Inl (Error ''fetch failed'')) :: string promise) \<and>
   ensureConnection slow_env (with_alice initial_state) =
     (Returns (), with_alice initial_state\<lparr>connection := Some devnet_connection,
                                             connectionInitialized := True\<rparr>) \<and>
   reply_string slow_env 0 (getVersion devnet_connection) = Settled 7000 (Inr ''1.18.22'') \<and>
   handleHealthCheck slow_env (with_alice initial_state) =
     (Returns (JObj [(''status'', JStr ''degraded''),
                     (''checks'', health_checks slow_env (with_alice initial_state) ''unhealthy''),
                     (''error'', JStr ''Operation timed out'')]),
      with_alice initial_state\<lparr>connection := Some devnet_connection,
                                connectionInitialized := True,
                                trace := [getVersion devnet_connection]\<rparr>) \<and>
   reply_string mock_env 0 (getVersion devnet_connection) = Settled 20 (Inr ''1.18.22'') \<and>
   handleHealthCheck mock_env (with_alice initial_state) =
     (Returns (JObj [(''status'', JStr ''healthy''),
                     (''checks'', health_checks mock_env (with_alice initial_state) ''healthy''),
                     (''solanaVersion'', JStr ''1.18.22'')]),
      with_alice initial_state\<lparr>connection := Some devnet_connection,
                                connectionInitialized := True,
                                trace := [getVersion devnet_connection]\<rparr>) \<and>
   reply_string refusing_env 0 (getVersion devnet_connection) =
     Settled 3000 (Inl (Error ''fetch failed'')) \<and>
   handleHealthCheck refusing_env (with_alice initial_state) =
     (Returns (JObj [(''status'', JStr ''degraded''),
                     (''checks'', health_checks refusing_env (with_alice initial_state) ''unhealthy''),
                     (''error'', JStr ''fetch failed'')]),
      with_alice initial_state\<lparr>connection := Some devnet_connection,
                                connectionInitialized := True,
                                trace := [getVersion devnet_connection]\<rparr>) \<and>
   Map_get (wallets (with_alice initial_state)) ''alice'' = Some alice \<and>
   reply_number slow_env 0 (getBalance devnet_connection (publicKey (wallet_keypair alice))) = Pending \<and>
   fst (handleGetBalance slow_env ''alice'' (with_alice initial_state)) =
     Throws (Error ''Operation timed out'')"
proof -
  let ?s = "with_alice initial_state"
  let ?s1 = "?s\<lparr>connection := Some devnet_connection, connectionInitialized := True\<rparr>"
  have c1: "ensureConnection slow_env ?s = (Returns (), ?s1)" by code_simp
  have c2: "ensureConnection mock_env ?s = (Returns (), ?s1)" by code_simp
  have c3: "ensureConnection refusing_env ?s = (Returns (), ?s1)" by code_simp
  have v1: "reply_string slow_env 0 (getVersion devnet_connection) = Settled 7000 (Inr ''1.18.22'')"
    by (simp add: slow_env_def)
  have v2: "reply_string mock_env 0 (getVersion devnet_connection) = Settled 20 (Inr ''1.18.22'')"
    by (simp add: mock_env_def mock_string_def)
  have v3: "reply_string refusing_env 0 (getVersion devnet_connection) =
              Settled 3000 (Inl (Error ''fetch failed''))"
    by (simp add: refusing_env_def)
  have b: "reply_number slow_env 0 (getBalance devnet_connection (publicKey (wallet_keypair alice))) = Pending"
    by (simp add: slow_env_def)
  have w: "Map_get (wallets ?s) ''alice'' = Some alice"
    by (simp add: with_alice_def Map_get_def)
  have t: "trace ?s = []"
    by (simp add: with_alice_def initial_state_def)
  have u: "?s1\<lparr>trace := [getVersion devnet_connection]\<rparr> =
           ?s\<lparr>connection := Some devnet_connection, connectionInitialized := True,
                trace := [getVersion devnet_connection]\<rparr>"
    by simp
  from c1 c2 c3 v1 v2 v3 b w t
    timeout_guard [of "Settled 7000 (Inr ''1.18.22'')" 5000 slow_env ?s ?s1
                      devnet_connection _ _ _ "''alice''" alice]
    timeout_guard [of "Settled 7000 (Inr ''1.18.22'')" 10000 mock_env ?s ?s1
                      devnet_connection 20 "''1.18.22''" _ "''alice''" alice]
    timeout_guard [of "Settled 3000 (Inl (Error ''fetch failed'')) :: string promise" 5000
                      refusing_env ?s ?s1 devnet_connection 3000 _ "Error ''fetch failed''"
                      "''alice''" alice]
  show ?thesis by (simp del: One_nat_def)
qed

end
